theory Spec2Isabelle
  imports Main "HOL-Library.Word" "HOL-Library.Monad_Syntax"
begin

unbundle bit_operations_syntax

section \<open>The Sparse Image Format library (sif-io.c)\<close>

text \<open>
  A shallow embedding of \<^verbatim>\<open>sif-io.c\<close>. Every C function is a HOL function of the
  same name (a leading underscore of the C name is dropped). A C \<^verbatim>\<open>long\<close> or
  \<^verbatim>\<open>int\<close> is an \<^typ>\<open>int\<close>, a byte is an \<^typ>\<open>8 word\<close>, an array is a list.
  The build configuration is the one of the first branch of the source's conditionals:
  a little-endian host. An access outside an array, a failed \<^verbatim>\<open>assert\<close> and a division
  by zero are undefined behaviour: the function returns \<^term>\<open>None\<close>. Allocation is
  taken to succeed. The diagnostic fields \<^verbatim>\<open>sys_error_no\<close> and
  \<^verbatim>\<open>error_line_no\<close> of the handle are left out.
\<close>

subsection \<open>Memory\<close>

type_synonym byte = "8 word"

definition rd :: "'a list \<Rightarrow> int \<Rightarrow> 'a option" where
  "rd xs i = (if 0 \<le> i \<and> i < int (length xs) then Some (xs ! nat i) else None)"

definition wr :: "'a list \<Rightarrow> int \<Rightarrow> 'a \<Rightarrow> 'a list option" where
  "wr xs i v = (if 0 \<le> i \<and> i < int (length xs) then Some (xs[nat i := v]) else None)"

definition memcpy :: "byte list \<Rightarrow> int \<Rightarrow> byte list \<Rightarrow> int \<Rightarrow> int \<Rightarrow> byte list option" where
  \<comment> \<open>\<^verbatim>\<open>memcpy(dst + d, src + s, n)\<close>\<close>
  "memcpy dst d src s n =
     (if 0 \<le> d \<and> 0 \<le> s \<and> 0 \<le> n \<and> d + n \<le> int (length dst) \<and> s + n \<le> int (length src)
      then Some (take (nat d) dst @ take (nat n) (drop (nat s) src) @ drop (nat (d + n)) dst)
      else None)"

definition memset :: "byte list \<Rightarrow> int \<Rightarrow> byte \<Rightarrow> int \<Rightarrow> byte list option" where
  \<comment> \<open>\<^verbatim>\<open>memset(dst + d, c, n)\<close>\<close>
  "memset dst d c n =
     (if 0 \<le> d \<and> 0 \<le> n \<and> d + n \<le> int (length dst)
      then Some (take (nat d) dst @ replicate (nat n) c @ drop (nat (d + n)) dst)
      else None)"

definition bzero :: "byte list \<Rightarrow> int \<Rightarrow> byte list option" where
  "bzero buf n = memset buf 0 0 n"

definition memcmp :: "byte list \<Rightarrow> int \<Rightarrow> byte list \<Rightarrow> int \<Rightarrow> int \<Rightarrow> bool option" where
  \<comment> \<open>\<^verbatim>\<open>memcmp(a + i, b + j, n) == 0\<close>\<close>
  "memcmp a i b j n =
     (if 0 \<le> i \<and> 0 \<le> j \<and> 0 \<le> n \<and> i + n \<le> int (length a) \<and> j + n \<le> int (length b)
      then Some (take (nat n) (drop (nat i) a) = take (nat n) (drop (nat j) b))
      else None)"

definition malloc :: "int \<Rightarrow> byte list \<Rightarrow> byte list" where
  \<comment> \<open>The \<open>n\<close> bytes returned by \<^verbatim>\<open>malloc(n)\<close>; their indeterminate contents are the
      second argument.\<close>
  "malloc n junk = take (nat n) junk @ replicate (nat n - length junk) 0"

fun strcmp :: "byte list \<Rightarrow> byte list \<Rightarrow> int option" where
  "strcmp (a # as) (b # bs) =
     (if a \<noteq> b then Some (if a < b then - 1 else 1)
      else if a = 0 then Some 0
      else strcmp as bs)"
| "strcmp _ _ = None"

fun strlen :: "byte list \<Rightarrow> int option" where
  "strlen [] = None"
| "strlen (c # cs) = (if c = 0 then Some 0 else map_option (\<lambda>n. n + 1) (strlen cs))"

definition c_div :: "int \<Rightarrow> int \<Rightarrow> int" where
  \<comment> \<open>C division truncates towards zero.\<close>
  "c_div a b = sgn a * sgn b * (\<bar>a\<bar> div \<bar>b\<bar>)"

definition c_mod :: "int \<Rightarrow> int \<Rightarrow> int" where
  "c_mod a b = a - b * c_div a b"

definition c_MAX :: "int \<Rightarrow> int \<Rightarrow> int" where
  \<comment> \<open>The macro \<^verbatim>\<open>MAX\<close>.\<close>
  "c_MAX x y = (if x > y then x else y)"

definition c_MIN :: "int \<Rightarrow> int \<Rightarrow> int" where
  \<comment> \<open>The macro \<^verbatim>\<open>MIN\<close>.\<close>
  "c_MIN x y = (if x < y then x else y)"

definition CEIL_DIV :: "int \<Rightarrow> int \<Rightarrow> int" where
  \<comment> \<open>The macro compares the quotient of the two numbers as doubles with their integer
      quotient; on positive longs the two agree exactly when the division leaves no
      remainder.\<close>
  "CEIL_DIV x y = (if c_mod x y = 0 then c_div x y else c_div x y + 1)"

subsection \<open>The stream of the C library\<close>

text \<open>
  A stream is the byte contents of the file and a position. The device itself never
  fails: a seek fails on a negative offset, a read is short at the end of the file, a
  write of items of size zero writes no item.
\<close>

record FILE =
  contents :: "byte list"
  pos :: nat

definition fseek :: "FILE \<Rightarrow> int \<Rightarrow> FILE \<times> int" where
  \<comment> \<open>\<^verbatim>\<open>fseek(fp, off, SEEK_SET)\<close>\<close>
  "fseek fp off = (if off < 0 then (fp, - 1) else (fp\<lparr>pos := nat off\<rparr>, 0))"

definition write_at :: "byte list \<Rightarrow> nat \<Rightarrow> byte list \<Rightarrow> byte list" where
  "write_at cs p bs = take p cs @ replicate (p - length cs) 0 @ bs @ drop (p + length bs) cs"

definition fwrite :: "byte list \<Rightarrow> int \<Rightarrow> int \<Rightarrow> FILE \<Rightarrow> (FILE \<times> int) option" where
  "fwrite ptr sz nmemb fp =
     (if sz < 0 \<or> nmemb < 0 then None
      else if sz = 0 \<or> nmemb = 0 then Some (fp, 0)
      else if int (length ptr) < sz * nmemb then None
      else Some (fp\<lparr>contents := write_at (contents fp) (pos fp) (take (nat (sz * nmemb)) ptr),
                    pos := pos fp + nat (sz * nmemb)\<rparr>, nmemb))"

definition fread :: "byte list \<Rightarrow> int \<Rightarrow> int \<Rightarrow> FILE \<Rightarrow> (byte list \<times> FILE \<times> int) option" where
  "fread ptr sz nmemb fp =
     (if sz < 0 \<or> nmemb < 0 then None
      else if sz = 0 \<or> nmemb = 0 then Some (ptr, fp, 0)
      else let got = take (nat (sz * nmemb)) (drop (pos fp) (contents fp)) in
        if length ptr < length got then None
        else Some (got @ drop (length got) ptr, fp\<lparr>pos := pos fp + length got\<rparr>,
                   int (length got) div sz))"

definition ftruncate :: "FILE \<Rightarrow> int \<Rightarrow> FILE \<times> int" where
  "ftruncate fp len =
     (if len < 0 then (fp, - 1)
      else (fp\<lparr>contents := take (nat len) (contents fp) @ replicate (nat len - length (contents fp)) 0\<rparr>, 0))"

subsection \<open>Bits, hashing and byte order\<close>

definition SIF_HASH_TABLE_SIZE :: nat where
  "SIF_HASH_TABLE_SIZE = 128"

definition SIF_GET_BIT :: "byte list \<Rightarrow> int \<Rightarrow> byte option" where
  "SIF_GET_BIT uca i =
     do { b \<leftarrow> rd uca (c_div i 8); Some (drop_bit (nat (7 - c_mod i 8)) b AND 1) }"

definition SIF_SET_BIT :: "byte list \<Rightarrow> int \<Rightarrow> byte list option" where
  "SIF_SET_BIT uca i =
     do { b \<leftarrow> rd uca (c_div i 8); wr uca (c_div i 8) (b OR push_bit (nat (7 - c_mod i 8)) 1) }"

definition SIF_CLEAR_BIT :: "byte list \<Rightarrow> int \<Rightarrow> byte list option" where
  "SIF_CLEAR_BIT uca i =
     do { b \<leftarrow> rd uca (c_div i 8);
          wr uca (c_div i 8) (b AND NOT (push_bit (nat (7 - c_mod i 8)) 1)) }"

fun sif_hash_loop :: "byte list \<Rightarrow> 32 word \<Rightarrow> 32 word option" where
  "sif_hash_loop [] hash = None"
| "sif_hash_loop (c # str) hash =
     (if c = 0 then Some hash else sif_hash_loop str ((push_bit 5 hash + hash) + ucast c))"

definition sif_hash :: "byte list \<Rightarrow> 32 word option" where
  "sif_hash str = sif_hash_loop str 5381"

function sif_swap_bytes_inner :: "byte list \<Rightarrow> int \<Rightarrow> int \<Rightarrow> int \<Rightarrow> int \<Rightarrow> byte list option" where
  \<comment> \<open>The inner loop of \<^verbatim>\<open>_sif_swap_bytes\<close>; its counter \<open>j\<close> is never read. The outer
      loop enters it only with \<open>2 \<le> elem_size\<close>.\<close>
  "sif_swap_bytes_inner buffer i k n_bytes elem_size =
     (if k < n_bytes \<and> 0 < elem_size then
        do { tmp \<leftarrow> rd buffer k;
             bi \<leftarrow> rd buffer i;
             buffer \<leftarrow> wr buffer k bi;
             buffer \<leftarrow> wr buffer i tmp;
             sif_swap_bytes_inner buffer i (k + elem_size) n_bytes elem_size }
      else Some buffer)"
  by pat_completeness auto
termination
  by (relation "measure (\<lambda>(buffer, i, k, n_bytes, elem_size). nat (n_bytes - k))") auto

function sif_swap_bytes_outer :: "byte list \<Rightarrow> int \<Rightarrow> int \<Rightarrow> int \<Rightarrow> byte list option" where
  "sif_swap_bytes_outer buffer i n_bytes elem_size =
     (let esz_h = c_div elem_size 2 in
      if i < esz_h then
        (let m = esz_h - i - 1 in
         do { buffer \<leftarrow> sif_swap_bytes_inner buffer i m n_bytes elem_size;
              sif_swap_bytes_outer buffer (i + 1) n_bytes elem_size })
      else Some buffer)"
  by pat_completeness auto
termination
  by (relation "measure (\<lambda>(buffer, i, n_bytes, elem_size). nat (c_div elem_size 2 - i))") auto

definition sif_swap_bytes :: "byte list \<Rightarrow> int \<Rightarrow> int \<Rightarrow> byte list option" where
  "sif_swap_bytes buffer n_bytes elem_size = sif_swap_bytes_outer buffer 0 n_bytes elem_size"

definition SIF_SIMPLE_LITTLE_ENDIAN :: int where
  "SIF_SIMPLE_LITTLE_ENDIAN = 0"

definition SIF_SIMPLE_BIG_ENDIAN :: int where
  "SIF_SIMPLE_BIG_ENDIAN = 1"

definition SIF_SIMPLE_NATIVE_ENDIAN :: int where
  "SIF_SIMPLE_NATIVE_ENDIAN = SIF_SIMPLE_LITTLE_ENDIAN"

definition sif_buffer_host_to_big :: "byte list \<Rightarrow> int \<Rightarrow> int \<Rightarrow> byte list option" where
  "sif_buffer_host_to_big buffer n_bytes elem_size = sif_swap_bytes buffer n_bytes elem_size"

definition sif_buffer_host_to_little :: "byte list \<Rightarrow> int \<Rightarrow> int \<Rightarrow> byte list option" where
  "sif_buffer_host_to_little buffer n_bytes elem_size = Some buffer"

definition sif_buffer_host_to_code :: "byte list \<Rightarrow> int \<Rightarrow> int \<Rightarrow> int \<Rightarrow> byte list option" where
  "sif_buffer_host_to_code buffer n_bytes elem_size simple_endian_code =
     do { buffer \<leftarrow> (if simple_endian_code = SIF_SIMPLE_BIG_ENDIAN
                     then sif_buffer_host_to_big buffer n_bytes elem_size else Some buffer);
          (if simple_endian_code = SIF_SIMPLE_LITTLE_ENDIAN
           then sif_buffer_host_to_little buffer n_bytes elem_size else Some buffer) }"

definition sif_buffer_little_to_host :: "byte list \<Rightarrow> int \<Rightarrow> int \<Rightarrow> byte list option" where
  "sif_buffer_little_to_host buffer n_bytes elem_size = Some buffer"

definition sif_buffer_big_to_host :: "byte list \<Rightarrow> int \<Rightarrow> int \<Rightarrow> byte list option" where
  "sif_buffer_big_to_host buffer n_bytes elem_size = sif_swap_bytes buffer n_bytes elem_size"

definition sif_buffer_code_to_host :: "byte list \<Rightarrow> int \<Rightarrow> int \<Rightarrow> int \<Rightarrow> byte list option" where
  "sif_buffer_code_to_host buffer n_bytes elem_size simple_endian_code =
     do { buffer \<leftarrow> (if simple_endian_code = SIF_SIMPLE_BIG_ENDIAN
                     then sif_buffer_big_to_host buffer n_bytes elem_size else Some buffer);
          (if simple_endian_code = SIF_SIMPLE_LITTLE_ENDIAN
           then sif_buffer_little_to_host buffer n_bytes elem_size else Some buffer) }"

definition reverse_elements :: "byte list \<Rightarrow> nat \<Rightarrow> byte list" where
  \<comment> \<open>What the specification asks of the swap: the bytes of every element of size
      \<open>S\<close> reversed.\<close>
  "reverse_elements buffer S =
     concat (map (\<lambda>e. rev (take S (drop (e * S) buffer))) [0 ..< length buffer div S])"

subsection \<open>The data model (sif-io.h)\<close>

definition SIF_ERROR_NONE :: int where "SIF_ERROR_NONE = 0"
definition SIF_ERROR_MEM :: int where "SIF_ERROR_MEM = 1"
definition SIF_ERROR_NULL_HDR :: int where "SIF_ERROR_NULL_HDR = 3"
definition SIF_ERROR_INVALID_TN :: int where "SIF_ERROR_INVALID_TN = 5"
definition SIF_ERROR_READ :: int where "SIF_ERROR_READ = 6"
definition SIF_ERROR_WRITE :: int where "SIF_ERROR_WRITE = 7"
definition SIF_ERROR_SEEK :: int where "SIF_ERROR_SEEK = 8"
definition SIF_ERROR_TRUNCATE :: int where "SIF_ERROR_TRUNCATE = 9"
definition SIF_ERROR_INVALID_FILE_MODE :: int where "SIF_ERROR_INVALID_FILE_MODE = 10"
definition SIF_ERROR_INCOMPATIBLE_VERSION :: int where "SIF_ERROR_INCOMPATIBLE_VERSION = 11"
definition SIF_ERROR_META_DATA_KEY :: int where "SIF_ERROR_META_DATA_KEY = 12"
definition SIF_ERROR_META_DATA_VALUE :: int where "SIF_ERROR_META_DATA_VALUE = 13"
definition SIF_ERROR_CANNOT_WRITE_VERSION :: int where "SIF_ERROR_CANNOT_WRITE_VERSION = 14"
definition SIF_ERROR_INVALID_BAND :: int where "SIF_ERROR_INVALID_BAND = 15"
definition SIF_ERROR_INVALID_COORD :: int where "SIF_ERROR_INVALID_COORD = 16"
definition SIF_ERROR_INVALID_REGION_SIZE :: int where "SIF_ERROR_INVALID_REGION_SIZE = 18"
definition SIF_ERROR_INVALID_BUFFER :: int where "SIF_ERROR_INVALID_BUFFER = 19"

definition SIF_VERSION :: int where "SIF_VERSION = 2"

definition SIF_MAGIC_NUMBER :: "byte list" where
  \<comment> \<open>\<^verbatim>\<open>"!**SIF**"\<close>\<close>
  "SIF_MAGIC_NUMBER = [0x21, 0x2A, 0x2A, 0x53, 0x49, 0x46, 0x2A, 0x2A]"

definition SIF_MAGIC_NUMBER_SIZE :: int where "SIF_MAGIC_NUMBER_SIZE = 8"

text \<open>A double is the eight bytes of its object representation, in host order.\<close>

record sif_header =
  magic_number :: "byte list"
  version :: int
  width :: int
  height :: int
  bands :: int
  n_keys :: int
  n_tiles :: int
  tile_width :: int
  tile_height :: int
  tile_bytes :: int
  n_tiles_across :: int
  data_unit_size :: int
  user_data_type :: int
  defragment :: int
  consolidate :: int
  intrinsic_write :: int
  tile_header_bytes :: int
  n_uniform_flags :: int
  affine_geo_transform :: "byte list list"

record sif_tile =
  uniform_flags :: "byte list"
  uniform_pixel_values :: "byte list"
  block_num :: int

text \<open>
  The fields \<^verbatim>\<open>key\<close> and \<^verbatim>\<open>value\<close> of a meta-data pair; a value is \<^term>\<open>None\<close> when
  the pointer is null. The \<^verbatim>\<open>next\<close> pointers are the order of the chain, a list.
\<close>

record sif_meta_data =
  md_key :: "byte list"
  md_value :: "byte list option"
  key_length :: int
  value_length :: int

text \<open>The two buffers \<^verbatim>\<open>buffer[0]\<close> and \<^verbatim>\<open>buffer[1]\<close> are two fields.\<close>

record sif_file =
  fp :: FILE
  header :: "sif_header option"
  tiles :: "sif_tile list"
  meta_data :: "sif_meta_data list list"
  read_only :: int
  blocks_to_tiles :: "int list"
  dirty_tiles :: "int list"
  buffer0 :: "byte list"
  buffer1 :: "byte list"
  base_location :: int
  error :: int
  units_per_slice :: int
  units_per_tile :: int
  header_bytes :: int
  ubuf :: "byte list"
  use_file_version :: int
  simple_region_buffer :: "byte list option"
  simple_region_bytes :: int

subsection \<open>The macros that return from the enclosing function\<close>

text \<open>
  A macro that may execute \<^verbatim>\<open>return\<close> takes the rest of the function body as its last
  argument, and as its first argument what the function returns from the handle at that
  point: \<^term>\<open>RETURN_V\<close> in a function returning \<^verbatim>\<open>void\<close>, \<^term>\<open>RETURN c\<close> in one
  returning the code \<open>c\<close>.
\<close>

definition RETURN_V :: "sif_file \<Rightarrow> sif_file" where
  "RETURN_V file = file"

definition RETURN :: "'a \<Rightarrow> sif_file \<Rightarrow> sif_file \<times> 'a" where
  "RETURN c file = (file, c)"

definition SIF_ERROR_CHECK_RETURN ::
  "(sif_file \<Rightarrow> 'r) \<Rightarrow> sif_file \<Rightarrow> bool \<Rightarrow> int \<Rightarrow> (sif_file \<Rightarrow> 'r option) \<Rightarrow> 'r option" where
  "SIF_ERROR_CHECK_RETURN ret file cond code k =
     (if cond then Some (ret (file\<lparr>error := code\<rparr>)) else k file)"

definition SIF_CHECK_FILE ::
  "(sif_file \<Rightarrow> 'r) \<Rightarrow> sif_file \<Rightarrow> (sif_header \<Rightarrow> 'r option) \<Rightarrow> 'r option" where
  \<comment> \<open>The handle itself is not null here; the rest of the body gets the header.\<close>
  "SIF_CHECK_FILE ret file k =
     (case header file of
        None \<Rightarrow> Some (ret (file\<lparr>error := SIF_ERROR_NULL_HDR\<rparr>))
      | Some hdr \<Rightarrow>
          if version hdr > SIF_VERSION
          then Some (ret (file\<lparr>error := SIF_ERROR_INCOMPATIBLE_VERSION\<rparr>))
          else k hdr)"

definition FSEEK64 ::
  "(sif_file \<Rightarrow> 'r) \<Rightarrow> sif_file \<Rightarrow> int \<Rightarrow> (sif_file \<Rightarrow> 'r option) \<Rightarrow> 'r option" where
  "FSEEK64 ret file loc k =
     (case fseek (fp file) loc of
        (fp', rc) \<Rightarrow> SIF_ERROR_CHECK_RETURN ret (file\<lparr>fp := fp'\<rparr>) (rc \<noteq> 0) SIF_ERROR_SEEK k)"

definition REWIND64 ::
  "(sif_file \<Rightarrow> 'r) \<Rightarrow> sif_file \<Rightarrow> (sif_file \<Rightarrow> 'r option) \<Rightarrow> 'r option" where
  "REWIND64 ret file k = FSEEK64 ret file 0 k"

definition FWRITE64 ::
  "(sif_file \<Rightarrow> 'r) \<Rightarrow> sif_file \<Rightarrow> byte list \<Rightarrow> int \<Rightarrow> int \<Rightarrow> (sif_file \<Rightarrow> 'r option)
     \<Rightarrow> 'r option" where
  "FWRITE64 ret file buf els nel k =
     (case fwrite buf els nel (fp file) of
        None \<Rightarrow> None
      | Some (fp', n) \<Rightarrow>
          SIF_ERROR_CHECK_RETURN ret (file\<lparr>fp := fp'\<rparr>) (n \<noteq> nel) SIF_ERROR_WRITE k)"

definition FREAD64 ::
  "(byte list \<Rightarrow> sif_file \<Rightarrow> 'r) \<Rightarrow> sif_file \<Rightarrow> byte list \<Rightarrow> int \<Rightarrow> int
     \<Rightarrow> (byte list \<Rightarrow> sif_file \<Rightarrow> 'r option) \<Rightarrow> 'r option" where
  \<comment> \<open>The buffer read into is handed on with the handle.\<close>
  "FREAD64 ret file buf els nel k =
     (case fread buf els nel (fp file) of
        None \<Rightarrow> None
      | Some (buf', fp', n) \<Rightarrow>
          SIF_ERROR_CHECK_RETURN (ret buf') (file\<lparr>fp := fp'\<rparr>) (n \<noteq> nel) SIF_ERROR_READ (k buf'))"

subsection \<open>Integers and doubles on disk\<close>

definition sif_int32_to_packed_bytes :: "int \<Rightarrow> byte list \<Rightarrow> byte list option" where
  "sif_int32_to_packed_bytes val ptr =
     do { ptr \<leftarrow> wr ptr 0 (word_of_int (drop_bit 24 val AND 0xFF));
          ptr \<leftarrow> wr ptr 1 (word_of_int (drop_bit 16 val AND 0xFF));
          ptr \<leftarrow> wr ptr 2 (word_of_int (drop_bit 8 val AND 0xFF));
          wr ptr 3 (word_of_int (val AND 0xFF)) }"

definition sif_packed_bytes_to_int32 :: "byte list \<Rightarrow> int option" where
  \<comment> \<open>A \<^verbatim>\<open>long\<close> of 32 bits: the four bytes read as two's complement.\<close>
  "sif_packed_bytes_to_int32 ptr =
     do { p0 \<leftarrow> rd ptr 0; p1 \<leftarrow> rd ptr 1; p2 \<leftarrow> rd ptr 2; p3 \<leftarrow> rd ptr 3;
          Some (sint (push_bit 24 (ucast p0) OR push_bit 16 (ucast p1)
                      OR push_bit 8 (ucast p2) OR (ucast p3 :: 32 word))) }"

definition sif_swap_double64 :: "byte list \<Rightarrow> byte list" where
  "sif_swap_double64 val = map (\<lambda>i. val ! (7 - i)) [0, 1, 2, 3, 4, 5, 6, 7]"

definition sif_hton_double64 :: "byte list \<Rightarrow> byte list" where
  "sif_hton_double64 val = sif_swap_double64 val"

definition sif_ntoh_double64 :: "byte list \<Rightarrow> byte list" where
  "sif_ntoh_double64 val = sif_swap_double64 val"

definition sif_write_double64 :: "sif_file \<Rightarrow> byte list \<Rightarrow> (sif_file \<times> int) option" where
  "sif_write_double64 file val =
     (let net = sif_hton_double64 val in
      do { (fp', n) \<leftarrow> fwrite net 1 8 (fp file);
           Some (file\<lparr>fp := fp'\<rparr>, if n \<noteq> 8 then 0 else 1) })"

definition sif_read_double64 :: "sif_file \<Rightarrow> (sif_file \<times> byte list option) option" where
  \<comment> \<open>The value read, or \<^term>\<open>None\<close> where the function returns 0.\<close>
  "sif_read_double64 file =
     do { (ub, fp', n) \<leftarrow> fread (ubuf file) 1 8 (fp file);
          let file = file\<lparr>ubuf := ub, fp := fp'\<rparr>;
          if n \<noteq> 8 then Some (file, None)
          else Some (file, Some (sif_ntoh_double64 (take 8 ub))) }"

definition sif_write_int32 :: "sif_file \<Rightarrow> int \<Rightarrow> (sif_file \<times> int) option" where
  "sif_write_int32 file val =
     do { ub \<leftarrow> sif_int32_to_packed_bytes val (ubuf file);
          let file = file\<lparr>ubuf := ub\<rparr>;
          (fp', n) \<leftarrow> fwrite ub 1 4 (fp file);
          Some (file\<lparr>fp := fp'\<rparr>, if n \<noteq> 4 then 0 else 1) }"

definition sif_read_int32 :: "sif_file \<Rightarrow> (sif_file \<times> int option) option" where
  \<comment> \<open>The value read, or \<^term>\<open>None\<close> where the function returns 0.\<close>
  "sif_read_int32 file =
     do { (ub, fp', n) \<leftarrow> fread (ubuf file) 1 4 (fp file);
          let file = file\<lparr>ubuf := ub, fp := fp'\<rparr>;
          if n \<noteq> 4 then Some (file, None)
          else do { v \<leftarrow> sif_packed_bytes_to_int32 ub; Some (file, Some v) } }"

definition FWRITE64INT32 ::
  "(sif_file \<Rightarrow> 'r) \<Rightarrow> sif_file \<Rightarrow> int \<Rightarrow> (sif_file \<Rightarrow> 'r option) \<Rightarrow> 'r option" where
  "FWRITE64INT32 ret file vv k =
     (case sif_write_int32 file vv of
        None \<Rightarrow> None
      | Some (file, rc) \<Rightarrow> SIF_ERROR_CHECK_RETURN ret file (rc = 0) SIF_ERROR_WRITE k)"

definition FWRITE64DOUBLE64 ::
  "(sif_file \<Rightarrow> 'r) \<Rightarrow> sif_file \<Rightarrow> byte list \<Rightarrow> (sif_file \<Rightarrow> 'r option) \<Rightarrow> 'r option" where
  "FWRITE64DOUBLE64 ret file vv k =
     (case sif_write_double64 file vv of
        None \<Rightarrow> None
      | Some (file, rc) \<Rightarrow> SIF_ERROR_CHECK_RETURN ret file (rc = 0) SIF_ERROR_WRITE k)"

definition FREAD64INT32 ::
  "(sif_file \<Rightarrow> 'r) \<Rightarrow> sif_file \<Rightarrow> (int \<Rightarrow> sif_file \<Rightarrow> 'r option) \<Rightarrow> 'r option" where
  "FREAD64INT32 ret file k =
     (case sif_read_int32 file of
        None \<Rightarrow> None
      | Some (file, None) \<Rightarrow> Some (ret (file\<lparr>error := SIF_ERROR_READ\<rparr>))
      | Some (file, Some v) \<Rightarrow> k v file)"

definition FREAD64DOUBLE64 ::
  "(sif_file \<Rightarrow> 'r) \<Rightarrow> sif_file \<Rightarrow> (byte list \<Rightarrow> sif_file \<Rightarrow> 'r option) \<Rightarrow> 'r option" where
  "FREAD64DOUBLE64 ret file k =
     (case sif_read_double64 file of
        None \<Rightarrow> None
      | Some (file, None) \<Rightarrow> Some (ret (file\<lparr>error := SIF_ERROR_READ\<rparr>))
      | Some (file, Some v) \<Rightarrow> k v file)"

definition FWRITE64CNT ::
  "(sif_file \<Rightarrow> 'r) \<Rightarrow> sif_file \<Rightarrow> byte list \<Rightarrow> int \<Rightarrow> int \<Rightarrow> (int \<Rightarrow> sif_file \<Rightarrow> 'r option)
     \<Rightarrow> 'r option" where
  \<comment> \<open>The fourth argument is \<^verbatim>\<open>sizeof(buf)\<close>.\<close>
  "FWRITE64CNT ret file buf sizeof_buf cnt k =
     FWRITE64 ret file buf sizeof_buf 1 (k (cnt + sizeof_buf))"

definition FWRITE64INT32CNT ::
  "(sif_file \<Rightarrow> 'r) \<Rightarrow> sif_file \<Rightarrow> int \<Rightarrow> int \<Rightarrow> (int \<Rightarrow> sif_file \<Rightarrow> 'r option) \<Rightarrow> 'r option" where
  "FWRITE64INT32CNT ret file vv cnt k = FWRITE64INT32 ret file vv (k (cnt + 4))"

definition FWRITE64DOUBLE64CNT ::
  "(sif_file \<Rightarrow> 'r) \<Rightarrow> sif_file \<Rightarrow> byte list \<Rightarrow> int \<Rightarrow> (int \<Rightarrow> sif_file \<Rightarrow> 'r option)
     \<Rightarrow> 'r option" where
  "FWRITE64DOUBLE64CNT ret file vv cnt k = FWRITE64DOUBLE64 ret file vv (k (cnt + 8))"

definition FREAD64CNT ::
  "(byte list \<Rightarrow> sif_file \<Rightarrow> 'r) \<Rightarrow> sif_file \<Rightarrow> byte list \<Rightarrow> int \<Rightarrow> int
     \<Rightarrow> (byte list \<Rightarrow> int \<Rightarrow> sif_file \<Rightarrow> 'r option) \<Rightarrow> 'r option" where
  "FREAD64CNT ret file buf sizeof_buf cnt k =
     FREAD64 ret file buf sizeof_buf 1 (\<lambda>buf. k buf (cnt + sizeof_buf))"

definition FREAD64INT32CNT ::
  "(sif_file \<Rightarrow> 'r) \<Rightarrow> sif_file \<Rightarrow> int \<Rightarrow> (int \<Rightarrow> int \<Rightarrow> sif_file \<Rightarrow> 'r option) \<Rightarrow> 'r option" where
  "FREAD64INT32CNT ret file cnt k = FREAD64INT32 ret file (\<lambda>v. k v (cnt + 4))"

definition FREAD64DOUBLE64CNT ::
  "(sif_file \<Rightarrow> 'r) \<Rightarrow> sif_file \<Rightarrow> int \<Rightarrow> (byte list \<Rightarrow> int \<Rightarrow> sif_file \<Rightarrow> 'r option)
     \<Rightarrow> 'r option" where
  "FREAD64DOUBLE64CNT ret file cnt k = FREAD64DOUBLE64 ret file (\<lambda>v. k v (cnt + 8))"

subsection \<open>The file header\<close>

definition sif_alloc_header :: sif_header where
  \<comment> \<open>A header filled with zeros.\<close>
  "sif_alloc_header =
     \<lparr>magic_number = replicate 8 0, version = 0, width = 0, height = 0, bands = 0, n_keys = 0,
      n_tiles = 0, tile_width = 0, tile_height = 0, tile_bytes = 0, n_tiles_across = 0,
      data_unit_size = 0, user_data_type = 0, defragment = 0, consolidate = 0,
      intrinsic_write = 0, tile_header_bytes = 0, n_uniform_flags = 0,
      affine_geo_transform = replicate 6 (replicate 8 0)\<rparr>"

fun write_header_ints ::
  "sif_file \<Rightarrow> int list \<Rightarrow> int
     \<Rightarrow> (int \<Rightarrow> sif_file \<Rightarrow> (sif_file \<times> int) option) \<Rightarrow> (sif_file \<times> int) option" where
  \<comment> \<open>A run of \<^verbatim>\<open>FWRITE64INT32CNT\<close> invocations, one for each field.\<close>
  "write_header_ints file [] cnt k = k cnt file"
| "write_header_ints file (vv # vvs) cnt k =
     FWRITE64INT32CNT (RETURN 0) file vv cnt (\<lambda>cnt file. write_header_ints file vvs cnt k)"

fun write_header_doubles ::
  "bool \<Rightarrow> sif_file \<Rightarrow> byte list list \<Rightarrow> nat list \<Rightarrow> int
     \<Rightarrow> (int \<Rightarrow> sif_file \<Rightarrow> (sif_file \<times> int) option) \<Rightarrow> (sif_file \<times> int) option" where
  \<comment> \<open>The loop over the six doubles: as they are for version 1, big-endian otherwise.\<close>
  "write_header_doubles v1 file geo [] cnt k = k cnt file"
| "write_header_doubles v1 file geo (i # rest) cnt k =
     (case rd geo (int i) of
        None \<Rightarrow> None
      | Some d \<Rightarrow>
          if v1
          then FWRITE64CNT (RETURN 0) file d 8 cnt
                 (\<lambda>cnt file. write_header_doubles v1 file geo rest cnt k)
          else FWRITE64DOUBLE64CNT (RETURN 0) file d cnt
                 (\<lambda>cnt file. write_header_doubles v1 file geo rest cnt k))"

definition sif_write_header :: "sif_file \<Rightarrow> (sif_file \<times> int) option" where
  "sif_write_header file =
     (case header file of
        None \<Rightarrow> None
      | Some hdr \<Rightarrow>
          REWIND64 (RETURN 0) file (\<lambda>file.
          FWRITE64INT32CNT (RETURN 0) file 0 0 (\<lambda>cnt file.
          FWRITE64CNT (RETURN 0) file (magic_number hdr) 8 cnt (\<lambda>cnt file.
          FWRITE64INT32CNT (RETURN 0) file (use_file_version file) cnt (\<lambda>cnt file.
          let hdr = hdr\<lparr>version := use_file_version file\<rparr>;
              file = file\<lparr>header := Some hdr\<rparr> in
          write_header_ints file
            [width hdr, height hdr, bands hdr, n_keys hdr, n_tiles hdr, tile_width hdr,
             tile_height hdr, tile_bytes hdr, n_tiles_across hdr, data_unit_size hdr,
             user_data_type hdr, defragment hdr, consolidate hdr, intrinsic_write hdr,
             tile_header_bytes hdr, n_uniform_flags hdr] cnt (\<lambda>cnt file.
          write_header_doubles (version hdr < 2 \<or> use_file_version file < 2) file
            (affine_geo_transform hdr) [0, 1, 2, 3, 4, 5] cnt (\<lambda>cnt file.
          REWIND64 (RETURN 0) file (\<lambda>file.
          FWRITE64INT32 (RETURN 0) file cnt (\<lambda>file.
          Some (file\<lparr>header_bytes := cnt\<rparr>, 1))))))))))"

fun read_header_ints ::
  "sif_file \<Rightarrow> sif_header \<Rightarrow> (int \<Rightarrow> sif_header \<Rightarrow> sif_header) list \<Rightarrow> int
     \<Rightarrow> (sif_header \<Rightarrow> int \<Rightarrow> sif_file \<Rightarrow> (sif_file \<times> int) option) \<Rightarrow> (sif_file \<times> int) option" where
  \<comment> \<open>A run of \<^verbatim>\<open>FREAD64INT32CNT\<close> invocations, each storing into its field.\<close>
  "read_header_ints file hdr [] cnt k = k hdr cnt file"
| "read_header_ints file hdr (setter # setters) cnt k =
     FREAD64INT32CNT (\<lambda>file. RETURN 0 (file\<lparr>header := Some hdr\<rparr>)) file cnt
       (\<lambda>v cnt file. read_header_ints file (setter v hdr) setters cnt k)"

fun read_header_doubles ::
  "bool \<Rightarrow> sif_file \<Rightarrow> sif_header \<Rightarrow> nat list \<Rightarrow> int
     \<Rightarrow> (sif_header \<Rightarrow> int \<Rightarrow> sif_file \<Rightarrow> (sif_file \<times> int) option) \<Rightarrow> (sif_file \<times> int) option" where
  "read_header_doubles v1 file hdr [] cnt k = k hdr cnt file"
| "read_header_doubles v1 file hdr (i # rest) cnt k =
     (case rd (affine_geo_transform hdr) (int i) of
        None \<Rightarrow> None
      | Some d \<Rightarrow>
          if v1
          then FREAD64CNT
                 (\<lambda>d file. RETURN 0 (file\<lparr>header := Some
                    (hdr\<lparr>affine_geo_transform := (affine_geo_transform hdr)[i := d]\<rparr>)\<rparr>))
                 file d 8 cnt
                 (\<lambda>d cnt file. read_header_doubles v1 file
                    (hdr\<lparr>affine_geo_transform := (affine_geo_transform hdr)[i := d]\<rparr>) rest cnt k)
          else FREAD64DOUBLE64CNT (\<lambda>file. RETURN 0 (file\<lparr>header := Some hdr\<rparr>)) file cnt
                 (\<lambda>d cnt file. read_header_doubles v1 file
                    (hdr\<lparr>affine_geo_transform := (affine_geo_transform hdr)[i := d]\<rparr>) rest cnt k))"

definition sif_read_header :: "sif_file \<Rightarrow> (sif_file \<times> int) option" where
  "sif_read_header file =
     (case header file of
        None \<Rightarrow> None
      | Some hdr \<Rightarrow>
          REWIND64 (RETURN 0) file (\<lambda>file.
          FREAD64INT32CNT (RETURN 0) file 0 (\<lambda>v cnt file.
          let file = file\<lparr>header_bytes := v\<rparr> in
          FREAD64CNT (\<lambda>magic file. RETURN 0 (file\<lparr>header := Some (hdr\<lparr>magic_number := magic\<rparr>)\<rparr>))
            file (magic_number hdr) 8 cnt (\<lambda>magic cnt file.
          let hdr = hdr\<lparr>magic_number := magic\<rparr> in
          FREAD64INT32CNT (\<lambda>file. RETURN 0 (file\<lparr>header := Some hdr\<rparr>)) file cnt (\<lambda>v cnt file.
          let hdr = hdr\<lparr>version := v\<rparr>;
              file = file\<lparr>use_file_version := version hdr\<rparr> in
          read_header_ints file hdr
            [\<lambda>v h. h\<lparr>width := v\<rparr>, \<lambda>v h. h\<lparr>height := v\<rparr>, \<lambda>v h. h\<lparr>bands := v\<rparr>,
             \<lambda>v h. h\<lparr>n_keys := v\<rparr>, \<lambda>v h. h\<lparr>n_tiles := v\<rparr>, \<lambda>v h. h\<lparr>tile_width := v\<rparr>,
             \<lambda>v h. h\<lparr>tile_height := v\<rparr>, \<lambda>v h. h\<lparr>tile_bytes := v\<rparr>,
             \<lambda>v h. h\<lparr>n_tiles_across := v\<rparr>, \<lambda>v h. h\<lparr>data_unit_size := v\<rparr>,
             \<lambda>v h. h\<lparr>user_data_type := v\<rparr>, \<lambda>v h. h\<lparr>defragment := v\<rparr>,
             \<lambda>v h. h\<lparr>consolidate := v\<rparr>, \<lambda>v h. h\<lparr>intrinsic_write := v\<rparr>,
             \<lambda>v h. h\<lparr>tile_header_bytes := v\<rparr>, \<lambda>v h. h\<lparr>n_uniform_flags := v\<rparr>] cnt
            (\<lambda>hdr cnt file.
          read_header_doubles (version hdr < 2) file hdr [0, 1, 2, 3, 4, 5] cnt (\<lambda>hdr cnt file.
          Some (file\<lparr>header := Some hdr\<rparr>, 1))))))))"

subsection \<open>Tile headers\<close>

function completely_uniform_loop :: "byte list \<Rightarrow> int \<Rightarrow> int \<Rightarrow> byte \<Rightarrow> byte option" where
  \<comment> \<open>The loop of \<^verbatim>\<open>_sif_completely_uniform_shallow\<close> over the flag bytes.\<close>
  "completely_uniform_loop flags j n retval =
     (if j < n \<and> retval = 0xFF
      then do { f \<leftarrow> rd flags j; completely_uniform_loop flags (j + 1) n (retval AND f) }
      else Some retval)"
  by pat_completeness auto
termination
  by (relation "measure (\<lambda>(flags, j, n, retval). nat (n - j))") auto

definition sif_completely_uniform_shallow :: "sif_file \<Rightarrow> int \<Rightarrow> (sif_file \<times> bool) option" where
  \<comment> \<open>The function writes the last flag byte of the tile: the handle is returned too.\<close>
  "sif_completely_uniform_shallow file i =
     do { tile \<leftarrow> rd (tiles file) i;
          hdr \<leftarrow> header file;
          last_flag_byte \<leftarrow> rd (uniform_flags tile) (n_uniform_flags hdr - 1);
          flags \<leftarrow> wr (uniform_flags tile) (n_uniform_flags hdr - 1)
                    (word_of_int (drop_bit (nat (8 - c_mod (bands hdr) 8)) 0xFF) OR last_flag_byte);
          tiles' \<leftarrow> wr (tiles file) i (tile\<lparr>uniform_flags := flags\<rparr>);
          retval \<leftarrow> completely_uniform_loop flags 0 (n_uniform_flags hdr) 0xFF;
          Some (file\<lparr>tiles := tiles'\<rparr>, retval = 0xFF) }"

definition sif_band_of_tile_is_uniform_shallow :: "sif_file \<Rightarrow> int \<Rightarrow> int \<Rightarrow> bool option" where
  \<comment> \<open>Whether the bit returned is not zero.\<close>
  "sif_band_of_tile_is_uniform_shallow file i b =
     do { tile \<leftarrow> rd (tiles file) i;
          bit \<leftarrow> SIF_GET_BIT (uniform_flags tile) b;
          Some (bit \<noteq> 0) }"

definition sif_get_block_location :: "sif_file \<Rightarrow> int \<Rightarrow> int option" where
  "sif_get_block_location file block_num' =
     (if block_num' \<ge> 0
      then do { hdr \<leftarrow> header file; Some (base_location file + tile_bytes hdr * block_num') }
      else None)"

definition SIF_SIZE_FLAG_ARRAY :: "int \<Rightarrow> int" where
  "SIF_SIZE_FLAG_ARRAY num_bits = CEIL_DIV num_bits 8"

definition sif_alloc_tile_headers :: "sif_file \<Rightarrow> (sif_file \<times> sif_tile list option) option" where
  \<comment> \<open>The tiles, or \<^term>\<open>None\<close> where the function returns 0: a request of a negative
      size is one that \<^verbatim>\<open>malloc\<close> refuses. The flags and the pixel values of all tiles
      lie in two arrays; here each tile has its part of them.\<close>
  "sif_alloc_tile_headers file =
     do { hdr \<leftarrow> header file;
          let s = SIF_SIZE_FLAG_ARRAY (bands hdr);
          if n_tiles hdr * s < 0 \<or> n_tiles hdr * bands hdr * data_unit_size hdr < 0 \<or> n_tiles hdr < 0
          then Some (file, None)
          else
            let retval = replicate (nat (n_tiles hdr))
                  \<lparr>uniform_flags = replicate (nat s) 0xFF,
                   uniform_pixel_values = replicate (nat (bands hdr * data_unit_size hdr)) 0,
                   block_num = - 1\<rparr>;
                hdr = hdr\<lparr>tile_header_bytes := bands hdr * data_unit_size hdr + s + 4\<rparr>;
                hdr = hdr\<lparr>n_uniform_flags := s\<rparr>
            in Some (file\<lparr>header := Some hdr\<rparr>, Some retval) }"

function write_tile_headers_loop :: "sif_file \<Rightarrow> sif_header \<Rightarrow> int \<Rightarrow> (sif_file \<times> int) option" where
  "write_tile_headers_loop file hdr i =
     (if i < n_tiles hdr then
        (case rd (tiles file) i of
           None \<Rightarrow> None
         | Some tile \<Rightarrow>
             FWRITE64 (RETURN 0) file (uniform_pixel_values tile) (data_unit_size hdr) (bands hdr)
               (\<lambda>file.
             FWRITE64 (RETURN 0) file (uniform_flags tile) 1 (n_uniform_flags hdr) (\<lambda>file.
             FWRITE64INT32 (RETURN 0) file (block_num tile) (\<lambda>file.
             write_tile_headers_loop file hdr (i + 1)))))
      else Some (file, 0))"
  by pat_completeness auto
termination
  by (relation "measure (\<lambda>(file, hdr, i). nat (n_tiles hdr - i))") auto

definition sif_write_tile_headers :: "sif_file \<Rightarrow> (sif_file \<times> int) option" where
  "sif_write_tile_headers file =
     do { hdr \<leftarrow> header file;
          FSEEK64 (RETURN 0) file (header_bytes file) (\<lambda>file.
          write_tile_headers_loop file hdr 0) }"

function read_tile_headers_loop :: "sif_file \<Rightarrow> sif_header \<Rightarrow> int \<Rightarrow> (sif_file \<times> int) option" where
  "read_tile_headers_loop file hdr i =
     (if i < n_tiles hdr then
        (case rd (tiles file) i of
           None \<Rightarrow> None
         | Some tile \<Rightarrow>
             FREAD64
               (\<lambda>buf file. RETURN 0
                  (file\<lparr>tiles := (tiles file)[nat i := tile\<lparr>uniform_pixel_values := buf\<rparr>]\<rparr>))
               file (uniform_pixel_values tile) (data_unit_size hdr) (bands hdr) (\<lambda>buf file.
             let tile = tile\<lparr>uniform_pixel_values := buf\<rparr> in
             FREAD64
               (\<lambda>buf file. RETURN 0
                  (file\<lparr>tiles := (tiles file)[nat i := tile\<lparr>uniform_flags := buf\<rparr>]\<rparr>))
               file (uniform_flags tile) 1 (n_uniform_flags hdr) (\<lambda>buf file.
             let tile = tile\<lparr>uniform_flags := buf\<rparr> in
             FREAD64INT32 (\<lambda>file. RETURN 0 (file\<lparr>tiles := (tiles file)[nat i := tile]\<rparr>)) file
               (\<lambda>v file.
             let tile = tile\<lparr>block_num := v\<rparr> in
             read_tile_headers_loop (file\<lparr>tiles := (tiles file)[nat i := tile]\<rparr>) hdr (i + 1)))))
      else Some (file, 1))"
  by pat_completeness auto
termination
  by (relation "measure (\<lambda>(file, hdr, i). nat (n_tiles hdr - i))") auto

definition sif_read_tile_headers :: "sif_file \<Rightarrow> (sif_file \<times> int) option" where
  "sif_read_tile_headers file =
     do { hdr \<leftarrow> header file;
          FSEEK64 (RETURN 0) file (header_bytes file) (\<lambda>file.
          read_tile_headers_loop file hdr 0) }"

definition sif_write_tile_header :: "sif_file \<Rightarrow> sif_tile \<Rightarrow> int \<Rightarrow> (sif_file \<times> int) option" where
  \<comment> \<open>The second argument is the tile the pointer of the source points to.\<close>
  "sif_write_tile_header file tile tile_num =
     do { hdr \<leftarrow> header file;
          if tile_num \<ge> 0 \<and> tile_num < n_tiles hdr then
            let loc = header_bytes file + tile_num * tile_header_bytes hdr in
            FSEEK64 (RETURN 0) file loc (\<lambda>file.
            FWRITE64 (RETURN 0) file (uniform_pixel_values tile) (data_unit_size hdr) (bands hdr)
              (\<lambda>file.
            FWRITE64 (RETURN 0) file (uniform_flags tile) 1 (n_uniform_flags hdr) (\<lambda>file.
            FWRITE64INT32 (RETURN 0) file (block_num tile) (\<lambda>file.
            Some (file, 1)))))
          else None }"

subsection \<open>Meta-data\<close>

text \<open>
  A C string or buffer argument is the array the pointer points to. A pointer to a pair
  of the table is the index of its chain and its place in the chain.
\<close>

definition sif_alloc_meta_data_table :: "sif_meta_data list list" where
  "sif_alloc_meta_data_table = replicate SIF_HASH_TABLE_SIZE []"

fun get_meta_data_pair_loop :: "byte list \<Rightarrow> sif_meta_data list \<Rightarrow> nat \<Rightarrow> nat option option" where
  \<comment> \<open>The walk along a chain: the place of the first pair with the key.\<close>
  "get_meta_data_pair_loop key [] n = Some None"
| "get_meta_data_pair_loop key (r # q) n =
     (case strcmp key (md_key r) of
        None \<Rightarrow> None
      | Some c \<Rightarrow> if c = 0 then Some (Some n) else get_meta_data_pair_loop key q (Suc n))"

definition sif_get_meta_data_pair ::
  "sif_file \<Rightarrow> byte list \<Rightarrow> (sif_file \<times> (nat \<times> nat) option) option" where
  "sif_get_meta_data_pair file key =
     SIF_CHECK_FILE (RETURN None) file (\<lambda>hdr.
       do { h \<leftarrow> sif_hash key;
            let hash = unat h mod SIF_HASH_TABLE_SIZE;
            q \<leftarrow> rd (meta_data file) (int hash);
            r \<leftarrow> get_meta_data_pair_loop key q 0;
            Some (file, map_option (\<lambda>n. (hash, n)) r) })"

definition sif_insert_meta_data_pair ::
  "sif_file \<Rightarrow> byte list \<Rightarrow> sif_meta_data \<Rightarrow> sif_file option" where
  "sif_insert_meta_data_pair file key to_insert =
     SIF_CHECK_FILE RETURN_V file (\<lambda>hdr.
       do { h \<leftarrow> sif_hash key;
            let hash = unat h mod SIF_HASH_TABLE_SIZE;
            q \<leftarrow> rd (meta_data file) (int hash);
            table \<leftarrow> wr (meta_data file) (int hash) (to_insert # q);
            Some (file\<lparr>meta_data := table, header := Some (hdr\<lparr>n_keys := n_keys hdr + 1\<rparr>)\<rparr>) })"

function null_terminator_check_loop :: "byte list option \<Rightarrow> int \<Rightarrow> int \<Rightarrow> int option" where
  "null_terminator_check_loop v i n =
     (if i < n then
        (case v of
           None \<Rightarrow> None
         | Some bs \<Rightarrow>
             do { c \<leftarrow> rd bs 0;
                  if c = 0x00 then Some 1 else null_terminator_check_loop v (i + 1) n })
      else Some 0)"
  by pat_completeness auto
termination
  by (relation "measure (\<lambda>(v, i, n). nat (n - i))") auto

definition sif_null_terminator_check :: "byte list option \<Rightarrow> int \<Rightarrow> int option" where
  "sif_null_terminator_check v n = null_terminator_check_loop v 0 n"

definition sif_get_meta_data_binary ::
  "sif_file \<Rightarrow> byte list \<Rightarrow> int \<Rightarrow> (sif_file \<times> byte list option \<times> int) option" where
  \<comment> \<open>The third argument is what \<^verbatim>\<open>*n_bytes\<close> holds at the call; the result is the
      handle, the pointer returned and \<^verbatim>\<open>*n_bytes\<close> at the return.\<close>
  "sif_get_meta_data_binary file key n_bytes =
     SIF_CHECK_FILE (\<lambda>file. (file, None, n_bytes)) file (\<lambda>hdr.
       do { (file, q) \<leftarrow> sif_get_meta_data_pair file key;
            case q of
              None \<Rightarrow> Some (file\<lparr>error := SIF_ERROR_META_DATA_KEY\<rparr>, None, 0)
            | Some (hash, n) \<Rightarrow>
                do { chain \<leftarrow> rd (meta_data file) (int hash);
                     q \<leftarrow> rd chain (int n);
                     Some (file, md_value q, value_length q) } })"

definition sif_get_meta_data :: "sif_file \<Rightarrow> byte list \<Rightarrow> (sif_file \<times> byte list option) option" where
  "sif_get_meta_data file key =
     SIF_CHECK_FILE (RETURN None) file (\<lambda>hdr.
       do { (file, q) \<leftarrow> sif_get_meta_data_pair file key;
            case q of
              None \<Rightarrow> Some (file\<lparr>error := SIF_ERROR_META_DATA_KEY\<rparr>, None)
            | Some (hash, n) \<Rightarrow>
                do { chain \<leftarrow> rd (meta_data file) (int hash);
                     q \<leftarrow> rd chain (int n);
                     let retval = md_value q;
                     c \<leftarrow> sif_null_terminator_check retval (value_length q);
                     if c = 0 then Some (file\<lparr>error := SIF_ERROR_META_DATA_VALUE\<rparr>, retval)
                     else Some (file, retval) } })"

definition sif_set_meta_data_len ::
  "sif_file \<Rightarrow> byte list \<Rightarrow> byte list \<Rightarrow> int \<Rightarrow> sif_file option" where
  \<comment> \<open>\<^verbatim>\<open>malloc\<close> refuses a negative size, \<^verbatim>\<open>realloc\<close> returns null for a size that is
      not positive.\<close>
  "sif_set_meta_data_len file key value value_len =
     do { (file, i) \<leftarrow> sif_get_meta_data_pair file key;
          case i of
            None \<Rightarrow>
              do { n \<leftarrow> strlen key;
                   let key_len = n + 1;
                   SIF_ERROR_CHECK_RETURN RETURN_V file (value_len < 0) SIF_ERROR_MEM (\<lambda>file.
                     do { k \<leftarrow> memcpy (replicate (nat key_len) 0) 0 key 0 key_len;
                          v \<leftarrow> memcpy (replicate (nat value_len) 0) 0 value 0 value_len;
                          sif_insert_meta_data_pair file key
                            \<lparr>md_key = k, md_value = Some v, key_length = key_len,
                             value_length = value_len\<rparr> }) }
          | Some (hash, n) \<Rightarrow>
              do { chain \<leftarrow> rd (meta_data file) (int hash);
                   i \<leftarrow> rd chain (int n);
                   if value_len \<noteq> value_length i then
                     if value_len \<le> 0 then
                       Some (file\<lparr>meta_data := (meta_data file)[hash := chain[n := i\<lparr>md_value := None\<rparr>]],
                                  error := SIF_ERROR_MEM\<rparr>)
                     else
                       do { v \<leftarrow> memcpy (replicate (nat value_len) 0) 0 value 0 value_len;
                            let i = i\<lparr>md_value := Some v, value_length := value_len\<rparr>;
                            Some (file\<lparr>meta_data := (meta_data file)[hash := chain[n := i]]\<rparr>) }
                   else Some file } }"

definition sif_set_meta_data :: "sif_file \<Rightarrow> byte list \<Rightarrow> byte list \<Rightarrow> sif_file option" where
  "sif_set_meta_data file key value =
     SIF_CHECK_FILE RETURN_V file (\<lambda>hdr.
       do { n \<leftarrow> strlen value; sif_set_meta_data_len file key value (n + 1) })"

definition sif_set_meta_data_binary ::
  "sif_file \<Rightarrow> byte list \<Rightarrow> byte list \<Rightarrow> int \<Rightarrow> sif_file option" where
  "sif_set_meta_data_binary file key buffer n_bytes =
     SIF_CHECK_FILE RETURN_V file (\<lambda>hdr. sif_set_meta_data_len file key buffer n_bytes)"

function get_last_used_block_index_loop :: "sif_file \<Rightarrow> sif_header \<Rightarrow> int \<Rightarrow> int \<Rightarrow> int option" where
  "get_last_used_block_index_loop file hdr i last_known_used_block =
     (if i < n_tiles hdr then
        do { t \<leftarrow> rd (blocks_to_tiles file) i;
             get_last_used_block_index_loop file hdr (i + 1)
               (if t \<noteq> - 1 then i else last_known_used_block) }
      else Some last_known_used_block)"
  by pat_completeness auto
termination
  by (relation "measure (\<lambda>(file, hdr, i, l). nat (n_tiles hdr - i))") auto

definition sif_get_last_used_block_index :: "sif_file \<Rightarrow> int option" where
  "sif_get_last_used_block_index file =
     do { hdr \<leftarrow> header file; get_last_used_block_index_loop file hdr 0 (- 1) }"

definition sif_truncate :: "sif_file \<Rightarrow> int \<Rightarrow> sif_file option" where
  "sif_truncate file p =
     (case ftruncate (fp file) p of
        (fp', rc) \<Rightarrow>
          SIF_ERROR_CHECK_RETURN RETURN_V (file\<lparr>fp := fp'\<rparr>) (rc \<noteq> 0) SIF_ERROR_TRUNCATE Some)"

fun write_meta_data_loop ::
  "sif_file \<Rightarrow> sif_meta_data list \<Rightarrow> int
     \<Rightarrow> (int \<Rightarrow> sif_file \<Rightarrow> (sif_file \<times> int) option) \<Rightarrow> (sif_file \<times> int) option" where
  \<comment> \<open>The two loops of \<^verbatim>\<open>_sif_write_meta_data\<close> visit the pairs chain after chain;
      the second argument is the pairs in that order. A null value is an empty array.\<close>
  "write_meta_data_loop file [] eofpos k = k eofpos file"
| "write_meta_data_loop file (i # rest) eofpos k =
     FWRITE64INT32 (RETURN 0) file (key_length i) (\<lambda>file.
     let eofpos = eofpos + 4 in
     FWRITE64 (RETURN 0) file (md_key i) (key_length i) 1 (\<lambda>file.
     let eofpos = eofpos + key_length i in
     FWRITE64INT32 (RETURN 0) file (value_length i) (\<lambda>file.
     let eofpos = eofpos + 4 in
     FWRITE64 (RETURN 0) file (case md_value i of None \<Rightarrow> [] | Some v \<Rightarrow> v) (value_length i) 1
       (\<lambda>file.
     let eofpos = eofpos + value_length i in
     write_meta_data_loop file rest eofpos k))))"

definition sif_write_meta_data :: "sif_file \<Rightarrow> (sif_file \<times> int) option" where
  "sif_write_meta_data file =
     do { last \<leftarrow> sif_get_last_used_block_index file;
          loc \<leftarrow> sif_get_block_location file (last + 1);
          let eofpos = loc;
          FSEEK64 (RETURN 0) file loc (\<lambda>file.
          write_meta_data_loop file (concat (take SIF_HASH_TABLE_SIZE (meta_data file))) eofpos
            (\<lambda>eofpos file.
          let eofpos = eofpos + 1 in
          do { file \<leftarrow> sif_truncate file eofpos; Some (file, 1) })) }"

subsection \<open>Tile slices\<close>

function is_uniform_inner ::
  "(int \<Rightarrow> bool option) \<Rightarrow> int \<Rightarrow> int \<Rightarrow> int \<Rightarrow> bool \<Rightarrow> bool option" where
  \<comment> \<open>The loop over \<open>k\<close> and \<open>j = i + k\<close>; the first argument compares the unit \<open>j\<close>
      with the first unit.\<close>
  "is_uniform_inner cmp i k extentX uniform =
     (if k < extentX \<and> uniform
      then do { u \<leftarrow> cmp (i + k); is_uniform_inner cmp i (k + 1) extentX (uniform \<and> u) }
      else Some uniform)"
  by pat_completeness auto
termination
  by (relation "measure (\<lambda>(cmp, i, k, extentX, uniform). nat (extentX - k))") auto

function is_uniform_outer ::
  "(int \<Rightarrow> bool option) \<Rightarrow> int \<Rightarrow> int \<Rightarrow> int \<Rightarrow> int \<Rightarrow> bool \<Rightarrow> bool option" where
  \<comment> \<open>The loop over \<open>i\<close> in steps of the tile width; a step that is not positive
      does not end.\<close>
  "is_uniform_outer cmp tw i num_units extentX uniform =
     (if i < num_units \<and> uniform then
        if tw \<le> 0 then None
        else do { u \<leftarrow> is_uniform_inner cmp i 0 extentX uniform;
                  is_uniform_outer cmp tw (i + tw) num_units extentX u }
      else Some uniform)"
  by pat_completeness auto
termination
  by (relation "measure (\<lambda>(cmp, tw, i, num_units, extentX, uniform). nat (num_units - i))") auto

definition sif_is_uniform :: "sif_file \<Rightarrow> byte list \<Rightarrow> int \<Rightarrow> int \<Rightarrow> bool option" where
  "sif_is_uniform file data extentX extentY =
     do { hdr \<leftarrow> header file;
          let dus = data_unit_size hdr;
              num_units = extentY * tile_width hdr in
          if dus = 1 then
            do { first \<leftarrow> rd data 0;
                 is_uniform_outer (\<lambda>j. do { d \<leftarrow> rd data j; Some (first = d) })
                   (tile_width hdr) 0 num_units extentX True }
          else if dus = 2 then
            do { first \<leftarrow> rd data 0;
                 second \<leftarrow> rd data 1;
                 is_uniform_outer
                   (\<lambda>j. do { d0 \<leftarrow> rd data (j * 2);
                              if first = d0 then do { d1 \<leftarrow> rd data (j * 2 + 1); Some (second = d1) }
                              else Some False })
                   (tile_width hdr) 0 num_units extentX True }
          else
            is_uniform_outer (\<lambda>j. memcmp data 0 data (dus * j) dus)
              (tile_width hdr) 0 num_units extentX True }"

function fill_units_loop ::
  "byte list \<Rightarrow> int \<Rightarrow> byte list \<Rightarrow> int \<Rightarrow> int \<Rightarrow> int \<Rightarrow> int \<Rightarrow> byte list option" where
  \<comment> \<open>The loop copying the uniform value (\<open>upv\<close> at the offset \<open>u\<close>) into the units
      of the buffer that starts at \<open>data + d\<close>.\<close>
  "fill_units_loop data d upv u dus i n =
     (if i < n
      then do { data \<leftarrow> memcpy data (d + i * dus) upv u dus;
                fill_units_loop data d upv u dus (i + 1) n }
      else Some data)"
  by pat_completeness auto
termination
  by (relation "measure (\<lambda>(data, d, upv, u, dus, i, n). nat (n - i))") auto

definition sif_get_tile_slice ::
  "sif_file \<Rightarrow> byte list option \<Rightarrow> int \<Rightarrow> int \<Rightarrow> int \<Rightarrow> (sif_file \<times> byte list option) option" where
  \<comment> \<open>The buffer (\<^term>\<open>None\<close> for a null pointer) is returned with the handle.\<close>
  "sif_get_tile_slice file buffer tx ty band =
     SIF_CHECK_FILE (\<lambda>file. (file, buffer)) file (\<lambda>hdr.
       if tx < 0 \<or> ty < 0 \<or> tx \<ge> n_tiles_across hdr
       then Some (file\<lparr>error := SIF_ERROR_INVALID_TN\<rparr>, buffer)
       else if band < 0 \<or> band \<ge> bands hdr
       then Some (file\<lparr>error := SIF_ERROR_INVALID_BAND\<rparr>, buffer)
       else case buffer of
         None \<Rightarrow> Some (file\<lparr>error := SIF_ERROR_INVALID_BUFFER\<rparr>, buffer)
       | Some data \<Rightarrow>
           let tile_num = (n_tiles_across hdr * ty) + tx in
           do { data \<leftarrow> bzero data (data_unit_size hdr * units_per_slice file);
                u \<leftarrow> sif_band_of_tile_is_uniform_shallow file tile_num band;
                tile \<leftarrow> rd (tiles file) tile_num;
                if u then
                  (if data_unit_size hdr > 1 then
                     do { data \<leftarrow> fill_units_loop data 0 (uniform_pixel_values tile)
                                   (data_unit_size hdr * band) (data_unit_size hdr) 0
                                   (units_per_slice file);
                          Some (file, Some data) }
                   else
                     do { c \<leftarrow> rd (uniform_pixel_values tile) (data_unit_size hdr * band);
                          data \<leftarrow> memset data 0 c (units_per_slice file);
                          Some (file, Some data) })
                else
                  do { loc \<leftarrow> sif_get_block_location file (block_num tile);
                       let p = loc + (data_unit_size hdr * units_per_slice file) * band;
                       FSEEK64 (\<lambda>file. (file, Some data)) file p (\<lambda>file.
                       FREAD64 (\<lambda>data file. (file, Some data)) file data (data_unit_size hdr)
                         (units_per_slice file) (\<lambda>data file.
                       Some (file, Some data))) } })"

definition store_uniform_value ::
  "sif_file \<Rightarrow> sif_header \<Rightarrow> int \<Rightarrow> int \<Rightarrow> byte list \<Rightarrow> sif_file option" where
  \<comment> \<open>The statements that \<^verbatim>\<open>sif_fill_tile_slice\<close>, \<^verbatim>\<open>sif_fill_tiles\<close> and
      \<^verbatim>\<open>sif_set_tile_slice\<close> share word for word: copy the value into the tile header,
      set the bit of the band, and free the block of a tile found completely uniform.\<close>
  "store_uniform_value file hdr tile_num band value =
     do { tile \<leftarrow> rd (tiles file) tile_num;
          upv \<leftarrow> memcpy (uniform_pixel_values tile) (data_unit_size hdr * band) value 0
                  (data_unit_size hdr);
          flags \<leftarrow> SIF_SET_BIT (uniform_flags tile) band;
          tiles' \<leftarrow> wr (tiles file) tile_num
                     (tile\<lparr>uniform_pixel_values := upv, uniform_flags := flags\<rparr>);
          (file, cu) \<leftarrow> sif_completely_uniform_shallow (file\<lparr>tiles := tiles'\<rparr>) tile_num;
          tile \<leftarrow> rd (tiles file) tile_num;
          if cu \<and> block_num tile \<noteq> - 1 then
            do { b2t \<leftarrow> wr (blocks_to_tiles file) (block_num tile) (- 1);
                 tiles' \<leftarrow> wr (tiles file) tile_num (tile\<lparr>block_num := - 1\<rparr>);
                 Some (file\<lparr>blocks_to_tiles := b2t, tiles := tiles'\<rparr>) }
          else Some file }"

definition sif_fill_tile_slice ::
  "sif_file \<Rightarrow> int \<Rightarrow> int \<Rightarrow> int \<Rightarrow> byte list option \<Rightarrow> sif_file option" where
  "sif_fill_tile_slice file tx ty band value =
     SIF_CHECK_FILE RETURN_V file (\<lambda>hdr.
       if tx < 0 \<or> ty < 0 \<or> tx \<ge> n_tiles_across hdr
       then Some (file\<lparr>error := SIF_ERROR_INVALID_TN\<rparr>)
       else if band < 0 \<or> band \<ge> bands hdr
       then Some (file\<lparr>error := SIF_ERROR_INVALID_BAND\<rparr>)
       else case value of
         None \<Rightarrow> Some (file\<lparr>error := SIF_ERROR_INVALID_BUFFER\<rparr>)
       | Some v \<Rightarrow>
           let tile_num = (n_tiles_across hdr * ty) + tx in
           if read_only file \<noteq> 0 then Some (file\<lparr>error := SIF_ERROR_INVALID_FILE_MODE\<rparr>)
           else
             do { file \<leftarrow> store_uniform_value file hdr tile_num band v;
                  tile \<leftarrow> rd (tiles file) tile_num;
                  (file, rc) \<leftarrow> sif_write_tile_header file tile tile_num;
                  Some file })"

function fill_tiles_loop :: "sif_file \<Rightarrow> sif_header \<Rightarrow> int \<Rightarrow> byte list \<Rightarrow> int \<Rightarrow> sif_file option" where
  "fill_tiles_loop file hdr band v tile_num =
     (if tile_num < n_tiles hdr
      then do { file \<leftarrow> store_uniform_value file hdr tile_num band v;
                fill_tiles_loop file hdr band v (tile_num + 1) }
      else Some file)"
  by pat_completeness auto
termination
  by (relation "measure (\<lambda>(file, hdr, band, v, tile_num). nat (n_tiles hdr - tile_num))") auto

definition sif_fill_tiles :: "sif_file \<Rightarrow> int \<Rightarrow> byte list option \<Rightarrow> sif_file option" where
  "sif_fill_tiles file band value =
     SIF_CHECK_FILE RETURN_V file (\<lambda>hdr.
       if band < 0 \<or> band \<ge> bands hdr
       then Some (file\<lparr>error := SIF_ERROR_INVALID_BAND\<rparr>)
       else case value of
         None \<Rightarrow> Some (file\<lparr>error := SIF_ERROR_INVALID_BUFFER\<rparr>)
       | Some v \<Rightarrow>
           if read_only file \<noteq> 0 then Some (file\<lparr>error := SIF_ERROR_INVALID_FILE_MODE\<rparr>)
           else
             do { file \<leftarrow> fill_tiles_loop file hdr band v 0;
                  (file, rc) \<leftarrow> sif_write_tile_headers file;
                  Some file })"

function first_free_block_loop :: "sif_file \<Rightarrow> sif_header \<Rightarrow> int \<Rightarrow> int \<Rightarrow> int option" where
  \<comment> \<open>The search of \<^verbatim>\<open>sif_set_tile_slice\<close> for the first free block; \<open>free_b\<close> stays as it
      is when no block is free.\<close>
  "first_free_block_loop file hdr i free_b =
     (if i < n_tiles hdr then
        do { t \<leftarrow> rd (blocks_to_tiles file) i;
             if t = - 1 then Some i else first_free_block_loop file hdr (i + 1) free_b }
      else Some free_b)"
  by pat_completeness auto
termination
  by (relation "measure (\<lambda>(file, hdr, i, free_b). nat (n_tiles hdr - i))") auto

function set_tile_slice_write_loop ::
  "sif_file \<Rightarrow> sif_header \<Rightarrow> byte list \<Rightarrow> int \<Rightarrow> (sif_file \<Rightarrow> sif_file option) \<Rightarrow> sif_file option" where
  \<comment> \<open>The buffer written once for every band into a block just taken.\<close>
  "set_tile_slice_write_loop file hdr buffer i k =
     (if i < bands hdr
      then FWRITE64 RETURN_V file buffer (data_unit_size hdr) (units_per_slice file)
             (\<lambda>file. set_tile_slice_write_loop file hdr buffer (i + 1) k)
      else k file)"
  by pat_completeness auto
termination
  by (relation "measure (\<lambda>(file, hdr, buffer, i, k). nat (bands hdr - i))") auto

definition set_tile_slice_tail ::
  "sif_header \<Rightarrow> byte list \<Rightarrow> int \<Rightarrow> int \<Rightarrow> sif_file \<Rightarrow> sif_file option" where
  \<comment> \<open>The statements of \<^verbatim>\<open>sif_set_tile_slice\<close> that follow the search for a free block:
      the slice is written into the block of the tile and the band marked as not uniform.\<close>
  "set_tile_slice_tail hdr buf tile_num band file =
     do { file \<leftarrow> (if intrinsic_write hdr = 0
                   then do { d \<leftarrow> wr (dirty_tiles file) tile_num 1;
                             Some (file\<lparr>dirty_tiles := d\<rparr>) }
                   else Some file);
          tile \<leftarrow> rd (tiles file) tile_num;
          b \<leftarrow> sif_get_block_location file (block_num tile);
          let loc = b + data_unit_size hdr * units_per_slice file * band;
          FSEEK64 RETURN_V file loc (\<lambda>file.
          FWRITE64 RETURN_V file buf (data_unit_size hdr) (units_per_slice file) (\<lambda>file.
          do { flags \<leftarrow> SIF_CLEAR_BIT (uniform_flags tile) band;
               let tile = tile\<lparr>uniform_flags := flags\<rparr>;
               tiles' \<leftarrow> wr (tiles file) tile_num tile;
               (file, rc) \<leftarrow> sif_write_tile_header (file\<lparr>tiles := tiles'\<rparr>) tile tile_num;
               Some file })) }"

definition sif_set_tile_slice ::
  "sif_file \<Rightarrow> byte list option \<Rightarrow> int \<Rightarrow> int \<Rightarrow> int \<Rightarrow> sif_file option" where
  "sif_set_tile_slice file buffer tx ty band =
     SIF_CHECK_FILE RETURN_V file (\<lambda>hdr.
       if tx < 0 \<or> ty < 0 \<or> tx \<ge> n_tiles_across hdr
       then Some (file\<lparr>error := SIF_ERROR_INVALID_TN\<rparr>)
       else if band < 0 \<or> band \<ge> bands hdr
       then Some (file\<lparr>error := SIF_ERROR_INVALID_BAND\<rparr>)
       else case buffer of
         None \<Rightarrow> Some (file\<lparr>error := SIF_ERROR_INVALID_BUFFER\<rparr>)
       | Some buf \<Rightarrow>
           if read_only file \<noteq> 0 then Some (file\<lparr>error := SIF_ERROR_INVALID_FILE_MODE\<rparr>)
           else
             let extentX = c_MIN (tile_width hdr) (width hdr - tx * tile_width hdr);
                 extentY = c_MIN (tile_height hdr) (height hdr - ty * tile_height hdr);
                 tile_num = (n_tiles_across hdr * ty) + tx in
             do { u \<leftarrow> (if intrinsic_write hdr \<noteq> 0 then sif_is_uniform file buf extentX extentY
                        else Some False);
                  if u then
                    do { file \<leftarrow> store_uniform_value file hdr tile_num band buf;
                         tile \<leftarrow> rd (tiles file) tile_num;
                         (file, rc) \<leftarrow> sif_write_tile_header file tile tile_num;
                         Some file }
                  else
                    do { tile \<leftarrow> rd (tiles file) tile_num;
                         if block_num tile = - 1 then
                           do { free_b \<leftarrow> first_free_block_loop file hdr 0 0;
                                let tile = tile\<lparr>block_num := free_b\<rparr>;
                                tiles' \<leftarrow> wr (tiles file) tile_num tile;
                                b2t \<leftarrow> wr (blocks_to_tiles file) free_b tile_num;
                                let file = file\<lparr>tiles := tiles', blocks_to_tiles := b2t\<rparr>;
                                loc \<leftarrow> sif_get_block_location file (block_num tile);
                                FSEEK64 RETURN_V file loc (\<lambda>file.
                                set_tile_slice_write_loop file hdr buf 0
                                  (set_tile_slice_tail hdr buf tile_num band)) }
                         else set_tile_slice_tail hdr buf tile_num band file } })"

subsection \<open>The block maps\<close>

text \<open>
  The two maps of a handle, as lists: \<open>bs\<close> lists the block number of every tile (-1 for a
  tile with no block) and \<open>B\<close> the tile of every block (-1 for a free block).
\<close>

definition blocks_before :: "int list \<Rightarrow> nat \<Rightarrow> nat" where
  \<comment> \<open>The number of tiles with a block among the first \<open>t\<close> tiles.\<close>
  "blocks_before bs t = length (filter (\<lambda>u. bs ! u \<noteq> - 1) [0 ..< t])"

definition maps_consistent :: "int list \<Rightarrow> int list \<Rightarrow> bool" where
  \<comment> \<open>Each map is the inverse of the other: the block of a tile is a block of that
      tile, and the tile of a block is a tile with that block.\<close>
  "maps_consistent bs B \<longleftrightarrow> length B = length bs \<and>
     (\<forall>t < length bs. bs ! t \<noteq> - 1 \<longrightarrow>
        0 \<le> bs ! t \<and> nat (bs ! t) < length B \<and> B ! nat (bs ! t) = int t) \<and>
     (\<forall>b < length B. B ! b \<noteq> - 1 \<longrightarrow>
        0 \<le> B ! b \<and> nat (B ! b) < length bs \<and> bs ! nat (B ! b) = int b)"

definition compact_below :: "int list \<Rightarrow> nat \<Rightarrow> bool" where
  \<comment> \<open>Among the first \<open>i\<close> tiles, the tiles with a block have the blocks 0, 1, 2, ... in
      the order of the tiles.\<close>
  "compact_below bs i \<longleftrightarrow> (\<forall>t < i. bs ! t \<noteq> - 1 \<longrightarrow> bs ! t = int (blocks_before bs t))"

definition live_in :: "int list \<Rightarrow> nat list" where
  \<comment> \<open>The tiles with a block, in increasing order.\<close>
  "live_in bs = filter (\<lambda>t. bs ! t \<noteq> - 1) [0 ..< length bs]"

subsection \<open>The size of the meta-data on disk\<close>

fun meta_data_bytes :: "sif_meta_data list \<Rightarrow> int" where
  \<comment> \<open>The total size of the records of the specification: each pair is stored as the
      length of its key in four bytes, the key, the length of its value in four bytes, and
      the value.\<close>
  "meta_data_bytes [] = 0"
| "meta_data_bytes (i # rest) = 4 + key_length i + 4 + value_length i + meta_data_bytes rest"

subsection \<open>The memory of a handle\<close>

definition sif_memory :: "sif_file \<Rightarrow> sif_file" where
  \<comment> \<open>The handle without what the stream macros and the integer codec write: the stream,
      the error code and the eight bytes of \<^verbatim>\<open>ubuf\<close>. Two handles with the same memory
      differ in those three fields only.\<close>
  "sif_memory file = file\<lparr>fp := \<lparr>contents = [], pos = 0\<rparr>, error := 0, ubuf := []\<rparr>"

subsection \<open>Raster windows\<close>

definition sif_swap_blocks ::
  "sif_file \<Rightarrow> int \<Rightarrow> int \<Rightarrow> byte list \<Rightarrow> byte list \<Rightarrow> bool
     \<Rightarrow> (sif_file \<times> byte list \<times> byte list) option" where
  \<comment> \<open>The two buffers \<open>da\<close> and \<open>db\<close> are returned with the handle.\<close>
  "sif_swap_blocks file a b da db assign =
     do { hdr \<leftarrow> header file;
          let tb = tile_bytes hdr;
          if a = b then Some (file, da, db)
          else
            do { pos_a \<leftarrow> sif_get_block_location file a;
                 pos_b \<leftarrow> sif_get_block_location file b;
                 let step4 = (\<lambda>da db file.
                       if b \<noteq> - 1 then
                         FSEEK64 (\<lambda>file. (file, da, db)) file pos_a (\<lambda>file.
                         FWRITE64 (\<lambda>file. (file, da, db)) file db 1 tb (\<lambda>file.
                         Some (file, da, db)))
                       else Some (file, da, db));
                     step3 = (\<lambda>da db file.
                       if a \<noteq> - 1 \<and> \<not> assign then
                         FSEEK64 (\<lambda>file. (file, da, db)) file pos_b (\<lambda>file.
                         FWRITE64 (\<lambda>file. (file, da, db)) file da 1 tb (step4 da db))
                       else step4 da db file);
                     step2 = (\<lambda>da file.
                       if b \<noteq> - 1 then
                         FSEEK64 (\<lambda>file. (file, da, db)) file pos_b (\<lambda>file.
                         FREAD64 (\<lambda>db file. (file, da, db)) file db 1 tb (\<lambda>db file.
                         step3 da db file))
                       else step3 da db file) in
                 if a \<noteq> - 1 \<and> \<not> assign then
                   FSEEK64 (\<lambda>file. (file, da, db)) file pos_a (\<lambda>file.
                   FREAD64 (\<lambda>da file. (file, da, db)) file da 1 tb (\<lambda>da file.
                   step2 da file))
                 else step2 da file } }"

function set_raster_rows_loop ::
  "byte list \<Rightarrow> byte list \<Rightarrow> int \<Rightarrow> int \<Rightarrow> int \<Rightarrow> int \<Rightarrow> int \<Rightarrow> int \<Rightarrow> int \<Rightarrow> int \<Rightarrow> int
     \<Rightarrow> byte list option" where
  \<comment> \<open>The loop of \<^verbatim>\<open>sif_set_raster\<close> over the scan lines of one tile.\<close>
  "set_raster_rows_loop buffer datav trs dus wdus sxt sxd ext cyd cyt eyt =
     (if cyt \<le> eyt
      then do { buffer \<leftarrow> memcpy buffer ((cyt * trs) + (sxt * dus)) datav ((cyd * wdus) + (sxd * dus))
                             ((ext - sxt + 1) * dus);
                set_raster_rows_loop buffer datav trs dus wdus sxt sxd ext (cyd + 1) (cyt + 1) eyt }
      else Some buffer)"
  by pat_completeness auto
termination
  by (relation "measure (\<lambda>(buffer, datav, trs, dus, wdus, sxt, sxd, ext, cyd, cyt, eyt).
        nat (eyt + 1 - cyt))") auto

function set_raster_tx_loop ::
  "sif_file \<Rightarrow> sif_header \<Rightarrow> byte list \<Rightarrow> int \<Rightarrow> int \<Rightarrow> int \<Rightarrow> int \<Rightarrow> int \<Rightarrow> int \<Rightarrow> int \<Rightarrow> int
     \<Rightarrow> (sif_file \<times> bool) option" where
  \<comment> \<open>The loop over \<open>tx\<close>; the flag says that the function has returned.\<close>
  "set_raster_tx_loop file hdr datav x y w h band ty tx tnx2 =
     (if tx \<le> tnx2 then
        (let tw = tile_width hdr; th = tile_height hdr; trs = n_tiles_across hdr;
             dus = data_unit_size hdr; wdus = dus * w in
         do { (file, b) \<leftarrow> sif_get_tile_slice file (Some (buffer0 file)) tx ty band;
              buffer \<leftarrow> b;
              let sxt = c_MAX 0 (x - tx * tw);
              let syt = c_MAX 0 (y - ty * th);
              let ext = c_MIN (tw - 1) (x + w - 1 - (tx * tw));
              let eyt = c_MIN (th - 1) (y + h - 1 - (ty * th));
              let sxd = (tx * tw + sxt) - x;
              let syd = (ty * th + syt) - y;
              buffer \<leftarrow> set_raster_rows_loop buffer datav trs dus wdus sxt sxd ext syd syt eyt;
              file \<leftarrow> sif_set_tile_slice (file\<lparr>buffer0 := buffer\<rparr>) (Some buffer) tx ty band;
              if error file \<noteq> 0 then Some (file, True)
              else set_raster_tx_loop file hdr datav x y w h band ty (tx + 1) tnx2 })
      else Some (file, False))"
  by pat_completeness auto
termination
  by (relation "measure (\<lambda>(file, hdr, datav, x, y, w, h, band, ty, tx, tnx2). nat (tnx2 + 1 - tx))")
    auto

function set_raster_ty_loop ::
  "sif_file \<Rightarrow> sif_header \<Rightarrow> byte list \<Rightarrow> int \<Rightarrow> int \<Rightarrow> int \<Rightarrow> int \<Rightarrow> int \<Rightarrow> int \<Rightarrow> int \<Rightarrow> int \<Rightarrow> int
     \<Rightarrow> sif_file option" where
  "set_raster_ty_loop file hdr datav x y w h band tnx1 tnx2 ty tny2 =
     (if ty \<le> tny2 then
        do { (file, returned) \<leftarrow> set_raster_tx_loop file hdr datav x y w h band ty tnx1 tnx2;
             if returned then Some file
             else set_raster_ty_loop file hdr datav x y w h band tnx1 tnx2 (ty + 1) tny2 }
      else Some file)"
  by pat_completeness auto
termination
  by (relation "measure (\<lambda>(file, hdr, datav, x, y, w, h, band, tnx1, tnx2, ty, tny2).
        nat (tny2 + 1 - ty))") auto

definition sif_set_raster ::
  "sif_file \<Rightarrow> byte list \<Rightarrow> int \<Rightarrow> int \<Rightarrow> int \<Rightarrow> int \<Rightarrow> int \<Rightarrow> sif_file option" where
  "sif_set_raster file data x y w h band =
     SIF_CHECK_FILE RETURN_V file (\<lambda>hdr.
       if read_only file \<noteq> 0 then Some file
       else if x < 0 \<or> y < 0 then Some (file\<lparr>error := SIF_ERROR_INVALID_COORD\<rparr>)
       else if w < 1 \<or> h < 1 \<or> x + w > width hdr \<or> y + h > height hdr
       then Some (file\<lparr>error := SIF_ERROR_INVALID_REGION_SIZE\<rparr>)
       else if band < 0 \<or> band \<ge> bands hdr
       then Some (file\<lparr>error := SIF_ERROR_INVALID_BAND\<rparr>)
       else if tile_width hdr = 0 \<or> tile_height hdr = 0 then None
       else
         let tw = tile_width hdr; th = tile_height hdr;
             tnx1 = c_div x tw;
             tny1 = c_div y th;
             tnx2 = c_div (x + w - 1) tw;
             tny2 = c_div (y + h - 1) th in
         set_raster_ty_loop file hdr data x y w h band tnx1 tnx2 tny1 tny2)"

function get_raster_rows_loop ::
  "byte list \<Rightarrow> byte list \<Rightarrow> int \<Rightarrow> int \<Rightarrow> int \<Rightarrow> int \<Rightarrow> int \<Rightarrow> int \<Rightarrow> int \<Rightarrow> int \<Rightarrow> int
     \<Rightarrow> byte list option" where
  \<comment> \<open>The loop of \<^verbatim>\<open>sif_get_raster\<close> over the scan lines of one tile.\<close>
  "get_raster_rows_loop datav buffer trs dus wdus sxt sxd ext cyd cyt eyt =
     (if cyt \<le> eyt
      then do { datav \<leftarrow> memcpy datav ((cyd * wdus) + (sxd * dus)) buffer ((cyt * trs) + (sxt * dus))
                            ((ext - sxt + 1) * dus);
                get_raster_rows_loop datav buffer trs dus wdus sxt sxd ext (cyd + 1) (cyt + 1) eyt }
      else Some datav)"
  by pat_completeness auto
termination
  by (relation "measure (\<lambda>(datav, buffer, trs, dus, wdus, sxt, sxd, ext, cyd, cyt, eyt).
        nat (eyt + 1 - cyt))") auto

function get_raster_tx_loop ::
  "sif_file \<Rightarrow> sif_header \<Rightarrow> byte list \<Rightarrow> int \<Rightarrow> int \<Rightarrow> int \<Rightarrow> int \<Rightarrow> int \<Rightarrow> int \<Rightarrow> int \<Rightarrow> int
     \<Rightarrow> (sif_file \<times> byte list) option" where
  "get_raster_tx_loop file hdr datav x y w h band ty tx tnx2 =
     (if tx \<le> tnx2 then
        (let tw = tile_width hdr; th = tile_height hdr; trs = n_tiles_across hdr;
             dus = data_unit_size hdr; wdus = dus * w;
             sxt = c_MAX 0 (x - tx * tw);
             syt = c_MAX 0 (y - ty * th);
             ext = c_MIN (tw - 1) (x + w - 1 - (tx * tw));
             eyt = c_MIN (th - 1) (y + h - 1 - (ty * th));
             sxd = (tx * tw + sxt) - x;
             syd = (ty * th + syt) - y in
         do { (file, b) \<leftarrow> sif_get_tile_slice file (Some (buffer0 file)) tx ty band;
              buffer \<leftarrow> b;
              datav \<leftarrow> get_raster_rows_loop datav buffer trs dus wdus sxt sxd ext syd syt eyt;
              get_raster_tx_loop (file\<lparr>buffer0 := buffer\<rparr>) hdr datav x y w h band ty (tx + 1) tnx2 })
      else Some (file, datav))"
  by pat_completeness auto
termination
  by (relation "measure (\<lambda>(file, hdr, datav, x, y, w, h, band, ty, tx, tnx2). nat (tnx2 + 1 - tx))")
    auto

function get_raster_ty_loop ::
  "sif_file \<Rightarrow> sif_header \<Rightarrow> byte list \<Rightarrow> int \<Rightarrow> int \<Rightarrow> int \<Rightarrow> int \<Rightarrow> int \<Rightarrow> int \<Rightarrow> int \<Rightarrow> int \<Rightarrow> int
     \<Rightarrow> (sif_file \<times> byte list) option" where
  "get_raster_ty_loop file hdr datav x y w h band tnx1 tnx2 ty tny2 =
     (if ty \<le> tny2 then
        do { (file, datav) \<leftarrow> get_raster_tx_loop file hdr datav x y w h band ty tnx1 tnx2;
             get_raster_ty_loop file hdr datav x y w h band tnx1 tnx2 (ty + 1) tny2 }
      else Some (file, datav))"
  by pat_completeness auto
termination
  by (relation "measure (\<lambda>(file, hdr, datav, x, y, w, h, band, tnx1, tnx2, ty, tny2).
        nat (tny2 + 1 - ty))") auto

definition sif_get_raster ::
  "sif_file \<Rightarrow> byte list \<Rightarrow> int \<Rightarrow> int \<Rightarrow> int \<Rightarrow> int \<Rightarrow> int \<Rightarrow> (sif_file \<times> byte list) option" where
  \<comment> \<open>The caller's buffer is returned with the handle.\<close>
  "sif_get_raster file data x y w h band =
     SIF_CHECK_FILE (\<lambda>file. (file, data)) file (\<lambda>hdr.
       if x < 0 \<or> y < 0 then Some (file\<lparr>error := SIF_ERROR_INVALID_COORD\<rparr>, data)
       else if w < 1 \<or> h < 1 \<or> x + w > width hdr \<or> y + h > height hdr
       then Some (file\<lparr>error := SIF_ERROR_INVALID_REGION_SIZE\<rparr>, data)
       else if band < 0 \<or> band \<ge> bands hdr
       then Some (file\<lparr>error := SIF_ERROR_INVALID_BAND\<rparr>, data)
       else if tile_width hdr = 0 \<or> tile_height hdr = 0 then None
       else
         let tw = tile_width hdr; th = tile_height hdr;
             tnx1 = c_div x tw;
             tny1 = c_div y th;
             tnx2 = c_div (x + w - 1) tw;
             tny2 = c_div (y + h - 1) th in
         get_raster_ty_loop file hdr data x y w h band tnx1 tnx2 tny1 tny2)"

subsection \<open>Consolidation and defragmentation\<close>

function get_tile_loop ::
  "sif_file \<Rightarrow> sif_header \<Rightarrow> int \<Rightarrow> byte list \<Rightarrow> int \<Rightarrow> (sif_file \<times> byte list) option" where
  \<comment> \<open>The loop of \<^verbatim>\<open>_sif_get_tile\<close> over the bands; \<open>buffer\<close> is \<open>data + off\<close>.\<close>
  "get_tile_loop file hdr tile_no data i =
     (if i < bands hdr then
        (let off = units_per_slice file * data_unit_size hdr * i in
         do { (file, cu) \<leftarrow> sif_completely_uniform_shallow file tile_no;
              tile \<leftarrow> rd (tiles file) tile_no;
              if cu then
                (if data_unit_size hdr = 1 then
                   do { data \<leftarrow> fill_units_loop data off (uniform_pixel_values tile)
                                 (i * data_unit_size hdr) (data_unit_size hdr) 0 (units_per_slice file);
                        get_tile_loop file hdr tile_no data (i + 1) }
                 else
                   do { c \<leftarrow> rd (uniform_pixel_values tile) (i * data_unit_size hdr);
                        data \<leftarrow> memset data off c (units_per_slice file);
                        get_tile_loop file hdr tile_no data (i + 1) })
              else
                do { loc \<leftarrow> sif_get_block_location file (block_num tile);
                     let p = loc + units_per_slice file * data_unit_size hdr * i;
                     if off < 0 \<or> int (length data) < off then None
                     else
                       FSEEK64 (\<lambda>file. (file, data)) file p (\<lambda>file.
                       FREAD64 (\<lambda>buffer file. (file, take (nat off) data @ buffer)) file
                         (drop (nat off) data) 1 (tile_bytes hdr) (\<lambda>buffer file.
                       get_tile_loop file hdr tile_no (take (nat off) data @ buffer) (i + 1))) } })
      else Some (file, data))"
  by pat_completeness auto
termination
  by (relation "measure (\<lambda>(file, hdr, tile_no, data, i). nat (bands hdr - i))") auto

definition sif_get_tile :: "sif_file \<Rightarrow> int \<Rightarrow> byte list \<Rightarrow> (sif_file \<times> byte list) option" where
  "sif_get_tile file tile_no data =
     do { hdr \<leftarrow> header file;
          data \<leftarrow> bzero data (tile_bytes hdr);
          get_tile_loop file hdr tile_no data 0 }"

function uniform_check_loop ::
  "sif_file \<Rightarrow> sif_header \<Rightarrow> int \<Rightarrow> byte list \<Rightarrow> int \<Rightarrow> int \<Rightarrow> int \<Rightarrow> sif_file option" where
  \<comment> \<open>The loop of \<^verbatim>\<open>_sif_uniform_check\<close> over the bands.\<close>
  "uniform_check_loop file hdr tile_no data extentX extentY i =
     (if i < bands hdr then
        (let off = i * units_per_slice file * data_unit_size hdr in
         do { tile \<leftarrow> rd (tiles file) tile_no;
              bit \<leftarrow> SIF_GET_BIT (uniform_flags tile) i;
              u \<leftarrow> (if bit = 0
                    then (if off < 0 \<or> int (length data) < off then None
                          else sif_is_uniform file (drop (nat off) data) extentX extentY)
                    else Some False);
              if bit = 0 \<and> u \<and> block_num tile \<noteq> - 1 then
                do { upv \<leftarrow> memcpy (uniform_pixel_values tile) (i * data_unit_size hdr) data off
                             (data_unit_size hdr);
                     flags \<leftarrow> SIF_SET_BIT (uniform_flags tile) i;
                     tiles' \<leftarrow> wr (tiles file) tile_no
                                (tile\<lparr>uniform_pixel_values := upv, uniform_flags := flags\<rparr>);
                     uniform_check_loop (file\<lparr>tiles := tiles'\<rparr>) hdr tile_no data extentX extentY
                       (i + 1) }
              else uniform_check_loop file hdr tile_no data extentX extentY (i + 1) })
      else Some file)"
  by pat_completeness auto
termination
  by (relation "measure (\<lambda>(file, hdr, tile_no, data, extentX, extentY, i). nat (bands hdr - i))")
    auto

definition sif_uniform_check ::
  "sif_file \<Rightarrow> int \<Rightarrow> byte list \<Rightarrow> (sif_file \<times> byte list \<times> int) option" where
  "sif_uniform_check file tile_no data =
     do { hdr \<leftarrow> header file;
          if n_tiles_across hdr = 0 then None
          else
            let row = c_div tile_no (n_tiles_across hdr);
                col = c_mod tile_no (n_tiles_across hdr) in
            do { tile \<leftarrow> rd (tiles file) tile_no;
                 if block_num tile = - 1 then Some (file, data, 1)
                 else
                   do { (file, data) \<leftarrow> sif_get_tile file tile_no data;
                        if error file \<noteq> 0 then Some (file, data, - 1)
                        else
                          let extentX = c_MIN (tile_width hdr) (width hdr - col * tile_width hdr);
                              extentY = c_MIN (tile_height hdr) (height hdr - row * tile_height hdr)
                          in
                          do { file \<leftarrow> uniform_check_loop file hdr tile_no data extentX extentY 0;
                               (file, cu) \<leftarrow> sif_completely_uniform_shallow file tile_no;
                               tile \<leftarrow> rd (tiles file) tile_no;
                               file \<leftarrow> (if cu \<and> block_num tile \<noteq> - 1 then
                                  do { b2t \<leftarrow> wr (blocks_to_tiles file) (block_num tile) (- 1);
                                       tiles' \<leftarrow> wr (tiles file) tile_no (tile\<lparr>block_num := - 1\<rparr>);
                                       Some (file\<lparr>blocks_to_tiles := b2t, tiles := tiles'\<rparr>) }
                                  else Some file);
                               tile \<leftarrow> rd (tiles file) tile_no;
                               (file, rc) \<leftarrow> sif_write_tile_header file tile tile_no;
                               Some (file, data, 1) } } } }"

function mark_uniform_tiles_loop ::
  "sif_file \<Rightarrow> sif_header \<Rightarrow> byte list \<Rightarrow> int \<Rightarrow> (sif_file \<times> byte list) option" where
  "mark_uniform_tiles_loop file hdr buffer i =
     (if i < n_tiles hdr then
        do { tile \<leftarrow> rd (tiles file) i;
             d \<leftarrow> (if block_num tile \<noteq> - 1 then rd (dirty_tiles file) i else Some 0);
             if block_num tile \<noteq> - 1 \<and> d \<noteq> 0 then
               do { (file, buffer, rc) \<leftarrow> sif_uniform_check file i buffer;
                    if error file \<noteq> 0 then Some (file, buffer)
                    else
                      do { dirty \<leftarrow> wr (dirty_tiles file) i 0;
                           mark_uniform_tiles_loop (file\<lparr>dirty_tiles := dirty\<rparr>) hdr buffer (i + 1) } }
             else mark_uniform_tiles_loop file hdr buffer (i + 1) }
      else Some (file, buffer))"
  by pat_completeness auto
termination
  by (relation "measure (\<lambda>(file, hdr, buffer, i). nat (n_tiles hdr - i))") auto

definition sif_mark_uniform_tiles :: "sif_file \<Rightarrow> byte list \<Rightarrow> (sif_file \<times> byte list) option" where
  "sif_mark_uniform_tiles file buffer =
     do { hdr \<leftarrow> header file;
          if read_only file \<noteq> 0 then Some (file, buffer)
          else if consolidate hdr = 0 then Some (file, buffer)
          else mark_uniform_tiles_loop file hdr buffer 0 }"

definition sif_consolidate :: "sif_file \<Rightarrow> sif_file option" where
  "sif_consolidate file =
     do { hdr \<leftarrow> header file;
          if read_only file \<noteq> 0 then Some file
          else if consolidate hdr = 0 then Some file
          else
            do { (file, buffer) \<leftarrow> sif_mark_uniform_tiles file (buffer0 file);
                 (file, rc) \<leftarrow> sif_write_meta_data (file\<lparr>buffer0 := buffer\<rparr>);
                 Some file } }"

function defragment_loop :: "sif_file \<Rightarrow> sif_header \<Rightarrow> int \<Rightarrow> int \<Rightarrow> (sif_file \<times> bool) option" where
  \<comment> \<open>The loop of \<^verbatim>\<open>sif_defragment\<close>; the flag says that the function has returned.\<close>
  "defragment_loop file hdr i bn1 =
     (if i < n_tiles hdr then
        do { tile \<leftarrow> rd (tiles file) i;
             if block_num tile \<noteq> - 1 then
               do { let bn2 = block_num tile;
                    tn1 \<leftarrow> rd (blocks_to_tiles file) bn1;
                    let tn2 = i;
                    tiles' \<leftarrow> wr (tiles file) tn2 (tile\<lparr>block_num := bn1\<rparr>);
                    b2t \<leftarrow> wr (blocks_to_tiles file) bn1 tn2;
                    let file = file\<lparr>tiles := tiles', blocks_to_tiles := b2t\<rparr>;
                    (file, returned) \<leftarrow>
                      (if tn1 \<noteq> - 1 then
                         do { t1 \<leftarrow> rd (tiles file) tn1;
                              tiles' \<leftarrow> wr (tiles file) tn1 (t1\<lparr>block_num := bn2\<rparr>);
                              b2t \<leftarrow> wr (blocks_to_tiles file) bn2 tn1;
                              (file, rc) \<leftarrow> sif_write_tile_header
                                (file\<lparr>tiles := tiles', blocks_to_tiles := b2t\<rparr>)
                                (t1\<lparr>block_num := bn2\<rparr>) tn1;
                              Some (file, error file \<noteq> 0) }
                       else
                         do { b2t \<leftarrow> wr (blocks_to_tiles file) bn2 (- 1);
                              Some (file\<lparr>blocks_to_tiles := b2t\<rparr>, False) });
                    if returned then Some (file, True)
                    else
                      do { (file, buf1, buf2) \<leftarrow>
                             sif_swap_blocks file bn1 bn2 (buffer0 file) (buffer1 file) (tn1 = - 1);
                           let file = file\<lparr>buffer0 := buf1, buffer1 := buf2\<rparr>;
                           if error file \<noteq> 0 then Some (file, True)
                           else
                             do { t2 \<leftarrow> rd (tiles file) tn2;
                                  (file, rc) \<leftarrow> sif_write_tile_header file t2 tn2;
                                  if error file \<noteq> 0 then Some (file, True)
                                  else defragment_loop file hdr (i + 1) (bn1 + 1) } } }
             else defragment_loop file hdr (i + 1) bn1 }
      else Some (file, False))"
  by pat_completeness auto
termination
  by (relation "measure (\<lambda>(file, hdr, i, bn1). nat (n_tiles hdr - i))") auto

definition sif_defragment :: "sif_file \<Rightarrow> sif_file option" where
  "sif_defragment file =
     SIF_CHECK_FILE RETURN_V file (\<lambda>hdr.
       if read_only file \<noteq> 0 then Some file
       else if defragment hdr = 0 then Some file
       else
         do { (file, returned) \<leftarrow> defragment_loop file hdr 0 0;
              if returned then Some file
              else if error file \<noteq> 0 then Some file
              else do { (file, rc) \<leftarrow> sif_write_meta_data file; Some file } })"

subsection \<open>Opening, creating, flushing and closing\<close>

definition sif_use_file_format_version :: "sif_file \<Rightarrow> int \<Rightarrow> sif_file" where
  "sif_use_file_format_version file version' =
     (if version' < 1 then file\<lparr>error := SIF_ERROR_CANNOT_WRITE_VERSION\<rparr>
      else file\<lparr>use_file_version := version'\<rparr>)"

definition sif_get_version :: int where
  "sif_get_version = SIF_VERSION"

definition sif_set_intrinsic_write :: "sif_file \<Rightarrow> sif_file option" where
  "sif_set_intrinsic_write file =
     SIF_CHECK_FILE RETURN_V file (\<lambda>hdr. Some (file\<lparr>header := Some (hdr\<lparr>intrinsic_write := 1\<rparr>)\<rparr>))"


definition sif_flush :: "sif_file \<Rightarrow> (sif_file \<times> int) option" where
  "sif_flush file =
     (if read_only file = 0 then
        do { (file, rc) \<leftarrow> sif_write_header file;
             (file, rc) \<leftarrow> sif_write_tile_headers file;
             (file, rc) \<leftarrow> sif_write_meta_data file;
             hdr \<leftarrow> header file;
             file \<leftarrow> (if consolidate hdr \<noteq> 0 then sif_consolidate file else Some file);
             hdr \<leftarrow> header file;
             file \<leftarrow> (if defragment hdr \<noteq> 0 then sif_defragment file else Some file);
             Some (file, 0) }
      else Some (file, 0))"

definition sif_close :: "sif_file \<Rightarrow> (FILE \<times> int) option" where
  \<comment> \<open>The handle is released: what is left is the file, and the status returned.\<close>
  "sif_close file =
     do { (file, rc) \<leftarrow> sif_flush file;
          t \<leftarrow> rd (tiles file) 0;
          hdr \<leftarrow> header file;
          let status = 0;
          if error file \<noteq> 0 then Some (fp file, - 1) else Some (fp file, status) }"

definition sif_alloc_fp :: sif_file where
  \<comment> \<open>A handle filled with zeros; the null pointers among its fields are empty arrays.\<close>
  "sif_alloc_fp =
     \<lparr>fp = \<lparr>contents = [], pos = 0\<rparr>, header = None, tiles = [], meta_data = [], read_only = 0,
      blocks_to_tiles = [], dirty_tiles = [], buffer0 = [], buffer1 = [], base_location = 0,
      error = 0, units_per_slice = 0, units_per_tile = 0, header_bytes = 0,
      ubuf = replicate 8 0, use_file_version = 0, simple_region_buffer = None,
      simple_region_bytes = 0\<rparr>"

function read_meta_data_loop :: "sif_file \<Rightarrow> byte list \<Rightarrow> int \<Rightarrow> int \<Rightarrow> sif_file option" where
  \<comment> \<open>The loop of \<^verbatim>\<open>_sif_read_meta_data\<close>. The bound \<open>n\<close> is \<^verbatim>\<open>n_keys\<close> converted to
      the unsigned type of the counter. A length read as negative is a size that
      \<^verbatim>\<open>malloc\<close> refuses.\<close>
  "read_meta_data_loop file junk i n =
     (if i < n then
        do { (file, v) \<leftarrow> sif_read_int32 file;
             case v of
               None \<Rightarrow> Some (file\<lparr>error := SIF_ERROR_READ\<rparr>)
             | Some val \<Rightarrow>
                 if val < 0 then Some (file\<lparr>error := SIF_ERROR_MEM\<rparr>)
                 else
                   do { let key_len = val;
                        let key = malloc key_len junk;
                        key \<leftarrow> (if key_len \<noteq> 0 then wr key (key_len - 1) 0 else Some key);
                        (key, fp', got) \<leftarrow> fread key 1 key_len (fp file);
                        let file = file\<lparr>fp := fp'\<rparr>;
                        if got \<noteq> key_len then Some (file\<lparr>error := SIF_ERROR_READ\<rparr>)
                        else
                          do { (file, v) \<leftarrow> sif_read_int32 file;
                               case v of
                                 None \<Rightarrow> Some (file\<lparr>error := SIF_ERROR_READ\<rparr>)
                               | Some val \<Rightarrow>
                                   if val < 0 then Some (file\<lparr>error := SIF_ERROR_MEM\<rparr>)
                                   else
                                     do { let value_len = val;
                                          let value = malloc value_len junk;
                                          (value, fp', got) \<leftarrow> fread value 1 value_len (fp file);
                                          let file = file\<lparr>fp := fp'\<rparr>;
                                          if got = 0 then Some (file\<lparr>error := SIF_ERROR_READ\<rparr>)
                                          else
                                            do { file \<leftarrow> sif_set_meta_data_binary file key value
                                                          value_len;
                                                 if error file \<noteq> 0 then Some file
                                                 else read_meta_data_loop file junk (i + 1) n } } } } }
      else Some file)"
  by pat_completeness auto
termination
  by (relation "measure (\<lambda>(file, junk, i, n). nat (n - i))") auto

definition sif_read_meta_data :: "sif_file \<Rightarrow> byte list \<Rightarrow> sif_file option" where
  \<comment> \<open>The second argument is the indeterminate contents of the memory allocated.\<close>
  "sif_read_meta_data file junk =
     do { hdr \<leftarrow> header file;
          let n_keys' = n_keys hdr;
          let file = file\<lparr>header := Some (hdr\<lparr>n_keys := 0\<rparr>)\<rparr>;
          last \<leftarrow> sif_get_last_used_block_index file;
          loc \<leftarrow> sif_get_block_location file (last + 1);
          FSEEK64 RETURN_V file loc (\<lambda>file.
          read_meta_data_loop file junk 0 (if n_keys' < 0 then n_keys' + 2 ^ 32 else n_keys')) }"

function open_blocks_to_tiles_loop :: "sif_file \<Rightarrow> sif_header \<Rightarrow> int \<Rightarrow> sif_file option" where
  \<comment> \<open>The loop of \<^verbatim>\<open>sif_open\<close> that rebuilds the map from blocks to tiles.\<close>
  "open_blocks_to_tiles_loop file hdr i =
     (if i < n_tiles hdr then
        do { tile \<leftarrow> rd (tiles file) i;
             if block_num tile \<noteq> - 1 then
               do { b2t \<leftarrow> wr (blocks_to_tiles file) (block_num tile) i;
                    open_blocks_to_tiles_loop (file\<lparr>blocks_to_tiles := b2t\<rparr>) hdr (i + 1) }
             else open_blocks_to_tiles_loop file hdr (i + 1) }
      else Some file)"
  by pat_completeness auto
termination
  by (relation "measure (\<lambda>(file, hdr, i). nat (n_tiles hdr - i))") auto

definition sif_open :: "byte list \<Rightarrow> int \<Rightarrow> byte list \<Rightarrow> sif_file option option" where
  \<comment> \<open>The file named exists and has the contents given; the third argument is the
      indeterminate contents of the memory allocated. The result is \<^term>\<open>Some None\<close> where
      the function returns null. Where the meta-data cannot be read the function returns
      the handle it has released: \<^term>\<open>None\<close>.\<close>
  "sif_open disk read_only' junk =
     (let retval = sif_alloc_fp\<lparr>fp := \<lparr>contents = disk, pos = 0\<rparr>, error := 0,
                     header := Some sif_alloc_header, tiles := [],
                     meta_data := sif_alloc_meta_data_table, read_only := read_only'\<rparr> in
      do { (retval, rc) \<leftarrow> sif_read_header retval;
           header' \<leftarrow> header retval;
           if rc \<noteq> 1 then Some None
           else if version header' > SIF_VERSION then Some None
           else if magic_number header' \<noteq> SIF_MAGIC_NUMBER then Some None
           else
             do { (retval, t) \<leftarrow> sif_alloc_tile_headers retval;
                  case t of
                    None \<Rightarrow> Some None
                  | Some tiles' \<Rightarrow>
                      do { header' \<leftarrow> header retval;
                           let retval = retval\<lparr>tiles := tiles'\<rparr>;
                           let retval = retval\<lparr>base_location :=
                                 header_bytes retval + (tile_header_bytes header' * n_tiles header')\<rparr>;
                           let retval = retval\<lparr>units_per_tile :=
                                 tile_width header' * tile_height header' * bands header'\<rparr>;
                           let retval = retval\<lparr>units_per_slice :=
                                 tile_width header' * tile_height header'\<rparr>;
                           (retval, rc) \<leftarrow> sif_read_tile_headers retval;
                           if rc \<noteq> 1 then Some None
                           else if tile_bytes header' < 0 then Some None
                           else
                             do { let retval = retval
                                        \<lparr>blocks_to_tiles := replicate (nat (n_tiles header')) (- 1),
                                         dirty_tiles := replicate (nat (n_tiles header')) 0,
                                         buffer0 := malloc (tile_bytes header') junk,
                                         buffer1 := malloc (tile_bytes header') junk\<rparr>;
                                  retval \<leftarrow> open_blocks_to_tiles_loop retval header' 0;
                                  retval \<leftarrow> sif_read_meta_data retval junk;
                                  if error retval \<noteq> 0 then None
                                  else Some (Some retval) } } } })"

definition sif_create ::
  "int \<Rightarrow> int \<Rightarrow> int \<Rightarrow> int \<Rightarrow> int \<Rightarrow> int \<Rightarrow> int \<Rightarrow> int \<Rightarrow> int \<Rightarrow> int \<Rightarrow> byte list
     \<Rightarrow> sif_file option option" where
  \<comment> \<open>The file name is not null and the file can be created, empty. The last argument
      is the indeterminate contents of the memory allocated. The result is
      \<^term>\<open>Some None\<close> where the function returns null.\<close>
  "sif_create width' height' bands' data_unit_size' user_data_type' consolidate_on_close
       defragment_on_close tile_width' tile_height' intrinsic_write' junk =
     (let tb = tile_width' * tile_height' * bands' * data_unit_size' in
      if bands' < 1 \<or> width' < 1 \<or> height' < 1 \<or> tile_width' < 1 \<or> tile_height' < 1
         \<or> data_unit_size' < 1
      then Some None
      else
        let retval = sif_alloc_fp\<lparr>buffer0 := malloc tb junk, buffer1 := malloc tb junk\<rparr>;
            hdr = sif_alloc_header;
            retval = retval\<lparr>fp := \<lparr>contents = [], pos = 0\<rparr>, read_only := 0,
                       simple_region_buffer := None, simple_region_bytes := 0\<rparr>;
            hdr = hdr\<lparr>consolidate := consolidate_on_close\<rparr>;
            hdr = hdr\<lparr>intrinsic_write := intrinsic_write'\<rparr>;
            hdr = hdr\<lparr>defragment := defragment_on_close\<rparr>;
            hdr = hdr\<lparr>intrinsic_write := 1\<rparr>;
            hdr = hdr\<lparr>width := width', height := height', bands := bands',
                     tile_width := tile_width', tile_height := tile_height',
                     version := SIF_VERSION\<rparr>;
            retval = retval\<lparr>units_per_tile := tile_width' * tile_height' * bands',
                       units_per_slice := tile_width' * tile_height'\<rparr>;
            hdr = hdr\<lparr>tile_bytes := tile_width' * tile_height' * bands' * data_unit_size'\<rparr>;
            hdr = hdr\<lparr>data_unit_size := data_unit_size'\<rparr>;
            hdr = hdr\<lparr>user_data_type := user_data_type'\<rparr>;
            hdr = hdr\<lparr>n_tiles_across := CEIL_DIV (width hdr) (tile_width hdr)\<rparr>;
            hdr = hdr\<lparr>n_tiles := n_tiles_across hdr * CEIL_DIV (height hdr) (tile_height hdr)\<rparr>;
            hdr = hdr\<lparr>n_keys := 0\<rparr>;
            retval = retval\<lparr>header := Some hdr, meta_data := sif_alloc_meta_data_table\<rparr>
        in
        do { (retval, t) \<leftarrow> sif_alloc_tile_headers retval;
             case t of
               None \<Rightarrow> Some None
             | Some tiles' \<Rightarrow>
                 do { hdr \<leftarrow> header retval;
                      let retval = retval
                            \<lparr>tiles := tiles',
                             blocks_to_tiles := replicate (nat (n_tiles hdr)) (- 1),
                             dirty_tiles := replicate (nat (n_tiles hdr)) 0\<rparr>;
                      let hdr = hdr\<lparr>magic_number := SIF_MAGIC_NUMBER\<rparr>;
                      (retval, rc) \<leftarrow> sif_write_header (retval\<lparr>header := Some hdr\<rparr>);
                      hdr \<leftarrow> header retval;
                      let retval = retval\<lparr>base_location :=
                            header_bytes retval + (tile_header_bytes hdr * n_tiles hdr)\<rparr>;
                      if error retval \<noteq> 0 then Some None
                      else
                        do { (retval, rc) \<leftarrow> sif_write_tile_headers retval;
                             if error retval \<noteq> 0 then None
                             else Some (Some (sif_use_file_format_version retval sif_get_version)) } } })"

subsection \<open>The simple data type convention\<close>

definition SIF_SIMPLE_ENDIAN :: "int \<Rightarrow> int" where
  "SIF_SIMPLE_ENDIAN t = c_div t 10"

definition sif_simple_get_endian :: "sif_file \<Rightarrow> (sif_file \<times> int) option" where
  "sif_simple_get_endian file =
     SIF_CHECK_FILE (RETURN 0) file (\<lambda>hdr. Some (file, SIF_SIMPLE_ENDIAN (user_data_type hdr)))"

definition sif_simple_alloc_region_buffer :: "sif_file \<Rightarrow> int \<Rightarrow> byte list \<Rightarrow> (sif_file \<times> int) option" where
  \<comment> \<open>The third argument is the indeterminate contents of the memory allocated; a
      request of a negative size is refused.\<close>
  "sif_simple_alloc_region_buffer file nbytes junk =
     do { (file, e) \<leftarrow> sif_simple_get_endian file;
          if nbytes = 0 \<or> e = SIF_SIMPLE_NATIVE_ENDIAN \<or> nbytes \<le> simple_region_bytes file
          then Some (file, 1)
          else if nbytes < 0
          then Some (file\<lparr>simple_region_buffer := None, simple_region_bytes := 0\<rparr>, 0)
          else
            case simple_region_buffer file of
              Some old \<Rightarrow>
                Some (file\<lparr>simple_region_buffer :=
                             Some (take (nat nbytes) old @ drop (length old) (malloc nbytes junk)),
                           simple_region_bytes := nbytes\<rparr>, 1)
            | None \<Rightarrow>
                Some (file\<lparr>simple_region_buffer := Some (malloc nbytes junk),
                           simple_region_bytes := nbytes\<rparr>, 1) }"

definition sif_simple_set_raster ::
  "sif_file \<Rightarrow> byte list \<Rightarrow> int \<Rightarrow> int \<Rightarrow> int \<Rightarrow> int \<Rightarrow> int \<Rightarrow> byte list \<Rightarrow> sif_file option" where
  "sif_simple_set_raster file data x y w h band junk =
     SIF_CHECK_FILE RETURN_V file (\<lambda>hdr.
       if error file \<noteq> 0 then Some file
       else
         let region_bytes = data_unit_size hdr * w * h in
         do { (file, file_endian) \<leftarrow> sif_simple_get_endian file;
              if file_endian \<noteq> SIF_SIMPLE_NATIVE_ENDIAN then
                do { (file, rc) \<leftarrow> sif_simple_alloc_region_buffer file region_bytes junk;
                     SIF_ERROR_CHECK_RETURN RETURN_V file (rc = 0) SIF_ERROR_MEM (\<lambda>file.
                       do { hdr \<leftarrow> header file;
                            region \<leftarrow> (case simple_region_buffer file of
                                         None \<Rightarrow> (if region_bytes = 0 then Some [] else None)
                                       | Some r \<Rightarrow> Some r);
                            region \<leftarrow> memcpy region 0 data 0 region_bytes;
                            region \<leftarrow> sif_buffer_host_to_code region region_bytes
                                        (data_unit_size hdr) file_endian;
                            let file = (case simple_region_buffer file of
                                          None \<Rightarrow> file
                                        | Some r \<Rightarrow> file\<lparr>simple_region_buffer := Some region\<rparr>);
                            sif_set_raster file region x y w h band }) }
              else sif_set_raster file data x y w h band })"

subsection \<open>A fragmented file\<close>

definition fragmented_file :: sif_file where
  \<comment> \<open>The handle of a 6 x 1 image of one band in three tiles of 2 x 1, created to be
      defragmented when it is closed: each tile is written with two different pixels, then
      the first tile is filled with one value and loses its block.\<close>
  "fragmented_file =
     the (do { r \<leftarrow> sif_create 6 1 1 1 0 0 1 2 1 0 []; f \<leftarrow> r;
               f \<leftarrow> sif_set_tile_slice f (Some [1, 2]) 0 0 0;
               f \<leftarrow> sif_set_tile_slice f (Some [3, 4]) 1 0 0;
               f \<leftarrow> sif_set_tile_slice f (Some [5, 6]) 2 0 0;
               sif_fill_tile_slice f 0 0 0 (Some [7]) })"

section \<open>Running the model\<close>

text \<open>
  The definitions are run by the simplifier. The congruence rules below keep it out of
  the rest of a function body until the statement before it has been run.
\<close>

lemmas mem_defs = rd_def wr_def memcpy_def memset_def bzero_def memcmp_def malloc_def c_div_def
  c_mod_def c_MAX_def c_MIN_def CEIL_DIV_def

lemmas io_defs = fseek_def write_at_def fwrite_def fread_def ftruncate_def

lemmas macro_defs = RETURN_V_def RETURN_def SIF_ERROR_CHECK_RETURN_def SIF_CHECK_FILE_def
  FSEEK64_def REWIND64_def FWRITE64_def FREAD64_def FWRITE64INT32_def FWRITE64DOUBLE64_def
  FREAD64INT32_def FREAD64DOUBLE64_def FWRITE64CNT_def FWRITE64INT32CNT_def
  FWRITE64DOUBLE64CNT_def FREAD64CNT_def FREAD64INT32CNT_def FREAD64DOUBLE64CNT_def

lemmas codec_defs = sif_int32_to_packed_bytes_def sif_packed_bytes_to_int32_def
  sif_swap_double64_def sif_hton_double64_def sif_ntoh_double64_def sif_write_double64_def
  sif_read_double64_def sif_write_int32_def sif_read_int32_def

lemmas const_defs = SIF_ERROR_NONE_def SIF_ERROR_MEM_def SIF_ERROR_NULL_HDR_def
  SIF_ERROR_INVALID_TN_def SIF_ERROR_READ_def SIF_ERROR_WRITE_def SIF_ERROR_SEEK_def
  SIF_ERROR_TRUNCATE_def SIF_ERROR_INVALID_FILE_MODE_def SIF_ERROR_INCOMPATIBLE_VERSION_def
  SIF_ERROR_META_DATA_KEY_def SIF_ERROR_META_DATA_VALUE_def SIF_ERROR_CANNOT_WRITE_VERSION_def
  SIF_ERROR_INVALID_BAND_def SIF_ERROR_INVALID_COORD_def SIF_ERROR_INVALID_REGION_SIZE_def
  SIF_ERROR_INVALID_BUFFER_def SIF_VERSION_def SIF_MAGIC_NUMBER_def SIF_MAGIC_NUMBER_SIZE_def
  SIF_HASH_TABLE_SIZE_def SIF_SIMPLE_LITTLE_ENDIAN_def SIF_SIMPLE_BIG_ENDIAN_def
  SIF_SIMPLE_NATIVE_ENDIAN_def

lemmas create_defs = sif_create_def sif_alloc_tile_headers_def sif_alloc_fp_def
  sif_alloc_header_def SIF_SIZE_FLAG_ARRAY_def sif_write_header_def
  sif_use_file_format_version_def sif_get_version_def sif_write_tile_headers_def

lemma bind_weak_cong: "m = m' \<Longrightarrow> Option.bind m f = Option.bind m' f"
  by simp

lemma SIF_ERROR_CHECK_RETURN_cong:
  "file = file' \<Longrightarrow> c = c' \<Longrightarrow>
   SIF_ERROR_CHECK_RETURN ret file c code k = SIF_ERROR_CHECK_RETURN ret file' c' code k"
  by simp

lemma SIF_CHECK_FILE_cong: "file = file' \<Longrightarrow> SIF_CHECK_FILE ret file k = SIF_CHECK_FILE ret file' k"
  by simp

lemma FSEEK64_cong:
  "file = file' \<Longrightarrow> loc = loc' \<Longrightarrow> FSEEK64 ret file loc k = FSEEK64 ret file' loc' k"
  by simp

lemma REWIND64_cong: "file = file' \<Longrightarrow> REWIND64 ret file k = REWIND64 ret file' k"
  by simp

lemma FWRITE64_cong:
  "file = file' \<Longrightarrow> buf = buf' \<Longrightarrow> els = els' \<Longrightarrow> nel = nel' \<Longrightarrow>
   FWRITE64 ret file buf els nel k = FWRITE64 ret file' buf' els' nel' k"
  by simp

lemma FREAD64_cong:
  "file = file' \<Longrightarrow> buf = buf' \<Longrightarrow> els = els' \<Longrightarrow> nel = nel' \<Longrightarrow>
   FREAD64 ret file buf els nel k = FREAD64 ret file' buf' els' nel' k"
  by simp

lemma FWRITE64INT32_cong:
  "file = file' \<Longrightarrow> vv = vv' \<Longrightarrow> FWRITE64INT32 ret file vv k = FWRITE64INT32 ret file' vv' k"
  by simp

lemma FWRITE64DOUBLE64_cong:
  "file = file' \<Longrightarrow> vv = vv' \<Longrightarrow> FWRITE64DOUBLE64 ret file vv k = FWRITE64DOUBLE64 ret file' vv' k"
  by simp

lemma FREAD64INT32_cong: "file = file' \<Longrightarrow> FREAD64INT32 ret file k = FREAD64INT32 ret file' k"
  by simp

lemma FREAD64DOUBLE64_cong:
  "file = file' \<Longrightarrow> FREAD64DOUBLE64 ret file k = FREAD64DOUBLE64 ret file' k"
  by simp

lemma FWRITE64CNT_cong:
  "file = file' \<Longrightarrow> buf = buf' \<Longrightarrow> s = s' \<Longrightarrow> cnt = cnt' \<Longrightarrow>
   FWRITE64CNT ret file buf s cnt k = FWRITE64CNT ret file' buf' s' cnt' k"
  by simp

lemma FWRITE64INT32CNT_cong:
  "file = file' \<Longrightarrow> vv = vv' \<Longrightarrow> cnt = cnt' \<Longrightarrow>
   FWRITE64INT32CNT ret file vv cnt k = FWRITE64INT32CNT ret file' vv' cnt' k"
  by simp

lemma FWRITE64DOUBLE64CNT_cong:
  "file = file' \<Longrightarrow> vv = vv' \<Longrightarrow> cnt = cnt' \<Longrightarrow>
   FWRITE64DOUBLE64CNT ret file vv cnt k = FWRITE64DOUBLE64CNT ret file' vv' cnt' k"
  by simp

lemma FREAD64CNT_cong:
  "file = file' \<Longrightarrow> buf = buf' \<Longrightarrow> s = s' \<Longrightarrow> cnt = cnt' \<Longrightarrow>
   FREAD64CNT ret file buf s cnt k = FREAD64CNT ret file' buf' s' cnt' k"
  by simp

lemma FREAD64INT32CNT_cong:
  "file = file' \<Longrightarrow> cnt = cnt' \<Longrightarrow> FREAD64INT32CNT ret file cnt k = FREAD64INT32CNT ret file' cnt' k"
  by simp

lemma FREAD64DOUBLE64CNT_cong:
  "file = file' \<Longrightarrow> cnt = cnt' \<Longrightarrow>
   FREAD64DOUBLE64CNT ret file cnt k = FREAD64DOUBLE64CNT ret file' cnt' k"
  by simp

lemma write_header_ints_cong:
  "file = file' \<Longrightarrow> vs = vs' \<Longrightarrow> cnt = cnt' \<Longrightarrow>
   write_header_ints file vs cnt k = write_header_ints file' vs' cnt' k"
  by simp

lemma write_header_doubles_cong:
  "v1 = v1' \<Longrightarrow> file = file' \<Longrightarrow> g = g' \<Longrightarrow> vs = vs' \<Longrightarrow> cnt = cnt' \<Longrightarrow>
   write_header_doubles v1 file g vs cnt k = write_header_doubles v1' file' g' vs' cnt' k"
  by simp

lemma read_header_ints_cong:
  "file = file' \<Longrightarrow> h = h' \<Longrightarrow> vs = vs' \<Longrightarrow> cnt = cnt' \<Longrightarrow>
   read_header_ints file h vs cnt k = read_header_ints file' h' vs' cnt' k"
  by simp

lemma read_header_doubles_cong:
  "v1 = v1' \<Longrightarrow> file = file' \<Longrightarrow> h = h' \<Longrightarrow> vs = vs' \<Longrightarrow> cnt = cnt' \<Longrightarrow>
   read_header_doubles v1 file h vs cnt k = read_header_doubles v1' file' h' vs' cnt' k"
  by simp

lemma write_meta_data_loop_cong:
  "file = file' \<Longrightarrow> ms = ms' \<Longrightarrow> e = e' \<Longrightarrow>
   write_meta_data_loop file ms e k = write_meta_data_loop file' ms' e' k"
  by simp

lemma set_tile_slice_write_loop_cong:
  "file = file' \<Longrightarrow> h = h' \<Longrightarrow> b = b' \<Longrightarrow> i = i' \<Longrightarrow>
   set_tile_slice_write_loop file h b i k = set_tile_slice_write_loop file' h' b' i' k"
  by simp

lemmas weak_congs = bind_weak_cong let_weak_cong SIF_ERROR_CHECK_RETURN_cong SIF_CHECK_FILE_cong
  FSEEK64_cong REWIND64_cong FWRITE64_cong FREAD64_cong FWRITE64INT32_cong FWRITE64DOUBLE64_cong
  FREAD64INT32_cong FREAD64DOUBLE64_cong FWRITE64CNT_cong FWRITE64INT32CNT_cong
  FWRITE64DOUBLE64CNT_cong FREAD64CNT_cong FREAD64INT32CNT_cong FREAD64DOUBLE64CNT_cong
  write_header_ints_cong write_header_doubles_cong read_header_ints_cong read_header_doubles_cong
  write_meta_data_loop_cong set_tile_slice_write_loop_cong

lemma replicate_numeral: "replicate (numeral k) x = x # replicate (pred_numeral k) x"
  by (simp add: numeral_eq_Suc)

lemma list_update_numeral: "(x # xs)[numeral k := y] = x # xs[pred_numeral k := y]"
  by (simp add: numeral_eq_Suc)

lemmas num_simps = replicate_numeral list_update_numeral

lemma table_length: "length sif_alloc_meta_data_table = 128"
  by (simp add: sif_alloc_meta_data_table_def SIF_HASH_TABLE_SIZE_def)

lemma table_nth: "k < 128 \<Longrightarrow> sif_alloc_meta_data_table ! k = []"
  by (simp add: sif_alloc_meta_data_table_def SIF_HASH_TABLE_SIZE_def)

lemma table_concat: "concat (take 128 sif_alloc_meta_data_table) = []"
  by (simp add: sif_alloc_meta_data_table_def SIF_HASH_TABLE_SIZE_def)

lemmas md_defs = sif_get_meta_data_pair_def sif_insert_meta_data_pair_def
  sif_null_terminator_check_def sif_get_meta_data_binary_def sif_get_meta_data_def
  sif_set_meta_data_len_def sif_set_meta_data_def sif_set_meta_data_binary_def sif_hash_def
  table_length table_nth

text \<open>A file of one pixel, created with all policies off.\<close>

lemma create_1x1:
  "sif_create 1 1 1 1 0 0 0 1 1 0 [] =
     Some (Some \<lparr>fp = \<lparr>contents = [0, 0, 0, 128, 33, 42, 42, 83, 73, 70, 42, 42,
     0, 0, 0, 0, 0, 0, 0, 1, 0, 0, 0, 1, 0, 0, 0, 1, 0, 0, 0, 0, 0, 0, 0, 1, 0, 0, 0, 1, 0, 0,
     0, 1, 0, 0, 0, 1, 0, 0, 0, 1, 0, 0, 0, 1, 0, 0, 0, 0, 0, 0, 0, 0, 0, 0, 0, 0, 0, 0, 0, 1,
     0, 0, 0, 6, 0, 0, 0, 1, 0, 0, 0, 0, 0, 0, 0, 0, 0, 0, 0, 0, 0, 0, 0, 0, 0, 0, 0, 0, 0, 0,
     0, 0, 0, 0, 0, 0, 0, 0, 0, 0, 0, 0, 0, 0, 0, 0, 0, 0, 0, 0, 0, 0, 0, 0, 0, 0, 0, 255, 255,
     255, 255, 255], pos = 134\<rparr>, header = Some \<lparr>magic_number = [33, 42, 42, 83,
     73, 70, 42, 42], version = 0, width = 1, height = 1, bands = 1, n_keys = 0, n_tiles = 1,
     tile_width = 1, tile_height = 1, tile_bytes = 1, n_tiles_across = 1, data_unit_size = 1,
     user_data_type = 0, defragment = 0, consolidate = 0, intrinsic_write = 1, tile_header_bytes
     = 6, n_uniform_flags = 1, affine_geo_transform = [[0, 0, 0, 0, 0, 0, 0, 0], [0, 0, 0, 0, 0,
     0, 0, 0], [0, 0, 0, 0, 0, 0, 0, 0], [0, 0, 0, 0, 0, 0, 0, 0], [0, 0, 0, 0, 0, 0, 0, 0], [0,
     0, 0, 0, 0, 0, 0, 0]]\<rparr>, tiles = [\<lparr>uniform_flags = [255], uniform_pixel_values
     = [0], block_num = - 1\<rparr>], meta_data = sif_alloc_meta_data_table, read_only = 0,
     blocks_to_tiles = [- 1], dirty_tiles = [0], buffer0 = [0], buffer1 = [0], base_location =
     134, error = 0, units_per_slice = 1, units_per_tile = 1, header_bytes = 128, ubuf = [255,
     255, 255, 255, 0, 0, 0, 0], use_file_version = 2, simple_region_buffer = None,
     simple_region_bytes = 0\<rparr>)"
  by (simp add: create_defs Let_def mem_defs const_defs macro_defs io_defs codec_defs num_simps
      cong: weak_congs)

lemmas ev_defs = Let_def mem_defs const_defs macro_defs io_defs codec_defs num_simps

lemmas chain_defs = Option.bind.simps prod.case FILE.select_convs

lemmas slice_defs = sif_is_uniform_def sif_get_tile_slice_def store_uniform_value_def
  sif_fill_tile_slice_def sif_fill_tiles_def sif_set_tile_slice_def set_tile_slice_tail_def
  sif_completely_uniform_shallow_def sif_band_of_tile_is_uniform_shallow_def
  sif_get_block_location_def sif_write_tile_header_def SIF_GET_BIT_def SIF_SET_BIT_def
  SIF_CLEAR_BIT_def

lemmas raster_defs = sif_set_raster_def sif_get_raster_def

lemmas close_defs = sif_flush_def sif_close_def sif_write_header_def sif_write_tile_headers_def
  sif_write_meta_data_def sif_get_last_used_block_index_def sif_truncate_def sif_consolidate_def
  sif_mark_uniform_tiles_def sif_defragment_def sif_swap_blocks_def sif_uniform_check_def
  sif_get_tile_def table_concat

lemmas open_defs = sif_open_def sif_read_header_def sif_alloc_tile_headers_def sif_alloc_fp_def
  sif_alloc_header_def SIF_SIZE_FLAG_ARRAY_def sif_read_tile_headers_def sif_read_meta_data_def
  sif_get_last_used_block_index_def sif_get_block_location_def table_length table_nth

text \<open>
  A 2 x 2 image of one band in a single 2 x 2 tile, written with the raster {1, 2, 3, 4},
  closed and opened again: the state after each call.
\<close>

lemma create_2x2:
  "sif_create 2 2 1 1 0 1 1 2 2 0 [] =
     Some (Some \<lparr>fp = \<lparr>contents = [0, 0, 0, 128, 33, 42, 42, 83, 73, 70, 42, 42,
     0, 0, 0, 0, 0, 0, 0, 2, 0, 0, 0, 2, 0, 0, 0, 1, 0, 0, 0, 0, 0, 0, 0, 1, 0, 0, 0, 2, 0, 0,
     0, 2, 0, 0, 0, 4, 0, 0, 0, 1, 0, 0, 0, 1, 0, 0, 0, 0, 0, 0, 0, 1, 0, 0, 0, 1, 0, 0, 0, 1,
     0, 0, 0, 6, 0, 0, 0, 1, 0, 0, 0, 0, 0, 0, 0, 0, 0, 0, 0, 0, 0, 0, 0, 0, 0, 0, 0, 0, 0, 0,
     0, 0, 0, 0, 0, 0, 0, 0, 0, 0, 0, 0, 0, 0, 0, 0, 0, 0, 0, 0, 0, 0, 0, 0, 0, 0, 0, 255, 255,
     255, 255, 255], pos = 134\<rparr>, header = Some \<lparr>magic_number = [33, 42, 42, 83,
     73, 70, 42, 42], version = 0, width = 2, height = 2, bands = 1, n_keys = 0, n_tiles = 1,
     tile_width = 2, tile_height = 2, tile_bytes = 4, n_tiles_across = 1, data_unit_size = 1,
     user_data_type = 0, defragment = 1, consolidate = 1, intrinsic_write = 1, tile_header_bytes
     = 6, n_uniform_flags = 1, affine_geo_transform = [[0, 0, 0, 0, 0, 0, 0, 0], [0, 0, 0, 0, 0,
     0, 0, 0], [0, 0, 0, 0, 0, 0, 0, 0], [0, 0, 0, 0, 0, 0, 0, 0], [0, 0, 0, 0, 0, 0, 0, 0], [0,
     0, 0, 0, 0, 0, 0, 0]]\<rparr>, tiles = [\<lparr>uniform_flags = [255], uniform_pixel_values
     = [0], block_num = - 1\<rparr>], meta_data = sif_alloc_meta_data_table, read_only = 0,
     blocks_to_tiles = [- 1], dirty_tiles = [0], buffer0 = [0, 0, 0, 0], buffer1 = [0, 0, 0, 0],
     base_location = 134, error = 0, units_per_slice = 4, units_per_tile = 4, header_bytes =
     128, ubuf = [255, 255, 255, 255, 0, 0, 0, 0], use_file_version = 2, simple_region_buffer =
     None, simple_region_bytes = 0\<rparr>)"
  by (simp add: create_defs ev_defs cong: weak_congs)

lemma written_2x2:
  "do { r \<leftarrow> sif_create 2 2 1 1 0 1 1 2 2 0 []; f \<leftarrow> r;
        sif_set_raster f [1, 2, 3, 4] 0 0 2 2 0 } =
     Some \<lparr>fp = \<lparr>contents = [0, 0, 0, 128, 33, 42, 42, 83, 73, 70, 42, 42, 0, 0,
     0, 0, 0, 0, 0, 2, 0, 0, 0, 2, 0, 0, 0, 1, 0, 0, 0, 0, 0, 0, 0, 1, 0, 0, 0, 2, 0, 0, 0, 2,
     0, 0, 0, 4, 0, 0, 0, 1, 0, 0, 0, 1, 0, 0, 0, 0, 0, 0, 0, 1, 0, 0, 0, 1, 0, 0, 0, 1, 0, 0,
     0, 6, 0, 0, 0, 1, 0, 0, 0, 0, 0, 0, 0, 0, 0, 0, 0, 0, 0, 0, 0, 0, 0, 0, 0, 0, 0, 0, 0, 0,
     0, 0, 0, 0, 0, 0, 0, 0, 0, 0, 0, 0, 0, 0, 0, 0, 0, 0, 0, 0, 0, 0, 0, 0, 0, 127, 0, 0, 0, 0,
     1, 3, 4, 0], pos = 134\<rparr>, header = Some \<lparr>magic_number = [33, 42, 42, 83, 73,
     70, 42, 42], version = 0, width = 2, height = 2, bands = 1, n_keys = 0, n_tiles = 1,
     tile_width = 2, tile_height = 2, tile_bytes = 4, n_tiles_across = 1, data_unit_size = 1,
     user_data_type = 0, defragment = 1, consolidate = 1, intrinsic_write = 1, tile_header_bytes
     = 6, n_uniform_flags = 1, affine_geo_transform = [[0, 0, 0, 0, 0, 0, 0, 0], [0, 0, 0, 0, 0,
     0, 0, 0], [0, 0, 0, 0, 0, 0, 0, 0], [0, 0, 0, 0, 0, 0, 0, 0], [0, 0, 0, 0, 0, 0, 0, 0], [0,
     0, 0, 0, 0, 0, 0, 0]]\<rparr>, tiles = [\<lparr>uniform_flags = [127], uniform_pixel_values
     = [0], block_num = 0\<rparr>], meta_data = sif_alloc_meta_data_table, read_only = 0,
     blocks_to_tiles = [0], dirty_tiles = [0], buffer0 = [1, 3, 4, 0], buffer1 = [0, 0, 0, 0],
     base_location = 134, error = 0, units_per_slice = 4, units_per_tile = 4, header_bytes =
     128, ubuf = [0, 0, 0, 0, 0, 0, 0, 0], use_file_version = 2, simple_region_buffer = None,
     simple_region_bytes = 0\<rparr>"
  by (simp add: create_2x2 raster_defs slice_defs ev_defs cong: weak_congs)

lemmas written_2x2_step = written_2x2 [unfolded create_2x2 chain_defs]

lemma closed_2x2:
  "do { r \<leftarrow> sif_create 2 2 1 1 0 1 1 2 2 0 []; f \<leftarrow> r;
        f \<leftarrow> sif_set_raster f [1, 2, 3, 4] 0 0 2 2 0;
        sif_close f } =
     Some (\<lparr>contents = [0, 0, 0, 128, 33, 42, 42, 83, 73, 70, 42, 42, 0, 0, 0, 2, 0, 0,
     0, 2, 0, 0, 0, 2, 0, 0, 0, 1, 0, 0, 0, 0, 0, 0, 0, 1, 0, 0, 0, 2, 0, 0, 0, 2, 0, 0, 0, 4,
     0, 0, 0, 1, 0, 0, 0, 1, 0, 0, 0, 0, 0, 0, 0, 1, 0, 0, 0, 1, 0, 0, 0, 1, 0, 0, 0, 6, 0, 0,
     0, 1, 0, 0, 0, 0, 0, 0, 0, 0, 0, 0, 0, 0, 0, 0, 0, 0, 0, 0, 0, 0, 0, 0, 0, 0, 0, 0, 0, 0,
     0, 0, 0, 0, 0, 0, 0, 0, 0, 0, 0, 0, 0, 0, 0, 0, 0, 0, 0, 0, 0, 127, 0, 0, 0, 0, 1, 3, 4, 0,
     0], pos = 138\<rparr>, 0)"
  by (simp add: create_2x2 written_2x2_step close_defs slice_defs ev_defs cong: weak_congs)

lemmas closed_2x2_step = closed_2x2 [unfolded create_2x2 chain_defs written_2x2_step]

lemma reopened_2x2:
  "do { r \<leftarrow> sif_create 2 2 1 1 0 1 1 2 2 0 []; f \<leftarrow> r;
        f \<leftarrow> sif_set_raster f [1, 2, 3, 4] 0 0 2 2 0;
        (d, status) \<leftarrow> sif_close f;
        sif_open (contents d) 0 [] } =
     Some (Some \<lparr>fp = \<lparr>contents = [0, 0, 0, 128, 33, 42, 42, 83, 73, 70, 42, 42,
     0, 0, 0, 2, 0, 0, 0, 2, 0, 0, 0, 2, 0, 0, 0, 1, 0, 0, 0, 0, 0, 0, 0, 1, 0, 0, 0, 2, 0, 0,
     0, 2, 0, 0, 0, 4, 0, 0, 0, 1, 0, 0, 0, 1, 0, 0, 0, 0, 0, 0, 0, 1, 0, 0, 0, 1, 0, 0, 0, 1,
     0, 0, 0, 6, 0, 0, 0, 1, 0, 0, 0, 0, 0, 0, 0, 0, 0, 0, 0, 0, 0, 0, 0, 0, 0, 0, 0, 0, 0, 0,
     0, 0, 0, 0, 0, 0, 0, 0, 0, 0, 0, 0, 0, 0, 0, 0, 0, 0, 0, 0, 0, 0, 0, 0, 0, 0, 0, 127, 0, 0,
     0, 0, 1, 3, 4, 0, 0], pos = 138\<rparr>, header = Some \<lparr>magic_number = [33, 42, 42,
     83, 73, 70, 42, 42], version = 2, width = 2, height = 2, bands = 1, n_keys = 0, n_tiles =
     1, tile_width = 2, tile_height = 2, tile_bytes = 4, n_tiles_across = 1, data_unit_size = 1,
     user_data_type = 0, defragment = 1, consolidate = 1, intrinsic_write = 1, tile_header_bytes
     = 6, n_uniform_flags = 1, affine_geo_transform = [[0, 0, 0, 0, 0, 0, 0, 0], [0, 0, 0, 0, 0,
     0, 0, 0], [0, 0, 0, 0, 0, 0, 0, 0], [0, 0, 0, 0, 0, 0, 0, 0], [0, 0, 0, 0, 0, 0, 0, 0], [0,
     0, 0, 0, 0, 0, 0, 0]]\<rparr>, tiles = [\<lparr>uniform_flags = [127], uniform_pixel_values
     = [0], block_num = 0\<rparr>], meta_data = sif_alloc_meta_data_table, read_only = 0,
     blocks_to_tiles = [0], dirty_tiles = [0], buffer0 = [0, 0, 0, 0], buffer1 = [0, 0, 0, 0],
     base_location = 134, error = 0, units_per_slice = 4, units_per_tile = 4, header_bytes =
     128, ubuf = [0, 0, 0, 0, 0, 0, 0, 0], use_file_version = 2, simple_region_buffer = None,
     simple_region_bytes = 0\<rparr>)"
  by (simp add: create_2x2 written_2x2_step closed_2x2_step open_defs ev_defs cong: weak_congs)

lemmas reopened_2x2_step =
  reopened_2x2 [unfolded create_2x2 chain_defs written_2x2_step closed_2x2_step chain_defs]


text \<open>
  A 2 x 1 image of seven bands in a single tile: band 1 is written with the two different
  pixels {1, 2}, then band 0 with the uniform pixels {5, 5}.
\<close>

lemma create_7_bands:
  "sif_create 2 1 7 1 0 0 0 2 1 0 [] =
     Some (Some \<lparr>fp = \<lparr>contents = [0, 0, 0, 128, 33, 42, 42, 83, 73, 70, 42, 42,
     0, 0, 0, 0, 0, 0, 0, 2, 0, 0, 0, 1, 0, 0, 0, 7, 0, 0, 0, 0, 0, 0, 0, 1, 0, 0, 0, 2, 0, 0,
     0, 1, 0, 0, 0, 14, 0, 0, 0, 1, 0, 0, 0, 1, 0, 0, 0, 0, 0, 0, 0, 0, 0, 0, 0, 0, 0, 0, 0, 1,
     0, 0, 0, 12, 0, 0, 0, 1, 0, 0, 0, 0, 0, 0, 0, 0, 0, 0, 0, 0, 0, 0, 0, 0, 0, 0, 0, 0, 0, 0,
     0, 0, 0, 0, 0, 0, 0, 0, 0, 0, 0, 0, 0, 0, 0, 0, 0, 0, 0, 0, 0, 0, 0, 0, 0, 0, 0, 0, 0, 0,
     0, 0, 0, 255, 255, 255, 255, 255], pos = 140\<rparr>, header = Some \<lparr>magic_number =
     [33, 42, 42, 83, 73, 70, 42, 42], version = 0, width = 2, height = 1, bands = 7, n_keys =
     0, n_tiles = 1, tile_width = 2, tile_height = 1, tile_bytes = 14, n_tiles_across = 1,
     data_unit_size = 1, user_data_type = 0, defragment = 0, consolidate = 0, intrinsic_write =
     1, tile_header_bytes = 12, n_uniform_flags = 1, affine_geo_transform = [[0, 0, 0, 0, 0, 0,
     0, 0], [0, 0, 0, 0, 0, 0, 0, 0], [0, 0, 0, 0, 0, 0, 0, 0], [0, 0, 0, 0, 0, 0, 0, 0], [0, 0,
     0, 0, 0, 0, 0, 0], [0, 0, 0, 0, 0, 0, 0, 0]]\<rparr>, tiles = [\<lparr>uniform_flags =
     [255], uniform_pixel_values = [0, 0, 0, 0, 0, 0, 0], block_num = - 1\<rparr>], meta_data =
     sif_alloc_meta_data_table, read_only = 0, blocks_to_tiles = [- 1], dirty_tiles = [0],
     buffer0 = [0, 0, 0, 0, 0, 0, 0, 0, 0, 0, 0, 0, 0, 0], buffer1 = [0, 0, 0, 0, 0, 0, 0, 0, 0,
     0, 0, 0, 0, 0], base_location = 140, error = 0, units_per_slice = 2, units_per_tile = 14,
     header_bytes = 128, ubuf = [255, 255, 255, 255, 0, 0, 0, 0], use_file_version = 2,
     simple_region_buffer = None, simple_region_bytes = 0\<rparr>)"
  by (simp add: create_defs ev_defs cong: weak_congs)

lemma band_1_written:
  "do { r \<leftarrow> sif_create 2 1 7 1 0 0 0 2 1 0 []; f \<leftarrow> r;
        sif_set_tile_slice f (Some [1, 2]) 0 0 1 } =
     Some \<lparr>fp = \<lparr>contents = [0, 0, 0, 128, 33, 42, 42, 83, 73, 70, 42, 42, 0, 0,
     0, 0, 0, 0, 0, 2, 0, 0, 0, 1, 0, 0, 0, 7, 0, 0, 0, 0, 0, 0, 0, 1, 0, 0, 0, 2, 0, 0, 0, 1,
     0, 0, 0, 14, 0, 0, 0, 1, 0, 0, 0, 1, 0, 0, 0, 0, 0, 0, 0, 0, 0, 0, 0, 0, 0, 0, 0, 1, 0, 0,
     0, 12, 0, 0, 0, 1, 0, 0, 0, 0, 0, 0, 0, 0, 0, 0, 0, 0, 0, 0, 0, 0, 0, 0, 0, 0, 0, 0, 0, 0,
     0, 0, 0, 0, 0, 0, 0, 0, 0, 0, 0, 0, 0, 0, 0, 0, 0, 0, 0, 0, 0, 0, 0, 0, 0, 0, 0, 0, 0, 0,
     0, 191, 0, 0, 0, 0, 1, 2, 1, 2, 1, 2, 1, 2, 1, 2, 1, 2, 1, 2], pos = 140\<rparr>, header =
     Some \<lparr>magic_number = [33, 42, 42, 83, 73, 70, 42, 42], version = 0, width = 2,
     height = 1, bands = 7, n_keys = 0, n_tiles = 1, tile_width = 2, tile_height = 1, tile_bytes
     = 14, n_tiles_across = 1, data_unit_size = 1, user_data_type = 0, defragment = 0,
     consolidate = 0, intrinsic_write = 1, tile_header_bytes = 12, n_uniform_flags = 1,
     affine_geo_transform = [[0, 0, 0, 0, 0, 0, 0, 0], [0, 0, 0, 0, 0, 0, 0, 0], [0, 0, 0, 0, 0,
     0, 0, 0], [0, 0, 0, 0, 0, 0, 0, 0], [0, 0, 0, 0, 0, 0, 0, 0], [0, 0, 0, 0, 0, 0, 0,
     0]]\<rparr>, tiles = [\<lparr>uniform_flags = [191], uniform_pixel_values = [0, 0, 0, 0, 0,
     0, 0], block_num = 0\<rparr>], meta_data = sif_alloc_meta_data_table, read_only = 0,
     blocks_to_tiles = [0], dirty_tiles = [0], buffer0 = [0, 0, 0, 0, 0, 0, 0, 0, 0, 0, 0, 0, 0,
     0], buffer1 = [0, 0, 0, 0, 0, 0, 0, 0, 0, 0, 0, 0, 0, 0], base_location = 140, error = 0,
     units_per_slice = 2, units_per_tile = 14, header_bytes = 128, ubuf = [0, 0, 0, 0, 0, 0, 0,
     0], use_file_version = 2, simple_region_buffer = None, simple_region_bytes = 0\<rparr>"
  by (simp add: create_7_bands slice_defs ev_defs cong: weak_congs)

lemmas band_1_written_step = band_1_written [unfolded create_7_bands chain_defs]

lemma band_0_written:
  "do { r \<leftarrow> sif_create 2 1 7 1 0 0 0 2 1 0 []; f \<leftarrow> r;
        f \<leftarrow> sif_set_tile_slice f (Some [1, 2]) 0 0 1;
        sif_set_tile_slice f (Some [5, 5]) 0 0 0 } =
     Some \<lparr>fp = \<lparr>contents = [0, 0, 0, 128, 33, 42, 42, 83, 73, 70, 42, 42, 0, 0,
     0, 0, 0, 0, 0, 2, 0, 0, 0, 1, 0, 0, 0, 7, 0, 0, 0, 0, 0, 0, 0, 1, 0, 0, 0, 2, 0, 0, 0, 1,
     0, 0, 0, 14, 0, 0, 0, 1, 0, 0, 0, 1, 0, 0, 0, 0, 0, 0, 0, 0, 0, 0, 0, 0, 0, 0, 0, 1, 0, 0,
     0, 12, 0, 0, 0, 1, 0, 0, 0, 0, 0, 0, 0, 0, 0, 0, 0, 0, 0, 0, 0, 0, 0, 0, 0, 0, 0, 0, 0, 0,
     0, 0, 0, 0, 0, 0, 0, 0, 0, 0, 0, 0, 0, 0, 0, 0, 0, 0, 0, 0, 0, 0, 0, 0, 5, 0, 0, 0, 0, 0,
     0, 255, 255, 255, 255, 255, 1, 2, 1, 2, 1, 2, 1, 2, 1, 2, 1, 2, 1, 2], pos = 140\<rparr>,
     header = Some \<lparr>magic_number = [33, 42, 42, 83, 73, 70, 42, 42], version = 0, width =
     2, height = 1, bands = 7, n_keys = 0, n_tiles = 1, tile_width = 2, tile_height = 1,
     tile_bytes = 14, n_tiles_across = 1, data_unit_size = 1, user_data_type = 0, defragment =
     0, consolidate = 0, intrinsic_write = 1, tile_header_bytes = 12, n_uniform_flags = 1,
     affine_geo_transform = [[0, 0, 0, 0, 0, 0, 0, 0], [0, 0, 0, 0, 0, 0, 0, 0], [0, 0, 0, 0, 0,
     0, 0, 0], [0, 0, 0, 0, 0, 0, 0, 0], [0, 0, 0, 0, 0, 0, 0, 0], [0, 0, 0, 0, 0, 0, 0,
     0]]\<rparr>, tiles = [\<lparr>uniform_flags = [255], uniform_pixel_values = [5, 0, 0, 0, 0,
     0, 0], block_num = - 1\<rparr>], meta_data = sif_alloc_meta_data_table, read_only = 0,
     blocks_to_tiles = [- 1], dirty_tiles = [0], buffer0 = [0, 0, 0, 0, 0, 0, 0, 0, 0, 0, 0, 0,
     0, 0], buffer1 = [0, 0, 0, 0, 0, 0, 0, 0, 0, 0, 0, 0, 0, 0], base_location = 140, error =
     0, units_per_slice = 2, units_per_tile = 14, header_bytes = 128, ubuf = [255, 255, 255,
     255, 0, 0, 0, 0], use_file_version = 2, simple_region_buffer = None, simple_region_bytes =
     0\<rparr>"
  by (simp add: create_7_bands band_1_written_step slice_defs ev_defs cong: weak_congs)

lemmas band_0_written_step =
  band_0_written [unfolded create_7_bands chain_defs band_1_written_step]


section \<open>What the stream macros leave alone\<close>

text \<open>
  A macro invocation that returns a result either has returned from the function with an
  error code, or has run the rest of the body on a handle whose stream alone has changed.
\<close>

lemma FSEEK64_SomeE:
  assumes "FSEEK64 ret file loc k = Some r"
  obtains (seek_failed) "loc < 0" and "r = ret (file\<lparr>error := SIF_ERROR_SEEK\<rparr>)"
        | (seek_ok) p where "k (file\<lparr>fp := p\<rparr>) = Some r" and "0 \<le> loc"
  using assms
  by (auto simp: FSEEK64_def fseek_def SIF_ERROR_CHECK_RETURN_def split: if_splits)


lemma FWRITE64_SomeE:
  assumes "FWRITE64 ret file buf els nel k = Some r"
  obtains (write_failed) p where "r = ret (file\<lparr>fp := p, error := SIF_ERROR_WRITE\<rparr>)"
        | (write_ok) p where "k (file\<lparr>fp := p\<rparr>) = Some r" and "0 \<le> els" and "0 \<le> nel"
            and "nel = 0 \<or> 0 < els"
proof -
  from assms obtain p n where w: "fwrite buf els nel (fp file) = Some (p, n)"
    by (auto simp: FWRITE64_def split: option.splits)
  show thesis
  proof (cases "n = nel")
    case True
    with assms w have "k (file\<lparr>fp := p\<rparr>) = Some r"
      by (simp add: FWRITE64_def SIF_ERROR_CHECK_RETURN_def)
    moreover from w True have "0 \<le> els" "0 \<le> nel" "nel = 0 \<or> 0 < els"
      by (auto simp: fwrite_def split: if_splits)
    ultimately show thesis by (rule write_ok)
  next
    case False
    with assms w have "r = ret (file\<lparr>fp := p, error := SIF_ERROR_WRITE\<rparr>)"
      by (simp add: FWRITE64_def SIF_ERROR_CHECK_RETURN_def)
    then show thesis by (rule write_failed)
  qed
qed

lemma sif_int32_to_packed_bytes_length:
  "sif_int32_to_packed_bytes v ptr = Some r \<Longrightarrow> length r = length ptr"
  by (auto simp: sif_int32_to_packed_bytes_def wr_def split: if_splits Option.bind_splits)

lemma sif_write_int32_Some:
  "sif_write_int32 file v = Some (file', rc) \<Longrightarrow>
     rc = 1 \<and> (\<exists>p u. file' = file\<lparr>ubuf := u, fp := p\<rparr> \<and> length u = length (ubuf file))"
  by (auto simp: sif_write_int32_def fwrite_def Let_def split: if_splits Option.bind_splits
      dest: sif_int32_to_packed_bytes_length)

lemma FWRITE64INT32_SomeE:
  assumes "FWRITE64INT32 ret file v k = Some r"
  obtains p u where "k (file\<lparr>ubuf := u, fp := p\<rparr>) = Some r" and "length u = length (ubuf file)"
  using assms
  by (auto simp: FWRITE64INT32_def SIF_ERROR_CHECK_RETURN_def split: option.splits if_splits
      dest!: sif_write_int32_Some)






lemma sif_memory_simps [simp]:
  "sif_memory (file\<lparr>fp := p\<rparr>) = sif_memory file"
  "sif_memory (file\<lparr>error := e\<rparr>) = sif_memory file"
  "sif_memory (file\<lparr>ubuf := u\<rparr>) = sif_memory file"
  by (simp_all add: sif_memory_def)

lemma sif_memory_eqE:
  assumes "sif_memory a = sif_memory b"
  obtains p e u where "a = b\<lparr>fp := p, error := e, ubuf := u\<rparr>"
proof -
  from assms have "a = b\<lparr>fp := fp a, error := error a, ubuf := ubuf a\<rparr>"
    by (cases a; cases b) (simp add: sif_memory_def)
  then show thesis by (rule that)
qed





lemma sif_write_tile_header_memory:
  "sif_write_tile_header file tile n = Some (file', rc) \<Longrightarrow> sif_memory file' = sif_memory file"
  by (auto simp: sif_write_tile_header_def RETURN_def Let_def split: Option.bind_splits if_splits
      elim!: FSEEK64_SomeE FWRITE64_SomeE FWRITE64INT32_SomeE)

lemma sif_completely_uniform_shallow_Some:
  assumes "sif_completely_uniform_shallow file i = Some (file', cu)"
  obtains ts where "file' = file\<lparr>tiles := ts\<rparr>"
  using assms by (auto simp: sif_completely_uniform_shallow_def split: Option.bind_splits)

lemma store_uniform_value_Some:
  assumes "store_uniform_value file hdr tile_num band v = Some file'"
  obtains ts b2t where "file' = file\<lparr>tiles := ts, blocks_to_tiles := b2t\<rparr>"
proof -
  from assms have "file' = file\<lparr>tiles := tiles file', blocks_to_tiles := blocks_to_tiles file'\<rparr>"
    by (auto simp: store_uniform_value_def split: Option.bind_splits if_splits
        elim!: sif_completely_uniform_shallow_Some)
  then show thesis by (rule that)
qed




section \<open>Filling a band twice\<close>

lemma memcpy_idem: "memcpy dst d src s n = Some r \<Longrightarrow> memcpy r d src s n = Some r"
  by (auto simp: memcpy_def split: if_splits)

lemma memcpy_length: "memcpy dst d src s n = Some r \<Longrightarrow> length r = length dst"
  by (auto simp: memcpy_def split: if_splits)

lemma wr_length: "wr xs i v = Some r \<Longrightarrow> length r = length xs"
  by (auto simp: wr_def split: if_splits)

lemma SIF_SET_BIT_idem: "SIF_SET_BIT uca i = Some r \<Longrightarrow> SIF_SET_BIT r i = Some r"
  by (auto simp: SIF_SET_BIT_def rd_def wr_def split: if_splits Option.bind_splits)

lemma sif_completely_uniform_shallow_idem:
  assumes "sif_completely_uniform_shallow f n = Some (f1, cu)"
    and "tiles g = tiles f1" and "header g = header f"
  shows "sif_completely_uniform_shallow g n = Some (g, cu)"
  using assms
  by (auto simp: sif_completely_uniform_shallow_def rd_def wr_def
      simp del: completely_uniform_loop.simps
      split: if_splits Option.bind_splits)


lemma map_update_same: "(map h xs)[i := h (xs ! i)] = map h xs"
  by (metis list_update_id map_update)

lemma sif_completely_uniform_shallow_header:
  "sif_completely_uniform_shallow f n = Some (f1, cu) \<Longrightarrow>
     header f1 = header f \<and> blocks_to_tiles f1 = blocks_to_tiles f
     \<and> length (tiles f1) = length (tiles f)
     \<and> map block_num (tiles f1) = map block_num (tiles f)"
  by (auto simp: sif_completely_uniform_shallow_def rd_def wr_def map_update map_update_same
      simp del: completely_uniform_loop.simps
      split: if_splits Option.bind_splits)

lemma rd_wr_same: "wr xs i v = Some ys \<Longrightarrow> rd ys i = Some v"
  by (auto simp: rd_def wr_def split: if_splits)

lemma wr_rd_same: "rd xs i = Some v \<Longrightarrow> wr xs i v = Some xs"
  by (auto simp: rd_def wr_def split: if_splits)

lemma uniform_flags_update_id: "uniform_flags t = X \<Longrightarrow> t\<lparr>uniform_flags := X\<rparr> = t"
  by auto

lemma sif_completely_uniform_shallow_flags:
  assumes "sif_completely_uniform_shallow F n = Some (F2, cu)"
    and "rd (tiles F2) n = Some T2" and "rd (tiles G) n = Some TG"
    and "uniform_flags TG = uniform_flags T2" and "header G = header F"
  shows "sif_completely_uniform_shallow G n = Some (G, cu)"
  using assms
  by (auto simp: sif_completely_uniform_shallow_def rd_def wr_def uniform_flags_update_id
      simp del: completely_uniform_loop.simps
      split: if_splits Option.bind_splits)

lemma or_update_absorb:
  fixes xs :: "byte list"
  shows "k < length xs \<Longrightarrow> xs ! k OR (xs[j := m OR xs ! j]) ! k = (xs[j := m OR xs ! j]) ! k"
  by (cases "j = k") (simp_all add: or.commute or.left_commute)

lemma sif_completely_uniform_shallow_tile:
  assumes "sif_completely_uniform_shallow F n = Some (F2, cu)" and "rd (tiles F) n = Some T"
  obtains fl2 where "rd (tiles F2) n = Some (T\<lparr>uniform_flags := fl2\<rparr>)"
    and "length fl2 = length (uniform_flags T)"
    and "\<forall>k < length fl2. uniform_flags T ! k OR fl2 ! k = fl2 ! k"
proof -
  let ?j = "nat (n_uniform_flags (the (header F)) - 1)"
  let ?m = "word_of_int (drop_bit (nat (8 - c_mod (bands (the (header F))) 8)) 0xFF) :: byte"
  from assms have "rd (tiles F2) n =
      Some (T\<lparr>uniform_flags := (uniform_flags T)[?j := ?m OR uniform_flags T ! ?j]\<rparr>)"
    by (auto simp: sif_completely_uniform_shallow_def rd_def wr_def
      simp del: completely_uniform_loop.simps
      split: if_splits Option.bind_splits)
  moreover have "\<forall>k < length (uniform_flags T). uniform_flags T ! k OR
      ((uniform_flags T)[?j := ?m OR uniform_flags T ! ?j]) ! k =
      ((uniform_flags T)[?j := ?m OR uniform_flags T ! ?j]) ! k"
    by (simp add: or_update_absorb)
  ultimately show thesis using that by simp
qed

lemma SIF_SET_BIT_absorbed:
  assumes "SIF_SET_BIT uca i = Some fl" and "length fl2 = length fl"
    and "\<forall>k < length fl2. fl ! k OR fl2 ! k = fl2 ! k"
  shows "SIF_SET_BIT fl2 i = Some fl2"
proof -
  let ?k = "nat (c_div i 8)"
  let ?bit = "push_bit (nat (7 - c_mod i 8)) 1 :: byte"
  from assms(1) have k: "0 \<le> c_div i 8" "?k < length uca" and fl: "fl = uca[?k := uca ! ?k OR ?bit]"
    by (auto simp: SIF_SET_BIT_def rd_def wr_def split: if_splits Option.bind_splits)
  with assms(2) have k2: "?k < length fl2" by simp
  with assms(3) fl k have h: "(uca ! ?k OR ?bit) OR fl2 ! ?k = fl2 ! ?k" by auto
  have "fl2 ! ?k OR ?bit = ((uca ! ?k OR ?bit) OR fl2 ! ?k) OR ?bit"
    by (simp only: h)
  also have "\<dots> = (uca ! ?k OR ?bit) OR fl2 ! ?k"
    by (simp add: or.assoc or.commute or.left_commute)
  finally have "fl2 ! ?k OR ?bit = fl2 ! ?k"
    by (simp only: h)
  with k k2 show ?thesis
    by (simp add: SIF_SET_BIT_def rd_def wr_def)
qed

lemma tile_update_id:
  "uniform_pixel_values t = U \<Longrightarrow> uniform_flags t = X \<Longrightarrow>
     t\<lparr>uniform_pixel_values := U, uniform_flags := X\<rparr> = t"
  by auto

lemma store_uniform_value_idem:
  assumes run: "store_uniform_value f hdr n band v = Some f1"
    and g: "tiles g = tiles f1" "blocks_to_tiles g = blocks_to_tiles f1" "header g = header f"
  shows "store_uniform_value g hdr n band v = Some g"
proof -
  from run obtain tile upv flags ts f2 cu tile2 where
    t: "rd (tiles f) n = Some tile"
    and u: "memcpy (uniform_pixel_values tile) (data_unit_size hdr * band) v 0 (data_unit_size hdr)
            = Some upv"
    and fl: "SIF_SET_BIT (uniform_flags tile) band = Some flags"
    and ts: "wr (tiles f) n (tile\<lparr>uniform_pixel_values := upv, uniform_flags := flags\<rparr>) = Some ts"
    and cu: "sif_completely_uniform_shallow (f\<lparr>tiles := ts\<rparr>) n = Some (f2, cu)"
    and t2: "rd (tiles f2) n = Some tile2"
    and fin: "(if cu \<and> block_num tile2 \<noteq> - 1 then
                do { b2t \<leftarrow> wr (blocks_to_tiles f2) (block_num tile2) (- 1);
                     tiles' \<leftarrow> wr (tiles f2) n (tile2\<lparr>block_num := - 1\<rparr>);
                     Some (f2\<lparr>blocks_to_tiles := b2t, tiles := tiles'\<rparr>) }
              else Some f2) = Some f1"
    by (auto simp: store_uniform_value_def split: Option.bind_splits)
  from ts have "rd (tiles (f\<lparr>tiles := ts\<rparr>)) n
      = Some (tile\<lparr>uniform_pixel_values := upv, uniform_flags := flags\<rparr>)"
    by (simp add: rd_wr_same)
  from sif_completely_uniform_shallow_tile[OF cu this] t2 obtain fl2 where
    tile2: "tile2 = tile\<lparr>uniform_pixel_values := upv, uniform_flags := fl2\<rparr>"
    and len: "length fl2 = length flags"
    and above: "\<forall>k < length fl2. flags ! k OR fl2 ! k = fl2 ! k"
    by auto
  obtain tg where tg: "rd (tiles g) n = Some tg"
    and tg_upv: "uniform_pixel_values tg = upv" and tg_fl: "uniform_flags tg = fl2"
    and tg_block: "\<not> (cu \<and> block_num tg \<noteq> - 1)"
  proof (cases "cu \<and> block_num tile2 \<noteq> - 1")
    case True
    with fin obtain b2t ts2 where "wr (tiles f2) n (tile2\<lparr>block_num := - 1\<rparr>) = Some ts2"
      and "f1 = f2\<lparr>blocks_to_tiles := b2t, tiles := ts2\<rparr>"
      by (auto split: Option.bind_splits)
    with g(1) have "rd (tiles g) n = Some (tile2\<lparr>block_num := - 1\<rparr>)"
      by (simp add: rd_wr_same)
    then show thesis using tile2 that[of "tile2\<lparr>block_num := - 1\<rparr>"] by auto
  next
    case False
    with fin g(1) t2 have "rd (tiles g) n = Some tile2" by simp
    then show thesis using tile2 False that[of tile2] by auto
  qed
  from u tg_upv have 1: "memcpy (uniform_pixel_values tg) (data_unit_size hdr * band) v 0
      (data_unit_size hdr) = Some upv"
    by (simp add: memcpy_idem)
  from SIF_SET_BIT_absorbed[OF fl len above] tg_fl
  have 2: "SIF_SET_BIT (uniform_flags tg) band = Some fl2" by simp
  from tg tg_upv tg_fl
  have 3: "wr (tiles g) n (tg\<lparr>uniform_pixel_values := upv, uniform_flags := fl2\<rparr>) = Some (tiles g)"
    by (simp add: wr_rd_same tile_update_id)
  have "header g = header (f\<lparr>tiles := ts\<rparr>)" using g(3) by simp
  from sif_completely_uniform_shallow_flags[OF cu t2 tg _ this] tg_fl tile2
  have 4: "sif_completely_uniform_shallow g n = Some (g, cu)" by simp
  show ?thesis
    using tg 1 2 3 4 tg_block by (auto simp: store_uniform_value_def)
qed

lemma FSEEK64_defined:
  assumes "FSEEK64 ret a loc k = Some r"
    and "sif_memory b = sif_memory a" and "length (ubuf b) = length (ubuf a)"
    and "\<And>a' b'. k a' = Some r \<Longrightarrow> sif_memory b' = sif_memory a' \<Longrightarrow>
           length (ubuf b') = length (ubuf a') \<Longrightarrow> k' b' \<noteq> None"
  shows "FSEEK64 ret' b loc k' \<noteq> None"
  using assms
  by (auto simp: FSEEK64_def fseek_def SIF_ERROR_CHECK_RETURN_def split: if_splits)

lemma FWRITE64_defined:
  assumes "FWRITE64 ret a buf els nel k = Some r"
    and "sif_memory b = sif_memory a" and "length (ubuf b) = length (ubuf a)"
    and "\<And>a' b'. k a' = Some r \<Longrightarrow> sif_memory b' = sif_memory a' \<Longrightarrow>
           length (ubuf b') = length (ubuf a') \<Longrightarrow> k' b' \<noteq> None"
  shows "FWRITE64 ret' b buf els nel k' \<noteq> None"
  using assms
  by (auto simp: FWRITE64_def fwrite_def SIF_ERROR_CHECK_RETURN_def split: if_splits)

lemma FWRITE64INT32_defined:
  assumes "FWRITE64INT32 ret a v k = Some r"
    and "sif_memory b = sif_memory a" and "length (ubuf b) = length (ubuf a)"
    and "\<And>a' b'. k a' = Some r \<Longrightarrow> sif_memory b' = sif_memory a' \<Longrightarrow>
           length (ubuf b') = length (ubuf a') \<Longrightarrow> k' b' \<noteq> None"
  shows "FWRITE64INT32 ret' b v k' \<noteq> None"
  using assms
  by (auto simp: FWRITE64INT32_def sif_write_int32_def sif_int32_to_packed_bytes_def fwrite_def
      wr_def Let_def SIF_ERROR_CHECK_RETURN_def split: if_splits Option.bind_splits)

lemma sif_write_tile_header_defined:
  assumes "sif_write_tile_header a t n = Some r"
    and "sif_memory b = sif_memory a" and "length (ubuf b) = length (ubuf a)"
  shows "sif_write_tile_header b t n \<noteq> None"
proof -
  from assms(2) have b: "header b = header a" "header_bytes b = header_bytes a"
    by (auto elim: sif_memory_eqE)
  from assms(1) obtain hdr where h: "header a = Some hdr" "0 \<le> n" "n < n_tiles hdr"
    and run: "FSEEK64 (RETURN 0) a (header_bytes a + n * tile_header_bytes hdr) (\<lambda>file.
            FWRITE64 (RETURN 0) file (uniform_pixel_values t) (data_unit_size hdr) (bands hdr)
              (\<lambda>file.
            FWRITE64 (RETURN 0) file (uniform_flags t) 1 (n_uniform_flags hdr) (\<lambda>file.
            FWRITE64INT32 (RETURN 0) file (block_num t) (\<lambda>file.
            Some (file, 1))))) = Some r"
    by (auto simp: sif_write_tile_header_def Let_def split: Option.bind_splits if_splits)
  have "FSEEK64 (RETURN 0) b (header_bytes a + n * tile_header_bytes hdr) (\<lambda>file.
            FWRITE64 (RETURN 0) file (uniform_pixel_values t) (data_unit_size hdr) (bands hdr)
              (\<lambda>file.
            FWRITE64 (RETURN 0) file (uniform_flags t) 1 (n_uniform_flags hdr) (\<lambda>file.
            FWRITE64INT32 (RETURN 0) file (block_num t) (\<lambda>file.
            Some (file, 1::int))))) \<noteq> None"
    apply (rule FSEEK64_defined[OF run assms(2) assms(3)])
    apply (erule FWRITE64_defined, assumption, assumption)
    apply (erule FWRITE64_defined, assumption, assumption)
    apply (erule FWRITE64INT32_defined, assumption, assumption)
    apply simp
    done
  with h b show ?thesis
    by (simp add: sif_write_tile_header_def Let_def)
qed

lemma sif_write_tile_header_ubuf:
  "sif_write_tile_header file tile n = Some (file', rc) \<Longrightarrow> length (ubuf file') = length (ubuf file)"
  by (auto simp: sif_write_tile_header_def RETURN_def Let_def split: Option.bind_splits if_splits
      elim!: FSEEK64_SomeE FWRITE64_SomeE FWRITE64INT32_SomeE)

lemma sif_completely_uniform_shallow_block_num:
  "sif_completely_uniform_shallow f n = Some (f1, cu) \<Longrightarrow>
     block_num (tiles f1 ! k) = block_num (tiles f ! k)"
  by (cases "k = nat n")
    (auto simp: sif_completely_uniform_shallow_def rd_def wr_def
      simp del: completely_uniform_loop.simps
      split: if_splits Option.bind_splits)

lemma store_uniform_value_blocks:
  assumes "store_uniform_value f hdr n band v = Some f1"
  shows "length (tiles f1) = length (tiles f)"
    and "block_num (tiles f1 ! k) = block_num (tiles f ! k) \<or> block_num (tiles f1 ! k) = - 1"
proof -
  from assms obtain tile upv flags ts f2 cu tile2 where
    t: "rd (tiles f) n = Some tile"
    and ts: "wr (tiles f) n (tile\<lparr>uniform_pixel_values := upv, uniform_flags := flags\<rparr>) = Some ts"
    and cu: "sif_completely_uniform_shallow (f\<lparr>tiles := ts\<rparr>) n = Some (f2, cu)"
    and t2: "rd (tiles f2) n = Some tile2"
    and fin: "(if cu \<and> block_num tile2 \<noteq> - 1 then
                do { b2t \<leftarrow> wr (blocks_to_tiles f2) (block_num tile2) (- 1);
                     tiles' \<leftarrow> wr (tiles f2) n (tile2\<lparr>block_num := - 1\<rparr>);
                     Some (f2\<lparr>blocks_to_tiles := b2t, tiles := tiles'\<rparr>) }
              else Some f2) = Some f1"
    by (auto simp: store_uniform_value_def split: Option.bind_splits)
  from ts t have 1: "block_num (ts ! k) = block_num (tiles f ! k)" "length ts = length (tiles f)"
    by (cases "k = nat n"; auto simp: rd_def wr_def split: if_splits)+
  from sif_completely_uniform_shallow_block_num[OF cu, of k] sif_completely_uniform_shallow_header[OF cu]
  have 2: "block_num (tiles f2 ! k) = block_num (ts ! k)" "length (tiles f2) = length ts"
    by simp_all
  from fin have 3: "tiles f1 = tiles f2 \<or> tiles f1 = (tiles f2)[nat n := tile2\<lparr>block_num := - 1\<rparr>]"
    by (auto simp: wr_def split: if_splits Option.bind_splits)
  from 1 2 3 show "length (tiles f1) = length (tiles f)" by auto
  from 1 2 3 show "block_num (tiles f1 ! k) = block_num (tiles f ! k) \<or> block_num (tiles f1 ! k) = - 1"
    by (cases "k = nat n"; cases "k < length (tiles f2)") (auto simp: list_update_beyond)
qed

lemma sif_fill_tile_slice_twice:
  assumes run: "sif_fill_tile_slice file tx ty band v = Some file1"
  shows "\<exists>file2. sif_fill_tile_slice file1 tx ty band v = Some file2
           \<and> tiles file2 = tiles file1 \<and> blocks_to_tiles file2 = blocks_to_tiles file1"
proof -
  let ?n = "n_tiles_across (the (header file)) * ty + tx"
  consider (early) e where "file1 = file\<lparr>error := e\<rparr>"
      "sif_fill_tile_slice (file\<lparr>error := e\<rparr>) tx ty band v = Some (file\<lparr>error := e\<rparr>)"
    | (main) hdr val fa tile rc where "header file = Some hdr" "\<not> version hdr > SIF_VERSION"
        "\<not> (tx < 0 \<or> ty < 0 \<or> tx \<ge> n_tiles_across hdr)" "\<not> (band < 0 \<or> band \<ge> bands hdr)"
        "v = Some val" "read_only file = 0"
        "store_uniform_value file hdr (n_tiles_across hdr * ty + tx) band val = Some fa"
        "rd (tiles fa) (n_tiles_across hdr * ty + tx) = Some tile"
        "sif_write_tile_header fa tile (n_tiles_across hdr * ty + tx) = Some (file1, rc)"
    using run
    by (auto simp: sif_fill_tile_slice_def SIF_CHECK_FILE_def Let_def RETURN_V_def
        split: if_splits option.splits Option.bind_splits)
  then show ?thesis
  proof cases
    case early
    then show ?thesis by simp
  next
    case main
    let ?n = "n_tiles_across hdr * ty + tx"
    from main(7) obtain ts b2t where fa: "fa = file\<lparr>tiles := ts, blocks_to_tiles := b2t\<rparr>"
      by (rule store_uniform_value_Some)
    from sif_write_tile_header_memory[OF main(9)] obtain p e u
      where f1: "file1 = fa\<lparr>fp := p, error := e, ubuf := u\<rparr>"
      by (rule sif_memory_eqE)
    have idem: "store_uniform_value file1 hdr ?n band val = Some file1"
      by (rule store_uniform_value_idem[OF main(7)]) (simp_all add: f1 fa)
    have "sif_write_tile_header file1 tile ?n \<noteq> None"
      using sif_write_tile_header_memory[OF main(9)] sif_write_tile_header_ubuf[OF main(9)]
      by (intro sif_write_tile_header_defined[OF main(9)]) simp_all
    then obtain file2 rc2 where w2: "sif_write_tile_header file1 tile ?n = Some (file2, rc2)"
      by auto
    from sif_write_tile_header_memory[OF w2]
    have "tiles file2 = tiles file1" "blocks_to_tiles file2 = blocks_to_tiles file1"
      by (auto elim: sif_memory_eqE)
    moreover have "sif_fill_tile_slice file1 tx ty band v = Some file2"
      using main idem w2
      by (simp add: sif_fill_tile_slice_def SIF_CHECK_FILE_def Let_def f1 fa)
    ultimately show ?thesis by blast
  qed
qed


lemma sif_fill_tile_slice_blocks:
  assumes "sif_fill_tile_slice file tx ty band v = Some file1"
  shows "length (tiles file1) = length (tiles file)
         \<and> (block_num (tiles file1 ! k) = block_num (tiles file ! k)
              \<or> block_num (tiles file1 ! k) = - 1)"
proof -
  consider (early) e where "file1 = file\<lparr>error := e\<rparr>"
    | (main) hdr val fa tile rc n where "store_uniform_value file hdr n band val = Some fa"
        "sif_write_tile_header fa tile n = Some (file1, rc)"
    using assms
    by (auto simp: sif_fill_tile_slice_def SIF_CHECK_FILE_def Let_def RETURN_V_def
        split: if_splits option.splits Option.bind_splits)
  then show ?thesis
  proof cases
    case early
    then show ?thesis by simp
  next
    case main
    from sif_write_tile_header_memory[OF main(2)] have "tiles file1 = tiles fa"
      by (auto elim: sif_memory_eqE)
    with store_uniform_value_blocks(1)[OF main(1)] store_uniform_value_blocks(2)[OF main(1), of k]
    show ?thesis by simp
  qed
qed

section \<open>The uniformity check of a write\<close>



















section \<open>Operations that do not read the error field\<close>

text \<open>
  The operations on tile slices write the error field and never read it: run on a handle
  whose error field holds \<open>e\<close>, they do what they do on the handle itself, up to the error
  field they leave.
\<close>

lemma error_update_commute:
  "g\<lparr>fp := p, error := e\<rparr> = g\<lparr>error := e, fp := p\<rparr>"
  "g\<lparr>ubuf := u, error := e\<rparr> = g\<lparr>error := e, ubuf := u\<rparr>"
  "g\<lparr>tiles := ts, error := e\<rparr> = g\<lparr>error := e, tiles := ts\<rparr>"
  "g\<lparr>blocks_to_tiles := b, error := e\<rparr> = g\<lparr>error := e, blocks_to_tiles := b\<rparr>"
  "g\<lparr>dirty_tiles := d, error := e\<rparr> = g\<lparr>error := e, dirty_tiles := d\<rparr>"
  by simp_all

lemma store_uniform_value_error:
  "store_uniform_value (f\<lparr>error := e\<rparr>) hdr n band v =
     map_option (\<lambda>g. g\<lparr>error := e\<rparr>) (store_uniform_value f hdr n band v)"
  by (auto simp: store_uniform_value_def sif_completely_uniform_shallow_def
      simp del: completely_uniform_loop.simps split: Option.bind_split)

lemma sif_write_tile_header_error:
  "map_option (\<lambda>(g, rc). (g\<lparr>error := 0\<rparr>, rc)) (sif_write_tile_header (f\<lparr>error := e\<rparr>) t n) =
   map_option (\<lambda>(g, rc). (g\<lparr>error := 0\<rparr>, rc)) (sif_write_tile_header f t n)"
  by (auto simp: sif_write_tile_header_def FSEEK64_def FWRITE64_def FWRITE64INT32_def
      sif_write_int32_def SIF_ERROR_CHECK_RETURN_def RETURN_def Let_def
      split: Option.bind_split option.split prod.split)

lemma bind_error_cong:
  assumes "map_option (\<lambda>(g, rc). (g\<lparr>error := 0\<rparr>, rc)) x = map_option (\<lambda>(g, rc). (g\<lparr>error := 0\<rparr>, rc)) y"
  shows "map_option (\<lambda>g. g\<lparr>error := 0\<rparr>) (do { (g, rc :: int) \<leftarrow> x; Some (g :: sif_file) }) =
         map_option (\<lambda>g. g\<lparr>error := 0\<rparr>) (do { (g, rc) \<leftarrow> y; Some g })"
  using assms by (cases x; cases y) auto

lemma sif_fill_tile_slice_error:
  "map_option (\<lambda>g. g\<lparr>error := 0\<rparr>) (sif_fill_tile_slice (file\<lparr>error := e\<rparr>) tx ty band v) =
   map_option (\<lambda>g. g\<lparr>error := 0\<rparr>) (sif_fill_tile_slice file tx ty band v)"
proof -
  have body: "map_option (\<lambda>g. g\<lparr>error := 0\<rparr>)
        (do { f \<leftarrow> store_uniform_value (file\<lparr>error := e\<rparr>) hdr n band val;
              tile \<leftarrow> rd (tiles f) n;
              (f, rc) \<leftarrow> sif_write_tile_header f tile n;
              Some f }) =
      map_option (\<lambda>g. g\<lparr>error := 0\<rparr>)
        (do { f \<leftarrow> store_uniform_value file hdr n band val;
              tile \<leftarrow> rd (tiles f) n;
              (f, rc) \<leftarrow> sif_write_tile_header f tile n;
              Some f })" for hdr n val
  proof (cases "store_uniform_value file hdr n band val")
    case None
    then show ?thesis by (simp add: store_uniform_value_error)
  next
    case (Some f1)
    show ?thesis
    proof (cases "rd (tiles f1) n")
      case None
      with Some show ?thesis by (simp add: store_uniform_value_error)
    next
      case (Some tile)
      with \<open>store_uniform_value file hdr n band val = Some f1\<close> show ?thesis
        by (simp add: store_uniform_value_error bind_error_cong[OF sif_write_tile_header_error])
    qed
  qed
  show ?thesis
    by (simp add: sif_fill_tile_slice_def SIF_CHECK_FILE_def RETURN_V_def Let_def body
        split: option.split)
qed

lemma sif_get_tile_slice_error:
  "map_option (\<lambda>(g, b). (g\<lparr>error := 0\<rparr>, b)) (sif_get_tile_slice (file\<lparr>error := e\<rparr>) buffer tx ty band) =
   map_option (\<lambda>(g, b). (g\<lparr>error := 0\<rparr>, b)) (sif_get_tile_slice file buffer tx ty band)"
  by (auto simp: sif_get_tile_slice_def SIF_CHECK_FILE_def FSEEK64_def FREAD64_def
      SIF_ERROR_CHECK_RETURN_def sif_band_of_tile_is_uniform_shallow_def sif_get_block_location_def
      Let_def fseek_def
      simp del: fill_units_loop.simps
      split: Option.bind_split option.split prod.split)

lemma fill_tiles_loop_error:
  "fill_tiles_loop (f\<lparr>error := e\<rparr>) hdr band v i =
     map_option (\<lambda>g. g\<lparr>error := e\<rparr>) (fill_tiles_loop f hdr band v i)"
proof (induction "nat (n_tiles hdr - i)" arbitrary: f i)
  case 0
  then show ?case by simp
next
  case (Suc m)
  then have i: "i < n_tiles hdr" and m: "m = nat (n_tiles hdr - (i + 1))" by linarith+
  show ?case
  proof (cases "store_uniform_value f hdr i band v")
    case None
    with i show ?thesis
      by (subst (1 2) fill_tiles_loop.simps) (simp add: store_uniform_value_error del: fill_tiles_loop.simps)
  next
    case (Some f1)
    with i Suc.hyps(1)[OF m, of f1] show ?thesis
      by (subst (1 2) fill_tiles_loop.simps) (simp add: store_uniform_value_error del: fill_tiles_loop.simps)
  qed
qed

lemma write_tile_headers_loop_error:
  "map_option (\<lambda>(g, rc). (g\<lparr>error := 0\<rparr>, rc)) (write_tile_headers_loop (f\<lparr>error := e\<rparr>) hdr i) =
   map_option (\<lambda>(g, rc). (g\<lparr>error := 0\<rparr>, rc)) (write_tile_headers_loop f hdr i)"
proof (induction "nat (n_tiles hdr - i)" arbitrary: f i e)
  case 0
  then show ?case by simp
next
  case (Suc m)
  then have i: "i < n_tiles hdr" and m: "m = nat (n_tiles hdr - (i + 1))" by linarith+
  have IH: "map_option (\<lambda>(g, rc). (g\<lparr>error := 0\<rparr>, rc))
        (write_tile_headers_loop (g\<lparr>error := e, ubuf := u, fp := p\<rparr>) hdr (i + 1)) =
      map_option (\<lambda>(g, rc). (g\<lparr>error := 0\<rparr>, rc))
        (write_tile_headers_loop (g\<lparr>ubuf := u, fp := p\<rparr>) hdr (i + 1))" for g e u p
    using Suc.hyps(1)[OF m, where f = "g\<lparr>ubuf := u, fp := p\<rparr>" and e = e]
    by (simp add: error_update_commute del: write_tile_headers_loop.simps)
  from i show ?case
    by (subst (1 2) write_tile_headers_loop.simps)
      (auto simp: FWRITE64_def FWRITE64INT32_def sif_write_int32_def SIF_ERROR_CHECK_RETURN_def
        RETURN_def Let_def IH
        simp del: write_tile_headers_loop.simps
        split: Option.bind_split option.split prod.split)
qed

lemma sif_fill_tiles_error:
  "map_option (\<lambda>g. g\<lparr>error := 0\<rparr>) (sif_fill_tiles (file\<lparr>error := e\<rparr>) band v) =
   map_option (\<lambda>g. g\<lparr>error := 0\<rparr>) (sif_fill_tiles file band v)"
proof -
  have headers: "map_option (\<lambda>(g, rc). (g\<lparr>error := 0\<rparr>, rc)) (sif_write_tile_headers (f\<lparr>error := e\<rparr>)) =
      map_option (\<lambda>(g, rc). (g\<lparr>error := 0\<rparr>, rc)) (sif_write_tile_headers f)" for f
    using write_tile_headers_loop_error[where f = "f\<lparr>fp := p\<rparr>" and e = e for p]
    by (auto simp: sif_write_tile_headers_def FSEEK64_def fseek_def SIF_ERROR_CHECK_RETURN_def
        RETURN_def error_update_commute
        simp del: write_tile_headers_loop.simps split: Option.bind_split)
  have body: "map_option (\<lambda>g. g\<lparr>error := 0\<rparr>)
        (do { f \<leftarrow> fill_tiles_loop (file\<lparr>error := e\<rparr>) hdr band val 0;
              (f, rc) \<leftarrow> sif_write_tile_headers f;
              Some f }) =
      map_option (\<lambda>g. g\<lparr>error := 0\<rparr>)
        (do { f \<leftarrow> fill_tiles_loop file hdr band val 0;
              (f, rc) \<leftarrow> sif_write_tile_headers f;
              Some f })" for hdr val
    by (cases "fill_tiles_loop file hdr band val 0")
      (simp_all add: fill_tiles_loop_error bind_error_cong[OF headers] del: fill_tiles_loop.simps)
  show ?thesis
    by (simp add: sif_fill_tiles_def SIF_CHECK_FILE_def RETURN_V_def Let_def body
        del: fill_tiles_loop.simps split: option.split)
qed

lemma first_free_block_loop_error:
  "first_free_block_loop (f\<lparr>error := e\<rparr>) hdr i fb = first_free_block_loop f hdr i fb"
proof (induction "nat (n_tiles hdr - i)" arbitrary: i)
  case 0
  then show ?case by simp
next
  case (Suc m)
  then have i: "i < n_tiles hdr" and m: "m = nat (n_tiles hdr - (i + 1))" by linarith+
  from i Suc.hyps(1)[OF m] show ?case
    by (subst (1 2) first_free_block_loop.simps) (simp del: first_free_block_loop.simps cong: if_cong)
qed

lemma sif_is_uniform_error:
  "sif_is_uniform (f\<lparr>error := e\<rparr>) buf x y = sif_is_uniform f buf x y"
  by (simp add: sif_is_uniform_def del: is_uniform_outer.simps)

lemma map_option_bind_cong:
  "(\<And>v. map_option C (f v) = map_option C (g v)) \<Longrightarrow>
     map_option C (x \<bind> f) = map_option C (x \<bind> g)"
  by (cases x) simp_all

lemma FSEEK64_error:
  assumes "\<And>g. map_option C (k (g\<lparr>error := e\<rparr>)) = map_option C (k g)"
  shows "map_option C (FSEEK64 ret (f\<lparr>error := e\<rparr>) loc k) = map_option C (FSEEK64 ret f loc k)"
  using assms[of "f\<lparr>fp := p\<rparr>" for p]
  by (simp add: FSEEK64_def fseek_def SIF_ERROR_CHECK_RETURN_def error_update_commute)

lemma FWRITE64_error:
  assumes "\<And>g. map_option C (k (g\<lparr>error := e\<rparr>)) = map_option C (k g)"
  shows "map_option C (FWRITE64 ret (f\<lparr>error := e\<rparr>) buf els nel k) =
         map_option C (FWRITE64 ret f buf els nel k)"
  using assms[of "f\<lparr>fp := p\<rparr>" for p]
  by (simp add: FWRITE64_def SIF_ERROR_CHECK_RETURN_def error_update_commute
      split: option.split)

lemma set_tile_slice_tail_error:
  "map_option (\<lambda>g. g\<lparr>error := 0\<rparr>) (set_tile_slice_tail hdr buf n band (f\<lparr>error := e\<rparr>)) =
   map_option (\<lambda>g. g\<lparr>error := 0\<rparr>) (set_tile_slice_tail hdr buf n band f)"
proof -
  have rest: "map_option (\<lambda>g. g\<lparr>error := 0\<rparr>)
        (FSEEK64 RETURN_V (g\<lparr>error := e\<rparr>) loc (\<lambda>file.
           FWRITE64 RETURN_V file buf (data_unit_size hdr) (units_per_slice file) (\<lambda>file.
             do { flags \<leftarrow> SIF_CLEAR_BIT (uniform_flags tile) band;
                  tiles' \<leftarrow> wr (tiles file) n (tile\<lparr>uniform_flags := flags\<rparr>);
                  (file, rc) \<leftarrow> sif_write_tile_header (file\<lparr>tiles := tiles'\<rparr>)
                                  (tile\<lparr>uniform_flags := flags\<rparr>) n;
                  Some file }))) =
      map_option (\<lambda>g. g\<lparr>error := 0\<rparr>)
        (FSEEK64 RETURN_V g loc (\<lambda>file.
           FWRITE64 RETURN_V file buf (data_unit_size hdr) (units_per_slice file) (\<lambda>file.
             do { flags \<leftarrow> SIF_CLEAR_BIT (uniform_flags tile) band;
                  tiles' \<leftarrow> wr (tiles file) n (tile\<lparr>uniform_flags := flags\<rparr>);
                  (file, rc) \<leftarrow> sif_write_tile_header (file\<lparr>tiles := tiles'\<rparr>)
                                  (tile\<lparr>uniform_flags := flags\<rparr>) n;
                  Some file })))" for g loc tile
    apply (rule FSEEK64_error)
    apply simp
    apply (rule FWRITE64_error)
    apply (rule map_option_bind_cong)
    apply (simp add: error_update_commute)
    apply (rule map_option_bind_cong)
    apply (simp add: error_update_commute[symmetric]
        bind_error_cong[OF sif_write_tile_header_error, simplified])
    done
  show ?thesis
    by (simp add: set_tile_slice_tail_def sif_get_block_location_def Let_def rest
        error_update_commute[symmetric] split: Option.bind_split)
qed

lemma set_tile_slice_write_loop_error:
  "map_option (\<lambda>g. g\<lparr>error := 0\<rparr>)
     (set_tile_slice_write_loop (f\<lparr>error := e\<rparr>) hdr buf i (set_tile_slice_tail hdr buf n band)) =
   map_option (\<lambda>g. g\<lparr>error := 0\<rparr>)
     (set_tile_slice_write_loop f hdr buf i (set_tile_slice_tail hdr buf n band))"
proof (induction "nat (bands hdr - i)" arbitrary: f i)
  case 0
  then show ?case by (simp add: set_tile_slice_tail_error)
next
  case (Suc m)
  then have i: "i < bands hdr" and m: "m = nat (bands hdr - (i + 1))" by linarith+
  have "map_option (\<lambda>g. g\<lparr>error := 0\<rparr>)
      (FWRITE64 RETURN_V (f\<lparr>error := e\<rparr>) buf (data_unit_size hdr) (units_per_slice f)
         (\<lambda>file. set_tile_slice_write_loop file hdr buf (i + 1) (set_tile_slice_tail hdr buf n band))) =
     map_option (\<lambda>g. g\<lparr>error := 0\<rparr>)
      (FWRITE64 RETURN_V f buf (data_unit_size hdr) (units_per_slice f)
         (\<lambda>file. set_tile_slice_write_loop file hdr buf (i + 1) (set_tile_slice_tail hdr buf n band)))"
    by (rule FWRITE64_error) (rule Suc.hyps(1)[OF m])
  with i show ?case
    by (subst (1 2) set_tile_slice_write_loop.simps) (simp del: set_tile_slice_write_loop.simps)
qed

lemma sif_set_tile_slice_error:
  "map_option (\<lambda>g. g\<lparr>error := 0\<rparr>) (sif_set_tile_slice (file\<lparr>error := e\<rparr>) buffer tx ty band) =
   map_option (\<lambda>g. g\<lparr>error := 0\<rparr>) (sif_set_tile_slice file buffer tx ty band)"
proof -
  have uniform: "map_option (\<lambda>g. g\<lparr>error := 0\<rparr>)
        (do { f \<leftarrow> store_uniform_value (file\<lparr>error := e\<rparr>) hdr n band val;
              tile \<leftarrow> rd (tiles f) n;
              (f, rc) \<leftarrow> sif_write_tile_header f tile n;
              Some f }) =
      map_option (\<lambda>g. g\<lparr>error := 0\<rparr>)
        (do { f \<leftarrow> store_uniform_value file hdr n band val;
              tile \<leftarrow> rd (tiles f) n;
              (f, rc) \<leftarrow> sif_write_tile_header f tile n;
              Some f })" for hdr n val
  proof (cases "store_uniform_value file hdr n band val")
    case None
    then show ?thesis by (simp add: store_uniform_value_error)
  next
    case (Some f1)
    show ?thesis
    proof (cases "rd (tiles f1) n")
      case None
      with Some show ?thesis by (simp add: store_uniform_value_error)
    next
      case (Some tile)
      with \<open>store_uniform_value file hdr n band val = Some f1\<close> show ?thesis
        by (simp add: store_uniform_value_error bind_error_cong[OF sif_write_tile_header_error])
    qed
  qed
  have block: "map_option (\<lambda>g. g\<lparr>error := 0\<rparr>)
        (FSEEK64 RETURN_V (g\<lparr>error := e\<rparr>) loc (\<lambda>file.
           set_tile_slice_write_loop file hdr buf 0 (set_tile_slice_tail hdr buf n band))) =
      map_option (\<lambda>g. g\<lparr>error := 0\<rparr>)
        (FSEEK64 RETURN_V g loc (\<lambda>file.
           set_tile_slice_write_loop file hdr buf 0 (set_tile_slice_tail hdr buf n band)))"
    for g loc hdr buf n
    by (rule FSEEK64_error) (rule set_tile_slice_write_loop_error)
  show ?thesis
    by (simp add: sif_set_tile_slice_def SIF_CHECK_FILE_def RETURN_V_def Let_def
        sif_is_uniform_error first_free_block_loop_error sif_get_block_location_def
        uniform block set_tile_slice_tail_error
        error_update_commute[symmetric]
        del: set_tile_slice_write_loop.simps first_free_block_loop.simps
        split: option.split Option.bind_split)
qed

section \<open>Where the meta-data ends\<close>

lemma write_meta_data_loop_Some:
  "write_meta_data_loop file recs eofpos k = Some r \<Longrightarrow>
     (\<exists>f. r = (f, 0))
     \<or> (\<exists>f. k (eofpos + meta_data_bytes recs) f = Some r \<and> 0 \<le> meta_data_bytes recs)"
proof (induction recs arbitrary: "file" eofpos)
  case Nil
  then show ?case by auto
next
  case (Cons i recs)
  from Cons.prems consider f where "r = (f, 0)"
    | f where "write_meta_data_loop f recs (eofpos + 4 + key_length i + 4 + value_length i) k = Some r"
        "0 < key_length i" "0 < value_length i"
    by (auto simp: Let_def RETURN_def elim!: FWRITE64INT32_SomeE FWRITE64_SomeE)
  then show ?case
  proof cases
    case 1
    then show ?thesis by blast
  next
    case 2
    from Cons.IH[OF 2(1)] 2(2,3) show ?thesis
      by (auto simp: algebra_simps)
  qed
qed

lemma ftruncate_length:
  "0 \<le> len \<Longrightarrow> length (contents (fst (ftruncate p len))) = nat len"
  by (simp add: ftruncate_def)

lemma sif_truncate_length:
  "sif_truncate file len = Some file' \<Longrightarrow> 0 \<le> len \<Longrightarrow> length (contents (fp file')) = nat len"
  by (auto simp: sif_truncate_def ftruncate_def SIF_ERROR_CHECK_RETURN_def RETURN_V_def
      split: if_splits)

lemma sif_write_meta_data_length:
  assumes "sif_write_meta_data file = Some (file', 1)"
  shows "\<exists>hdr last. header file = Some hdr \<and> sif_get_last_used_block_index file = Some last
           \<and> int (length (contents (fp file'))) =
               base_location file + tile_bytes hdr * (last + 1)
                 + meta_data_bytes (concat (take SIF_HASH_TABLE_SIZE (meta_data file))) + 1"
proof -
  from assms obtain last loc hdr where last: "sif_get_last_used_block_index file = Some last"
    and hdr: "header file = Some hdr"
    and loc: "loc = base_location file + tile_bytes hdr * (last + 1)"
    and run: "FSEEK64 (RETURN 0) file loc (\<lambda>file.
          write_meta_data_loop file (concat (take SIF_HASH_TABLE_SIZE (meta_data file))) loc
            (\<lambda>eofpos file.
          do { file \<leftarrow> sif_truncate file (eofpos + 1); Some (file, 1) })) = Some (file', 1)"
    by (auto simp: sif_write_meta_data_def sif_get_block_location_def Let_def
        split: Option.bind_splits if_splits)
  let ?recs = "concat (take SIF_HASH_TABLE_SIZE (meta_data file))"
  from run obtain p where "0 \<le> loc"
    and "write_meta_data_loop (file\<lparr>fp := p\<rparr>) ?recs loc
            (\<lambda>eofpos file. do { file \<leftarrow> sif_truncate file (eofpos + 1); Some (file, 1) })
         = Some (file', 1)"
    by (auto simp: RETURN_def elim!: FSEEK64_SomeE)
  from write_meta_data_loop_Some[OF this(2)] obtain f
    where "sif_truncate f (loc + meta_data_bytes ?recs + 1) = Some file'"
      and "0 \<le> meta_data_bytes ?recs"
    by (auto split: Option.bind_splits)
  with \<open>0 \<le> loc\<close> have "length (contents (fp file')) = nat (loc + meta_data_bytes ?recs + 1)"
    by (intro sif_truncate_length) auto
  with \<open>0 \<le> loc\<close> \<open>0 \<le> meta_data_bytes ?recs\<close> last hdr loc show ?thesis by auto
qed

lemma concat_replicate_Nil: "concat (replicate n []) = []"
  by (induction n) simp_all

lemma table_concat_update:
  "k < 128 \<Longrightarrow> concat (take 128 (sif_alloc_meta_data_table[k := q])) = q"
  by (simp add: sif_alloc_meta_data_table_def SIF_HASH_TABLE_SIZE_def upd_conv_take_nth_drop
      concat_replicate_Nil)

lemma table_concat_update':
  "k < 128 \<Longrightarrow> concat (sif_alloc_meta_data_table[k := q]) = q"
  by (simp add: sif_alloc_meta_data_table_def SIF_HASH_TABLE_SIZE_def upd_conv_take_nth_drop
      concat_replicate_Nil)

lemma table_concat_all: "concat sif_alloc_meta_data_table = []"
  by (simp add: sif_alloc_meta_data_table_def concat_replicate_Nil)

lemmas table_defs = table_concat_update table_concat_update'

section \<open>The defragmenter\<close>

lemma blocks_before_Suc:
  "blocks_before bs (Suc t) = (if bs ! t \<noteq> - 1 then Suc (blocks_before bs t) else blocks_before bs t)"
  by (simp add: blocks_before_def)

lemma blocks_before_le: "blocks_before bs t \<le> t"
  unfolding blocks_before_def by (metis diff_zero length_filter_le length_upt)

lemma blocks_before_mono: "s \<le> t \<Longrightarrow> blocks_before bs s \<le> blocks_before bs t"
proof (induction t)
  case 0
  then show ?case by simp
next
  case (Suc t)
  then show ?case by (cases "s = Suc t") (auto simp: blocks_before_Suc)
qed

lemma blocks_before_less:
  "s < t \<Longrightarrow> bs ! s \<noteq> - 1 \<Longrightarrow> blocks_before bs s < blocks_before bs t"
  using blocks_before_mono[of "Suc s" t bs] by (simp add: blocks_before_Suc)

lemma blocks_before_cong:
  "(\<And>u. u < t \<Longrightarrow> (bs' ! u \<noteq> - 1) = (bs ! u \<noteq> - 1)) \<Longrightarrow> blocks_before bs' t = blocks_before bs t"
  unfolding blocks_before_def by (rule arg_cong[where f = length], rule filter_cong) auto

text \<open>Every number below the count of a prefix is the count of a tile with a block in it.\<close>

lemma blocks_before_surj:
  "r < blocks_before bs i \<Longrightarrow> \<exists>t < i. bs ! t \<noteq> - 1 \<and> blocks_before bs t = r"
proof (induction i)
  case 0
  then show ?case by (simp add: blocks_before_def)
next
  case (Suc i)
  show ?case
  proof (cases "r < blocks_before bs i")
    case True
    from Suc.IH[OF this] show ?thesis by (auto intro: less_SucI)
  next
    case False
    with Suc.prems have "bs ! i \<noteq> - 1" "blocks_before bs i = r"
      by (auto simp: blocks_before_Suc split: if_splits)
    then show ?thesis by blast
  qed
qed

lemma maps_consistentD1:
  "maps_consistent bs B \<Longrightarrow> t < length bs \<Longrightarrow> bs ! t \<noteq> - 1 \<Longrightarrow>
     0 \<le> bs ! t \<and> nat (bs ! t) < length B \<and> B ! nat (bs ! t) = int t"
  unfolding maps_consistent_def by blast

lemma maps_consistentD2:
  "maps_consistent bs B \<Longrightarrow> b < length B \<Longrightarrow> B ! b \<noteq> - 1 \<Longrightarrow>
     0 \<le> B ! b \<and> nat (B ! b) < length bs \<and> bs ! nat (B ! b) = int b"
  unfolding maps_consistent_def by blast

lemma maps_consistent_length: "maps_consistent bs B \<Longrightarrow> length B = length bs"
  by (simp add: maps_consistent_def)

lemma cursor_facts:
  assumes C: "maps_consistent bs B" and K: "compact_below bs i"
    and i: "i < length bs" and L: "bs ! i \<noteq> - 1"
  shows "blocks_before bs i < length B"
    and "0 \<le> bs ! i" and "nat (bs ! i) < length B" and "B ! nat (bs ! i) = int i"
    and "blocks_before bs i \<le> nat (bs ! i)"
    and "B ! blocks_before bs i \<noteq> - 1 \<Longrightarrow>
           0 \<le> B ! blocks_before bs i \<and> i \<le> nat (B ! blocks_before bs i)
           \<and> nat (B ! blocks_before bs i) < length bs
           \<and> bs ! nat (B ! blocks_before bs i) = int (blocks_before bs i)"
proof -
  let ?r = "blocks_before bs i"
  from blocks_before_le[of bs i] i C show r: "?r < length B"
    by (simp add: maps_consistent_def)
  from maps_consistentD1[OF C i L]
  show b: "0 \<le> bs ! i" "nat (bs ! i) < length B" "B ! nat (bs ! i) = int i" by auto
  show "?r \<le> nat (bs ! i)"
  proof (rule ccontr)
    assume "\<not> ?r \<le> nat (bs ! i)"
    then have "nat (bs ! i) < ?r" by simp
    from blocks_before_surj[OF this] obtain t where t: "t < i" "bs ! t \<noteq> - 1"
      "blocks_before bs t = nat (bs ! i)" by blast
    with K have "bs ! t = int (blocks_before bs t)" unfolding compact_below_def by blast
    with t(3) b have "bs ! t = bs ! i" by simp
    moreover from t i have "t < length bs" by simp
    from maps_consistentD1[OF C this t(2)] have "B ! nat (bs ! t) = int t" by simp
    ultimately show False using b t by simp
  qed
  assume n1: "B ! ?r \<noteq> - 1"
  from maps_consistentD2[OF C r n1]
  have t1: "0 \<le> B ! ?r" "nat (B ! ?r) < length bs" "bs ! nat (B ! ?r) = int ?r" by auto
  have "i \<le> nat (B ! ?r)"
  proof (rule ccontr)
    assume "\<not> i \<le> nat (B ! ?r)"
    then have lt: "nat (B ! ?r) < i" by simp
    from t1 have live: "bs ! nat (B ! ?r) \<noteq> - 1" by simp
    with K lt have "bs ! nat (B ! ?r) = int (blocks_before bs (nat (B ! ?r)))"
      unfolding compact_below_def by blast
    with t1 have "blocks_before bs (nat (B ! ?r)) = ?r" by simp
    with blocks_before_less[OF lt live] show False by simp
  qed
  with t1 show "0 \<le> B ! ?r \<and> i \<le> nat (B ! ?r) \<and> nat (B ! ?r) < length bs
      \<and> bs ! nat (B ! ?r) = int ?r" by simp
qed

lemma compact_below_step:
  assumes K: "compact_below bs i"
    and same: "\<And>u. (bs' ! u \<noteq> - 1) = (bs ! u \<noteq> - 1)"
    and below: "\<And>t. t < i \<Longrightarrow> bs' ! t = bs ! t"
    and at: "bs ! i \<noteq> - 1 \<Longrightarrow> bs' ! i = int (blocks_before bs i)"
  shows "compact_below bs' (Suc i)"
proof -
  have bb: "blocks_before bs' t = blocks_before bs t" for t
    by (rule blocks_before_cong) (rule same)
  show ?thesis
    unfolding compact_below_def
  proof (intro allI impI)
    fix t assume t: "t < Suc i" "bs' ! t \<noteq> - 1"
    show "bs' ! t = int (blocks_before bs' t)"
    proof (cases "t = i")
      case True
      with t same[of i] at show ?thesis by (simp add: bb)
    next
      case False
      with t have "t < i" by simp
      with K t(2) same[of t] below[of t] show ?thesis
        unfolding compact_below_def by (simp add: bb)
    qed
  qed
qed

lemma step_free:
  assumes C: "maps_consistent bs B" and K: "compact_below bs i"
    and i: "i < length bs" and L: "bs ! i \<noteq> - 1"
    and free: "B ! blocks_before bs i = - 1"
  shows "maps_consistent (bs[i := int (blocks_before bs i)])
           (B[blocks_before bs i := int i, nat (bs ! i) := - 1])"
    and "compact_below (bs[i := int (blocks_before bs i)]) (Suc i)"
proof -
  let ?r = "blocks_before bs i"
  note f = cursor_facts(1-5)[OF C K i L]
  from f free have ne: "?r \<noteq> nat (bs ! i)" by auto
  have len: "length B = length bs" by (rule maps_consistent_length[OF C])
  show "compact_below (bs[i := int ?r]) (Suc i)"
    by (rule compact_below_step[OF K]) (use i L in \<open>auto simp: nth_list_update\<close>)
  show "maps_consistent (bs[i := int ?r]) (B[?r := int i, nat (bs ! i) := - 1])"
    unfolding maps_consistent_def
  proof (intro conjI allI impI)
    show "length (B[?r := int i, nat (bs ! i) := - 1]) = length (bs[i := int ?r])"
      using len by simp
  next
    fix t assume t: "t < length (bs[i := int ?r])" "bs[i := int ?r] ! t \<noteq> - 1"
    show "0 \<le> bs[i := int ?r] ! t"
      using t maps_consistentD1[OF C, of t] by (cases "t = i") auto
    show "nat (bs[i := int ?r] ! t) < length (B[?r := int i, nat (bs ! i) := - 1])"
      using t f maps_consistentD1[OF C, of t] by (cases "t = i") auto
    show "B[?r := int i, nat (bs ! i) := - 1] ! nat (bs[i := int ?r] ! t) = int t"
    proof (cases "t = i")
      case True
      with f ne i show ?thesis by (simp add: nth_list_update)
    next
      case False
      with t have live: "t < length bs" "bs ! t \<noteq> - 1" by auto
      note d = maps_consistentD1[OF C live]
      from d f False have "nat (bs ! t) \<noteq> nat (bs ! i)" by auto
      moreover from d free have "nat (bs ! t) \<noteq> ?r" by auto
      ultimately show ?thesis using False d by (simp add: nth_list_update)
    qed
  next
    fix b assume b: "b < length (B[?r := int i, nat (bs ! i) := - 1])"
      "B[?r := int i, nat (bs ! i) := - 1] ! b \<noteq> - 1"
    then have bl: "b < length B" and nb: "b \<noteq> nat (bs ! i)"
      by (auto simp: nth_list_update split: if_splits)
    have "0 \<le> B[?r := int i, nat (bs ! i) := - 1] ! b
        \<and> nat (B[?r := int i, nat (bs ! i) := - 1] ! b) < length (bs[i := int ?r])
        \<and> bs[i := int ?r] ! nat (B[?r := int i, nat (bs ! i) := - 1] ! b) = int b"
    proof (cases "b = ?r")
      case True
      with f i nb show ?thesis by (simp add: nth_list_update)
    next
      case False
      with b nb bl have live: "B ! b \<noteq> - 1" by (simp add: nth_list_update)
      note d = maps_consistentD2[OF C bl live]
      from d f nb have "nat (B ! b) \<noteq> i" by auto
      with d False nb show ?thesis by (simp add: nth_list_update)
    qed
    then show "0 \<le> B[?r := int i, nat (bs ! i) := - 1] ! b"
      and "nat (B[?r := int i, nat (bs ! i) := - 1] ! b) < length (bs[i := int ?r])"
      and "bs[i := int ?r] ! nat (B[?r := int i, nat (bs ! i) := - 1] ! b) = int b"
      by simp_all
  qed
qed

lemma step_taken:
  assumes C: "maps_consistent bs B" and K: "compact_below bs i"
    and i: "i < length bs" and L: "bs ! i \<noteq> - 1"
    and taken: "B ! blocks_before bs i \<noteq> - 1"
  shows "maps_consistent (bs[i := int (blocks_before bs i), nat (B ! blocks_before bs i) := bs ! i])
           (B[blocks_before bs i := int i, nat (bs ! i) := B ! blocks_before bs i])"
    and "compact_below (bs[i := int (blocks_before bs i), nat (B ! blocks_before bs i) := bs ! i])
           (Suc i)"
proof -
  let ?r = "blocks_before bs i"
  let ?t1 = "nat (B ! ?r)"
  let ?b2 = "nat (bs ! i)"
  let ?bs' = "bs[i := int ?r, ?t1 := bs ! i]"
  let ?B' = "B[?r := int i, ?b2 := B ! ?r]"
  note f = cursor_facts(1-5)[OF C K i L]
  from cursor_facts(6)[OF C K i L taken]
  have g: "0 \<le> B ! ?r" "i \<le> ?t1" "?t1 < length bs" "bs ! ?t1 = int ?r" by auto
  have len: "length B = length bs" by (rule maps_consistent_length[OF C])
  show "compact_below ?bs' (Suc i)"
  proof (rule compact_below_step[OF K])
    fix u show "(?bs' ! u \<noteq> - 1) = (bs ! u \<noteq> - 1)"
      using i L g by (auto simp: nth_list_update)
  next
    fix t assume "t < i" then show "?bs' ! t = bs ! t"
      using g by (simp add: nth_list_update)
  next
    show "?bs' ! i = int ?r" using i g by (auto simp: nth_list_update)
  qed
  show "maps_consistent ?bs' ?B'"
  proof (cases "?t1 = i")
    case True
    with g have "bs ! i = int ?r" by simp
    with True g have "?bs' = bs" "?B' = B" by (simp_all add: list_update_same_conv)
    with C show ?thesis by simp
  next
    case False
    with g f have ne: "?r \<noteq> ?b2" by auto
    show ?thesis
      unfolding maps_consistent_def
    proof (intro conjI allI impI)
      show "length ?B' = length ?bs'" using len by simp
    next
      fix t assume t: "t < length ?bs'" "?bs' ! t \<noteq> - 1"
      have "0 \<le> ?bs' ! t \<and> nat (?bs' ! t) < length ?B' \<and> ?B' ! nat (?bs' ! t) = int t"
      proof -
        consider "t = i" | "t = ?t1" "t \<noteq> i" | "t \<noteq> i" "t \<noteq> ?t1" by blast
        then show ?thesis
        proof cases
          case 1
          with False f ne i g show ?thesis by (simp add: nth_list_update)
        next
          case 2
          with f g ne show ?thesis by (simp add: nth_list_update)
        next
          case 3
          with t have live: "t < length bs" "bs ! t \<noteq> - 1" by (auto simp: nth_list_update)
          note d = maps_consistentD1[OF C live]
          from d f 3 have "nat (bs ! t) \<noteq> ?b2" by auto
          moreover from d g 3 have "nat (bs ! t) \<noteq> ?r" by auto
          ultimately show ?thesis using 3 d by (simp add: nth_list_update)
        qed
      qed
      then show "0 \<le> ?bs' ! t" and "nat (?bs' ! t) < length ?B'" and "?B' ! nat (?bs' ! t) = int t"
        by simp_all
    next
      fix b assume b: "b < length ?B'" "?B' ! b \<noteq> - 1"
      have "0 \<le> ?B' ! b \<and> nat (?B' ! b) < length ?bs' \<and> ?bs' ! nat (?B' ! b) = int b"
      proof -
        consider "b = ?b2" | "b = ?r" "b \<noteq> ?b2" | "b \<noteq> ?r" "b \<noteq> ?b2" by blast
        then show ?thesis
        proof cases
          case 1
          with f g show ?thesis by (simp add: nth_list_update)
        next
          case 2
          with f g i False show ?thesis by (simp add: nth_list_update)
        next
          case 3
          with b have live: "b < length B" "B ! b \<noteq> - 1" by (auto simp: nth_list_update)
          note d = maps_consistentD2[OF C live]
          from d f 3 have "nat (B ! b) \<noteq> i" by auto
          moreover from d g 3 have "nat (B ! b) \<noteq> ?t1" by auto
          ultimately show ?thesis using 3 d by (simp add: nth_list_update)
        qed
      qed
      then show "0 \<le> ?B' ! b" and "nat (?B' ! b) < length ?bs'" and "?bs' ! nat (?B' ! b) = int b"
        by simp_all
    qed
  qed
qed

lemma length_live_in: "length (live_in bs) = blocks_before bs (length bs)"
  by (simp add: live_in_def blocks_before_def)

lemma live_in_nth_blocks_before:
  assumes "t < length bs" and "bs ! t \<noteq> - 1"
  shows "blocks_before bs t < length (live_in bs)" and "live_in bs ! blocks_before bs t = t"
proof -
  from assms(1) have "[0 ..< length bs] = [0 ..< t] @ t # [Suc t ..< length bs]"
    by (metis less_imp_add_positive upt_add_eq_append upt_conv_Cons zero_le
        add_0 le_add1 less_imp_le_nat)
  then have split: "live_in bs = filter (\<lambda>t. bs ! t \<noteq> - 1) [0 ..< t]
      @ t # filter (\<lambda>t. bs ! t \<noteq> - 1) [Suc t ..< length bs]"
    using assms(2) by (simp add: live_in_def)
  then show "blocks_before bs t < length (live_in bs)"
    by (simp add: blocks_before_def)
  from split show "live_in bs ! blocks_before bs t = t"
    by (simp add: blocks_before_def nth_append)
qed

lemma live_in_nth:
  assumes "p < length (live_in bs)"
  shows "live_in bs ! p < length bs" and "bs ! (live_in bs ! p) \<noteq> - 1"
    and "blocks_before bs (live_in bs ! p) = p"
proof -
  from assms have "live_in bs ! p \<in> set (live_in bs)" by simp
  then show t: "live_in bs ! p < length bs" "bs ! (live_in bs ! p) \<noteq> - 1"
    by (auto simp: live_in_def)
  have "distinct (live_in bs)" by (simp add: live_in_def)
  with live_in_nth_blocks_before[OF t] assms show "blocks_before bs (live_in bs ! p) = p"
    by (simp add: nth_eq_iff_index_eq)
qed

lemma compacted_maps:
  assumes C: "maps_consistent bs B" and K: "compact_below bs (length bs)"
  shows "B = map int (live_in bs) @ replicate (length bs - length (live_in bs)) (- 1)"
    and "\<forall>p < length (live_in bs). bs ! (live_in bs ! p) = int p"
proof -
  let ?L = "live_in bs"
  have len: "length B = length bs" by (rule maps_consistent_length[OF C])
  have k: "length ?L \<le> length bs"
    by (simp add: length_live_in blocks_before_le)
  have block: "bs ! (?L ! p) = int p" if "p < length ?L" for p
    using K live_in_nth[OF that] unfolding compact_below_def by auto
  then show "\<forall>p < length ?L. bs ! (?L ! p) = int p" by blast
  have low: "B ! p = int (?L ! p)" if "p < length ?L" for p
    using maps_consistentD1[OF C live_in_nth(1,2)[OF that]] block[OF that] by simp
  have high: "B ! b = - 1" if "length ?L \<le> b" "b < length bs" for b
  proof (rule ccontr)
    assume live: "B ! b \<noteq> - 1"
    from that len have "b < length B" by simp
    from maps_consistentD2[OF C this live]
    have t: "nat (B ! b) < length bs" "bs ! nat (B ! b) = int b" by auto
    then have "bs ! nat (B ! b) \<noteq> - 1" by simp
    with K t live_in_nth_blocks_before[OF t(1) this] that show False
      unfolding compact_below_def by auto
  qed
  show "B = map int ?L @ replicate (length bs - length ?L) (- 1)"
  proof (rule nth_equalityI)
    show "length B = length (map int ?L @ replicate (length bs - length ?L) (- 1))"
      using len k by simp
  next
    fix p assume "p < length B"
    with len low[of p] high[of p] show
      "B ! p = (map int ?L @ replicate (length bs - length ?L) (- 1)) ! p"
      by (cases "p < length ?L") (simp_all add: nth_append)
  qed
qed

lemma FREAD64_SomeE:
  assumes "FREAD64 ret file buf els nel k = Some r"
  obtains (read_failed) p buf' where "r = ret buf' (file\<lparr>fp := p, error := SIF_ERROR_READ\<rparr>)"
        | (read_ok) p buf' where "k buf' (file\<lparr>fp := p\<rparr>) = Some r"
proof -
  from assms obtain buf' p n where w: "fread buf els nel (fp file) = Some (buf', p, n)"
    by (auto simp: FREAD64_def split: option.splits)
  show thesis
  proof (cases "n = nel")
    case True
    with assms w have "k buf' (file\<lparr>fp := p\<rparr>) = Some r"
      by (simp add: FREAD64_def SIF_ERROR_CHECK_RETURN_def)
    then show thesis by (rule read_ok)
  next
    case False
    with assms w have "r = ret buf' (file\<lparr>fp := p, error := SIF_ERROR_READ\<rparr>)"
      by (simp add: FREAD64_def SIF_ERROR_CHECK_RETURN_def)
    then show thesis by (rule read_failed)
  qed
qed

lemma sif_swap_blocks_memory:
  "sif_swap_blocks file a b da db assign = Some (file', da', db') \<Longrightarrow>
     sif_memory file' = sif_memory file"
  by (auto simp: sif_swap_blocks_def Let_def split: Option.bind_splits if_splits
      elim!: FSEEK64_SomeE FWRITE64_SomeE FREAD64_SomeE)

lemma defragment_loop_end:
  "\<not> i < n_tiles hdr \<Longrightarrow> defragment_loop file hdr i bn1 = Some (file, False)"
  by simp

lemma defragment_loop_skip:
  assumes "i < n_tiles hdr" and "rd (tiles file) i = Some tile" and "block_num tile = - 1"
  shows "defragment_loop file hdr i bn1 = defragment_loop file hdr (i + 1) bn1"
  using assms by (subst defragment_loop.simps) simp

lemma defragment_loop_tile:
  assumes "defragment_loop file hdr i bn1 = Some r" and "i < n_tiles hdr"
  obtains tile where "rd (tiles file) i = Some tile"
  using assms by (subst (asm) defragment_loop.simps) (auto split: Option.bind_splits)

lemma defragment_loop_move:
  assumes run: "defragment_loop file hdr i bn1 = Some (file', False)"
    and i: "i < n_tiles hdr" and tile: "rd (tiles file) i = Some tile"
    and live: "block_num tile \<noteq> - 1"
  obtains f2 tn1 where "rd (blocks_to_tiles file) bn1 = Some tn1"
    and "defragment_loop f2 hdr (i + 1) (bn1 + 1) = Some (file', False)"
    and "0 \<le> block_num tile"
    and "tn1 = - 1 \<Longrightarrow>
           map block_num (tiles f2) = (map block_num (tiles file))[nat i := bn1]
           \<and> blocks_to_tiles f2 =
               (blocks_to_tiles file)[nat bn1 := i, nat (block_num tile) := - 1]"
    and "tn1 \<noteq> - 1 \<Longrightarrow> 0 \<le> tn1 \<and>
           map block_num (tiles f2) =
             (map block_num (tiles file))[nat i := bn1, nat tn1 := block_num tile]
           \<and> blocks_to_tiles f2 =
               (blocks_to_tiles file)[nat bn1 := i, nat (block_num tile) := tn1]"
proof -
  from run i tile live obtain tn1 ts b2t fa where
    tn1: "rd (blocks_to_tiles file) bn1 = Some tn1"
    and ts: "wr (tiles file) i (tile\<lparr>block_num := bn1\<rparr>) = Some ts"
    and b2t: "wr (blocks_to_tiles file) bn1 i = Some b2t"
    and fa: "(if tn1 \<noteq> - 1 then
                do { t1 \<leftarrow> rd ts tn1;
                     tiles' \<leftarrow> wr ts tn1 (t1\<lparr>block_num := block_num tile\<rparr>);
                     b2t' \<leftarrow> wr b2t (block_num tile) tn1;
                     (file, rc) \<leftarrow> sif_write_tile_header
                       (file\<lparr>tiles := tiles', blocks_to_tiles := b2t'\<rparr>)
                       (t1\<lparr>block_num := block_num tile\<rparr>) tn1;
                     Some (file, error file \<noteq> 0) }
              else
                do { b2t' \<leftarrow> wr b2t (block_num tile) (- 1);
                     Some (file\<lparr>tiles := ts, blocks_to_tiles := b2t'\<rparr>, False) })
             = Some (fa, False)"
    and rest: "do { (file, buf1, buf2) \<leftarrow>
                      sif_swap_blocks fa bn1 (block_num tile) (buffer0 fa) (buffer1 fa) (tn1 = - 1);
                    let file = file\<lparr>buffer0 := buf1, buffer1 := buf2\<rparr>;
                    if error file \<noteq> 0 then Some (file, True)
                    else
                      do { t2 \<leftarrow> rd (tiles file) i;
                           (file, rc) \<leftarrow> sif_write_tile_header file t2 i;
                           if error file \<noteq> 0 then Some (file, True)
                           else defragment_loop file hdr (i + 1) (bn1 + 1) } }
               = Some (file', False)"
    by (subst (asm) defragment_loop.simps)
      (auto simp: Let_def simp del: defragment_loop.simps
        split: Option.bind_splits if_splits prod.splits)
  from rest obtain f2 where loop: "defragment_loop f2 hdr (i + 1) (bn1 + 1) = Some (file', False)"
    and mem: "tiles f2 = tiles fa" "blocks_to_tiles f2 = blocks_to_tiles fa"
    by (auto simp: Let_def simp del: defragment_loop.simps
        split: Option.bind_splits if_splits
        dest!: sif_swap_blocks_memory sif_write_tile_header_memory elim!: sif_memory_eqE)
  from ts tile have ts_blocks: "map block_num ts = (map block_num (tiles file))[nat i := bn1]"
    by (auto simp: wr_def map_update split: if_splits)
  from b2t have b2t_eq: "b2t = (blocks_to_tiles file)[nat bn1 := i]"
    by (auto simp: wr_def split: if_splits)
  have free: "map block_num (tiles f2) = (map block_num (tiles file))[nat i := bn1]
           \<and> blocks_to_tiles f2 =
               (blocks_to_tiles file)[nat bn1 := i, nat (block_num tile) := - 1]"
    if "tn1 = - 1"
    using that fa mem ts_blocks b2t_eq
    by (auto simp: wr_def split: Option.bind_splits if_splits)
  have taken: "0 \<le> tn1 \<and> map block_num (tiles f2) =
             (map block_num (tiles file))[nat i := bn1, nat tn1 := block_num tile]
           \<and> blocks_to_tiles f2 =
               (blocks_to_tiles file)[nat bn1 := i, nat (block_num tile) := tn1]"
    if "tn1 \<noteq> - 1"
    using that fa mem ts_blocks b2t_eq
    by (auto simp: wr_def rd_def map_update split: Option.bind_splits if_splits
        dest!: sif_write_tile_header_memory elim!: sif_memory_eqE)
  have bn: "0 \<le> block_num tile"
    using fa by (auto simp: wr_def split: Option.bind_splits if_splits)
  from tn1 loop bn free taken show thesis by (rule that)
qed

lemma compact_below_mono: "compact_below bs j \<Longrightarrow> k \<le> j \<Longrightarrow> compact_below bs k"
  unfolding compact_below_def by auto

lemma live_in_cong:
  assumes "length bs' = length bs" and "\<And>u. (bs' ! u \<noteq> - 1) = (bs ! u \<noteq> - 1)"
  shows "live_in bs' = live_in bs"
  unfolding live_in_def using assms by (auto intro: filter_cong)

lemma step_free_live:
  assumes "i < length bs" and "bs ! i \<noteq> - 1"
  shows "(bs[i := int r] ! u \<noteq> - 1) = (bs ! u \<noteq> - 1)"
  using assms by (auto simp: nth_list_update)

lemma step_taken_live:
  assumes C: "maps_consistent bs B" and K: "compact_below bs i"
    and i: "i < length bs" and L: "bs ! i \<noteq> - 1"
    and taken: "B ! blocks_before bs i \<noteq> - 1"
  shows "(bs[i := int (blocks_before bs i), nat (B ! blocks_before bs i) := bs ! i] ! u \<noteq> - 1)
         = (bs ! u \<noteq> - 1)"
  using cursor_facts(6)[OF C K i L taken] i L by (auto simp: nth_list_update)

lemma defragment_loop_compacts:
  assumes "defragment_loop file hdr i bn1 = Some (file', False)"
    and "maps_consistent (map block_num (tiles file)) (blocks_to_tiles file)"
    and "compact_below (map block_num (tiles file)) (nat i)"
    and "0 \<le> i" and "bn1 = int (blocks_before (map block_num (tiles file)) (nat i))"
    and "n_tiles hdr = int (length (tiles file))"
  shows "maps_consistent (map block_num (tiles file')) (blocks_to_tiles file')
       \<and> compact_below (map block_num (tiles file')) (length (tiles file'))
       \<and> length (tiles file') = length (tiles file)
       \<and> live_in (map block_num (tiles file')) = live_in (map block_num (tiles file))"
  using assms
proof (induction "nat (n_tiles hdr - i)" arbitrary: "file" i bn1)
  case 0
  then have "\<not> i < n_tiles hdr" by simp
  with "0.prems"(1) have "file' = file" by simp
  moreover from 0 have "length (tiles file) \<le> nat i" by simp
  ultimately show ?case using "0.prems" by (auto intro: compact_below_mono)
next
  case (Suc m)
  let ?bs = "map block_num (tiles file)"
  let ?B = "blocks_to_tiles file"
  let ?i = "nat i"
  from Suc.hyps(2) have i: "i < n_tiles hdr" by simp
  with Suc.prems have il: "?i < length ?bs" by simp
  from Suc.hyps(2) have m: "m = nat (n_tiles hdr - (i + 1))" by simp
  from defragment_loop_tile[OF Suc.prems(1) i] obtain tile
    where tile: "rd (tiles file) i = Some tile" .
  with il have at: "?bs ! ?i = block_num tile"
    by (auto simp: rd_def split: if_splits)
  from Suc.prems(4) have Suc_i: "nat (i + 1) = Suc ?i" by simp
  show ?case
  proof (cases "block_num tile = - 1")
    case True
    from Suc.prems(1) have run: "defragment_loop file hdr (i + 1) bn1 = Some (file', False)"
      by (simp only: defragment_loop_skip[OF i tile True])
    have c: "compact_below ?bs (nat (i + 1))"
      unfolding Suc_i by (rule compact_below_step[OF Suc.prems(3)]) (use at True in auto)
    have b: "bn1 = int (blocks_before ?bs (nat (i + 1)))"
      unfolding Suc_i using Suc.prems(5) at True by (simp add: blocks_before_Suc)
    from Suc.prems(4) have p: "0 \<le> i + 1" by simp
    show ?thesis by (rule Suc.hyps(1)[OF m run Suc.prems(2) c p b Suc.prems(6)])
  next
    case False
    with at have live: "?bs ! ?i \<noteq> - 1" by simp
    let ?r = "blocks_before ?bs ?i"
    from Suc.prems(5) have r: "nat bn1 = ?r" "bn1 = int ?r" by simp_all
    from defragment_loop_move[OF Suc.prems(1) i tile False] obtain f2 tn1 where
      tn1: "rd ?B bn1 = Some tn1"
      and run: "defragment_loop f2 hdr (i + 1) (bn1 + 1) = Some (file', False)"
      and free: "tn1 = - 1 \<Longrightarrow>
           map block_num (tiles f2) = ?bs[?i := bn1]
           \<and> blocks_to_tiles f2 = ?B[nat bn1 := i, nat (block_num tile) := - 1]"
      and taken: "tn1 \<noteq> - 1 \<Longrightarrow> 0 \<le> tn1 \<and>
           map block_num (tiles f2) = ?bs[?i := bn1, nat tn1 := block_num tile]
           \<and> blocks_to_tiles f2 = ?B[nat bn1 := i, nat (block_num tile) := tn1]"
      by metis
    from tn1 r have tn1_eq: "tn1 = ?B ! ?r"
      by (auto simp: rd_def split: if_splits)
    let ?bs2 = "map block_num (tiles f2)"
    have step: "maps_consistent ?bs2 (blocks_to_tiles f2) \<and> compact_below ?bs2 (Suc ?i)
        \<and> length ?bs2 = length ?bs \<and> (\<forall>u. (?bs2 ! u \<noteq> - 1) = (?bs ! u \<noteq> - 1))
        \<and> ?bs2 ! ?i \<noteq> - 1"
    proof (cases "tn1 = - 1")
      case True
      with free tn1_eq r at Suc.prems(4)
      have eq: "?bs2 = ?bs[?i := int ?r]"
        "blocks_to_tiles f2 = ?B[?r := int ?i, nat (?bs ! ?i) := - 1]"
        and fr: "?B ! ?r = - 1"
        by simp_all
      from step_free[OF Suc.prems(2,3) il live fr] step_free_live[OF il live, of ?r] il
      show ?thesis unfolding eq by simp
    next
      case False
      with taken tn1_eq r at Suc.prems(4)
      have eq: "?bs2 = ?bs[?i := int ?r, nat (?B ! ?r) := ?bs ! ?i]"
        "blocks_to_tiles f2 = ?B[?r := int ?i, nat (?bs ! ?i) := ?B ! ?r]"
        and tk: "?B ! ?r \<noteq> - 1"
        by simp_all
      from step_taken[OF Suc.prems(2,3) il live tk]
        step_taken_live[OF Suc.prems(2,3) il live tk] live
      show ?thesis unfolding eq by simp
    qed
    then have same: "(?bs2 ! u \<noteq> - 1) = (?bs ! u \<noteq> - 1)" for u by blast
    have bb: "blocks_before ?bs2 ?i = ?r"
      by (rule blocks_before_cong) (rule same)
    from step have len: "length (tiles f2) = length (tiles file)" by simp
    have b: "bn1 + 1 = int (blocks_before ?bs2 (nat (i + 1)))"
      unfolding Suc_i using step r bb live by (simp add: blocks_before_Suc)
    from step have c: "maps_consistent ?bs2 (blocks_to_tiles f2)"
      "compact_below ?bs2 (nat (i + 1))" unfolding Suc_i by simp_all
    from Suc.prems(4) have p: "0 \<le> i + 1" by simp
    from Suc.prems(6) len have n: "n_tiles hdr = int (length (tiles f2))" by simp
    have "maps_consistent (map block_num (tiles file')) (blocks_to_tiles file')
       \<and> compact_below (map block_num (tiles file')) (length (tiles file'))
       \<and> length (tiles file') = length (tiles f2)
       \<and> live_in (map block_num (tiles file')) = live_in ?bs2"
      by (rule Suc.hyps(1)[OF m run c p b n])
    moreover have "live_in ?bs2 = live_in ?bs"
      using step by (intro live_in_cong) auto
    ultimately show ?thesis using len by auto
  qed
qed

lemma defragment_loop_returned:
  "defragment_loop file hdr i bn1 = Some (f1, True) \<Longrightarrow> error f1 \<noteq> 0"
proof (induction "nat (n_tiles hdr - i)" arbitrary: "file" i bn1)
  case 0
  then show ?case by simp
next
  case (Suc m)
  from Suc.hyps(2) have m: "m = nat (n_tiles hdr - (i + 1))" by simp
  from Suc.prems show ?case
    by (subst (asm) defragment_loop.simps)
      (auto simp: Let_def simp del: defragment_loop.simps
        split: Option.bind_splits if_splits dest!: Suc.hyps(1)[OF m])
qed

lemma write_meta_data_loop_memory:
  assumes "write_meta_data_loop file recs eofpos k = Some (file', rc)"
    and "\<And>f e. k e f = Some (file', rc) \<Longrightarrow> sif_memory file' = sif_memory f"
  shows "sif_memory file' = sif_memory file"
  using assms
proof (induction recs arbitrary: "file" eofpos)
  case Nil
  then show ?case by simp
next
  case (Cons i recs)
  from Cons.prems(1) show ?case
    by (auto simp: Let_def RETURN_def elim!: FWRITE64INT32_SomeE FWRITE64_SomeE
        dest!: Cons.IH[OF _ Cons.prems(2)])
qed

lemma sif_truncate_memory:
  "sif_truncate file len = Some file' \<Longrightarrow> sif_memory file' = sif_memory file"
  by (auto simp: sif_truncate_def ftruncate_def SIF_ERROR_CHECK_RETURN_def RETURN_V_def
      split: if_splits)

lemma sif_write_meta_data_memory:
  assumes "sif_write_meta_data file = Some (file', rc)"
  shows "sif_memory file' = sif_memory file"
proof -
  from assms consider (seek) "file' = file\<lparr>error := SIF_ERROR_SEEK\<rparr>"
    | (loop) loc p where
    "write_meta_data_loop (file\<lparr>fp := p\<rparr>) (concat (take SIF_HASH_TABLE_SIZE (meta_data file))) loc
       (\<lambda>eofpos file. do { file \<leftarrow> sif_truncate file (eofpos + 1); Some (file, 1) })
     = Some (file', rc)"
    by (auto simp: sif_write_meta_data_def Let_def RETURN_def
        split: Option.bind_splits elim!: FSEEK64_SomeE)
  then show ?thesis
  proof cases
    case seek
    then show ?thesis by simp
  next
    case loop
    then have "sif_memory file' = sif_memory (file\<lparr>fp := p\<rparr>)"
      by (rule write_meta_data_loop_memory)
        (auto split: Option.bind_splits dest!: sif_truncate_memory)
    then show ?thesis by simp
  qed
qed

lemma compact_below_0: "compact_below bs 0"
  by (simp add: compact_below_def)

lemma blocks_before_0: "blocks_before bs 0 = 0"
  by (simp add: blocks_before_def)

lemma sif_defragment_loop:
  assumes hdr: "header file = Some hdr" and w: "read_only file = 0" and d: "defragment hdr \<noteq> 0"
    and run: "sif_defragment file = Some file'" and ok: "error file' = 0"
  obtains f1 where "defragment_loop file hdr 0 0 = Some (f1, False)"
    and "tiles file' = tiles f1" and "blocks_to_tiles file' = blocks_to_tiles f1"
proof -
  from run hdr w d ok
  have "\<exists>f1. defragment_loop file hdr 0 0 = Some (f1, False)
          \<and> sif_memory file' = sif_memory f1"
    by (auto simp: sif_defragment_def SIF_CHECK_FILE_def RETURN_V_def const_defs
        simp del: defragment_loop.simps
        split: if_splits Option.bind_splits
        dest!: defragment_loop_returned sif_write_meta_data_memory)
  then obtain f1 where 1: "defragment_loop file hdr 0 0 = Some (f1, False)"
    and "sif_memory file' = sif_memory f1" by blast
  then have "tiles file' = tiles f1" "blocks_to_tiles file' = blocks_to_tiles f1"
    by (auto elim: sif_memory_eqE)
  with 1 show thesis by (rule that)
qed

lemma create_6x1:
  "sif_create 6 1 1 1 0 0 1 2 1 0 [] =
     Some (Some \<lparr>fp = \<lparr>contents = [0, 0, 0, 128, 33, 42, 42, 83, 73, 70, 42, 42,
     0, 0, 0, 0, 0, 0, 0, 6, 0, 0, 0, 1, 0, 0, 0, 1, 0, 0, 0, 0, 0, 0, 0, 3, 0, 0, 0, 2, 0, 0,
     0, 1, 0, 0, 0, 2, 0, 0, 0, 3, 0, 0, 0, 1, 0, 0, 0, 0, 0, 0, 0, 1, 0, 0, 0, 0, 0, 0, 0, 1,
     0, 0, 0, 6, 0, 0, 0, 1, 0, 0, 0, 0, 0, 0, 0, 0, 0, 0, 0, 0, 0, 0, 0, 0, 0, 0, 0, 0, 0, 0,
     0, 0, 0, 0, 0, 0, 0, 0, 0, 0, 0, 0, 0, 0, 0, 0, 0, 0, 0, 0, 0, 0, 0, 0, 0, 0, 0, 255, 255,
     255, 255, 255, 0, 255, 255, 255, 255, 255, 0, 255, 255, 255, 255, 255], pos = 146\<rparr>,
     header = Some \<lparr>magic_number = [33, 42, 42, 83, 73, 70, 42, 42], version = 0, width =
     6, height = 1, bands = 1, n_keys = 0, n_tiles = 3, tile_width = 2, tile_height = 1,
     tile_bytes = 2, n_tiles_across = 3, data_unit_size = 1, user_data_type = 0, defragment = 1,
     consolidate = 0, intrinsic_write = 1, tile_header_bytes = 6, n_uniform_flags = 1,
     affine_geo_transform = [[0, 0, 0, 0, 0, 0, 0, 0], [0, 0, 0, 0, 0, 0, 0, 0], [0, 0, 0, 0, 0,
     0, 0, 0], [0, 0, 0, 0, 0, 0, 0, 0], [0, 0, 0, 0, 0, 0, 0, 0], [0, 0, 0, 0, 0, 0, 0,
     0]]\<rparr>, tiles = [\<lparr>uniform_flags = [255], uniform_pixel_values = [0], block_num
     = - 1\<rparr>, \<lparr>uniform_flags = [255], uniform_pixel_values = [0], block_num = -
     1\<rparr>, \<lparr>uniform_flags = [255], uniform_pixel_values = [0], block_num = -
     1\<rparr>], meta_data = sif_alloc_meta_data_table, read_only = 0, blocks_to_tiles = [- 1, -
     1, - 1], dirty_tiles = [0, 0, 0], buffer0 = [0, 0], buffer1 = [0, 0], base_location = 146,
     error = 0, units_per_slice = 2, units_per_tile = 2, header_bytes = 128, ubuf = [255, 255,
     255, 255, 0, 0, 0, 0], use_file_version = 2, simple_region_buffer = None,
     simple_region_bytes = 0\<rparr>)"
  by (simp add: create_defs ev_defs cong: weak_congs)

lemma fragmented_file_eq:
  "fragmented_file =
     \<lparr>fp = \<lparr>contents = [0, 0, 0, 128, 33, 42, 42, 83, 73, 70, 42, 42, 0, 0,
     0, 0, 0, 0, 0, 6, 0, 0, 0, 1, 0, 0, 0, 1, 0, 0, 0, 0, 0, 0, 0, 3, 0, 0, 0, 2, 0, 0, 0, 1,
     0, 0, 0, 2, 0, 0, 0, 3, 0, 0, 0, 1, 0, 0, 0, 0, 0, 0, 0, 1, 0, 0, 0, 0, 0, 0, 0, 1, 0, 0,
     0, 6, 0, 0, 0, 1, 0, 0, 0, 0, 0, 0, 0, 0, 0, 0, 0, 0, 0, 0, 0, 0, 0, 0, 0, 0, 0, 0, 0, 0,
     0, 0, 0, 0, 0, 0, 0, 0, 0, 0, 0, 0, 0, 0, 0, 0, 0, 0, 0, 0, 0, 0, 0, 0, 7, 255, 255, 255,
     255, 255, 0, 127, 0, 0, 0, 1, 0, 127, 0, 0, 0, 2, 1, 2, 3, 4, 5, 6], pos = 134\<rparr>,
     header = Some \<lparr>magic_number = [33, 42, 42, 83, 73, 70, 42, 42], version = 0, width =
     6, height = 1, bands = 1, n_keys = 0, n_tiles = 3, tile_width = 2, tile_height = 1,
     tile_bytes = 2, n_tiles_across = 3, data_unit_size = 1, user_data_type = 0, defragment = 1,
     consolidate = 0, intrinsic_write = 1, tile_header_bytes = 6, n_uniform_flags = 1,
     affine_geo_transform = [[0, 0, 0, 0, 0, 0, 0, 0], [0, 0, 0, 0, 0, 0, 0, 0], [0, 0, 0, 0, 0,
     0, 0, 0], [0, 0, 0, 0, 0, 0, 0, 0], [0, 0, 0, 0, 0, 0, 0, 0], [0, 0, 0, 0, 0, 0, 0,
     0]]\<rparr>, tiles = [\<lparr>uniform_flags = [255], uniform_pixel_values = [7], block_num
     = - 1\<rparr>, \<lparr>uniform_flags = [127], uniform_pixel_values = [0], block_num =
     1\<rparr>, \<lparr>uniform_flags = [127], uniform_pixel_values = [0], block_num =
     2\<rparr>], meta_data = sif_alloc_meta_data_table, read_only = 0, blocks_to_tiles = [- 1,
     1, 2], dirty_tiles = [0, 0, 0], buffer0 = [0, 0], buffer1 = [0, 0], base_location = 146,
     error = 0, units_per_slice = 2, units_per_tile = 2, header_bytes = 128, ubuf = [255, 255,
     255, 255, 0, 0, 0, 0], use_file_version = 2, simple_region_buffer = None,
     simple_region_bytes = 0\<rparr>"
  by (simp add: fragmented_file_def create_6x1 slice_defs ev_defs cong: weak_congs)

text \<open>
  A call of \<^verbatim>\<open>sif_defragment\<close> that returns with the error field zero has run to its
  end. On a writable handle with the defragment flag set, whose two block maps are the
  inverse of each other, such a call leaves the maps compact: with \<open>k\<close> the number of tiles
  with a block, the first \<open>k\<close> blocks are the blocks of those tiles in increasing order of
  the tiles, every other block is free, and the block number of each of those tiles is its
  place in that order. The tiles with a block are the same as before. The fragmented file
  above is an example.
\<close>

lemma sif_defragment_compacts_the_block_maps:
  assumes hdr: "header file = Some hdr" and n: "n_tiles hdr = int (length (tiles file))"
    and C: "maps_consistent (map block_num (tiles file)) (blocks_to_tiles file)"
    and w: "read_only file = 0" and d: "defragment hdr \<noteq> 0"
    and run: "sif_defragment file = Some file'" and ok: "error file' = 0"
  shows "\<exists>k. k = length (live_in (map block_num (tiles file')))
           \<and> take k (blocks_to_tiles file') = map int (live_in (map block_num (tiles file')))
           \<and> drop k (blocks_to_tiles file') = replicate (length (tiles file') - k) (- 1)
           \<and> (\<forall>p < k. block_num (tiles file' ! (live_in (map block_num (tiles file')) ! p)) = int p)
           \<and> live_in (map block_num (tiles file')) = live_in (map block_num (tiles file))
           \<and> length (blocks_to_tiles file') = length (tiles file)"
proof -
  from sif_defragment_loop[OF hdr w d run ok] obtain f1
    where loop: "defragment_loop file hdr 0 0 = Some (f1, False)"
      and mem: "tiles file' = tiles f1" "blocks_to_tiles file' = blocks_to_tiles f1" .
  let ?bs = "map block_num (tiles file')"
  let ?L = "live_in ?bs"
  have "maps_consistent (map block_num (tiles f1)) (blocks_to_tiles f1)
       \<and> compact_below (map block_num (tiles f1)) (length (tiles f1))
       \<and> length (tiles f1) = length (tiles file)
       \<and> live_in (map block_num (tiles f1)) = live_in (map block_num (tiles file))"
    by (rule defragment_loop_compacts[OF loop C _ _ _ n])
      (simp_all add: compact_below_0 blocks_before_0)
  with mem have f: "maps_consistent ?bs (blocks_to_tiles file')"
    "compact_below ?bs (length ?bs)" "length (tiles file') = length (tiles file)"
    "?L = live_in (map block_num (tiles file))"
    by auto
  from compacted_maps[OF f(1,2)]
  have B: "blocks_to_tiles file' = map int ?L @ replicate (length ?bs - length ?L) (- 1)"
    and blocks: "\<forall>p < length ?L. ?bs ! (?L ! p) = int p"
    by simp_all
  have "take (length ?L) (blocks_to_tiles file') = map int ?L"
    by (subst B) simp
  moreover have "drop (length ?L) (blocks_to_tiles file')
      = replicate (length (tiles file') - length ?L) (- 1)"
    by (subst B) simp
  moreover have "block_num (tiles file' ! (?L ! p)) = int p" if "p < length ?L" for p
    using blocks[rule_format, OF that] live_in_nth(1)[OF that] by simp
  moreover from f(1) f(3) have "length (blocks_to_tiles file') = length (tiles file)"
    by (simp add: maps_consistent_def)
  ultimately show ?thesis using f(4) by blast
qed

lemma sif_defragment_compacts_fragmented_file:
  "header fragmented_file = Some (the (header fragmented_file))
   \<and> n_tiles (the (header fragmented_file)) = int (length (tiles fragmented_file))
   \<and> maps_consistent (map block_num (tiles fragmented_file)) (blocks_to_tiles fragmented_file)
   \<and> read_only fragmented_file = 0
   \<and> defragment (the (header fragmented_file)) \<noteq> 0
   \<and> sif_defragment fragmented_file = Some (the (sif_defragment fragmented_file))
   \<and> error (the (sif_defragment fragmented_file)) = 0
   \<and> map block_num (tiles fragmented_file) = [- 1, 1, 2]
   \<and> blocks_to_tiles fragmented_file = [- 1, 1, 2]
   \<and> live_in (map block_num (tiles (the (sif_defragment fragmented_file)))) = [1, 2]
   \<and> take 2 (blocks_to_tiles (the (sif_defragment fragmented_file))) = [1, 2]
   \<and> drop 2 (blocks_to_tiles (the (sif_defragment fragmented_file))) = [- 1]
   \<and> map block_num (tiles (the (sif_defragment fragmented_file))) = [- 1, 0, 1]"
proof -
  have h: "header fragmented_file = Some (the (header fragmented_file))"
    "n_tiles (the (header fragmented_file)) = int (length (tiles fragmented_file))"
    "read_only fragmented_file = 0" "defragment (the (header fragmented_file)) \<noteq> 0"
    "map block_num (tiles fragmented_file) = [- 1, 1, 2]"
    "blocks_to_tiles fragmented_file = [- 1, 1, 2]"
    by (simp_all add: fragmented_file_eq)
  have c: "maps_consistent (map block_num (tiles fragmented_file)) (blocks_to_tiles fragmented_file)"
    unfolding h by (simp add: maps_consistent_def All_less_Suc eval_nat_numeral)
  have r: "sif_defragment fragmented_file = Some (the (sif_defragment fragmented_file))"
    "error (the (sif_defragment fragmented_file)) = 0"
    "map block_num (tiles (the (sif_defragment fragmented_file))) = [- 1, 0, 1]"
    "blocks_to_tiles (the (sif_defragment fragmented_file)) = [1, 2, - 1]"
    by (simp_all add: fragmented_file_eq close_defs slice_defs ev_defs cong: weak_congs)
  have l: "live_in [- 1, 0, 1] = [1, 2]"
    by (simp add: live_in_def upt_rec)
  from sif_defragment_compacts_the_block_maps [OF h(1) h(2) c h(3) h(4) r(1) r(2)] h c r l
  show ?thesis by simp
qed

section \<open>The claims\<close>

text \<open>
  Claim C1 (raster round trip). The specification says that a window written with
  \<^verbatim>\<open>sif_set_raster\<close> is read back unchanged by \<^verbatim>\<open>sif_get_raster\<close> after the file is closed
  and opened again. The code does not do that: both functions step through the rows of the
  caller's buffer with \<^verbatim>\<open>trs = hd->n_tiles_across\<close>, the number of tiles in a row of
  tiles, where the width of the window in bytes is needed. On a 2 x 2 image of one band in one
  2 x 2 tile, the raster {1, 2, 3, 4} is stored as {1, 3, 4, 0} and read back as {1, 3, 3, 4},
  with no error reported.
\<close>

theorem C1_raster_round_trip_fails:
  "do { r \<leftarrow> sif_create 2 2 1 1 0 1 1 2 2 0 []; f \<leftarrow> r;
        f \<leftarrow> sif_set_raster f [1, 2, 3, 4] 0 0 2 2 0;
        (d, status) \<leftarrow> sif_close f;
        r \<leftarrow> sif_open (contents d) 0 []; f \<leftarrow> r;
        (f, data) \<leftarrow> sif_get_raster f [0, 0, 0, 0] 0 0 2 2 0;
        Some (data, error f) } = Some ([1, 3, 3, 4], SIF_ERROR_NONE)"
  by (simp add: create_2x2 written_2x2_step closed_2x2_step reopened_2x2_step raster_defs
      slice_defs ev_defs cong: weak_congs)

text \<open>
  Claim C2 (uniformity flags and blocks). The specification says that a tile loses its block
  only when every one of its bands is uniform, and that the all-ones test on the flag bytes
  decides exactly that. \<^verbatim>\<open>_sif_completely_uniform_shallow\<close>, documented as ``returns true
  iff all bands in a tile are uniform'', first ORs \<^verbatim>\<open>0xFF >> (8 - bands % 8)\<close> into the last
  flag byte. The flags are numbered from the most significant bit, so for seven bands this mask
  0x7F covers the flags of bands 1 to 6 instead of the one padding bit. On a tile of seven
  bands, band 1 is written with the pixels {1, 2}: it reads back {1, 2}, the flags are 0xBF and
  the tile has block 0. Writing the uniform pixels {5, 5} to band 0 then sets the flags to
  0xFF and frees the block, and band 1 reads back {0, 0}, with no error reported.
\<close>

theorem C2_block_freed_while_band_not_uniform:
  "do { r \<leftarrow> sif_create 2 1 7 1 0 0 0 2 1 0 []; f \<leftarrow> r;
        f1 \<leftarrow> sif_set_tile_slice f (Some [1, 2]) 0 0 1;
        (g1, b1) \<leftarrow> sif_get_tile_slice f1 (Some [9, 9]) 0 0 1;
        f2 \<leftarrow> sif_set_tile_slice f1 (Some [5, 5]) 0 0 0;
        (g2, b2) \<leftarrow> sif_get_tile_slice f2 (Some [9, 9]) 0 0 1;
        Some (b1, map uniform_flags (tiles f1), map block_num (tiles f1),
              b2, map uniform_flags (tiles f2), map block_num (tiles f2), error g2) } =
   Some (Some [1, 2], [[0xBF]], [0], Some [0, 0], [[0xFF]], [- 1], SIF_ERROR_NONE)"
  by (simp add: create_7_bands band_1_written_step band_0_written_step slice_defs ev_defs
      cong: weak_congs)

text \<open>
  Claim C3 (meta-data, last write wins). After two writes of two bytes each under the key
  \<^verbatim>\<open>"k"\<close>, first the bytes 1 2 and then the bytes 3 4, the read returns the bytes 1 2 of
  the first write, with the length 2 and no error: a write of the same length as the
  value stored does not replace it.
\<close>

theorem C3_same_length_overwrite_is_lost:
  "do { r \<leftarrow> sif_create 1 1 1 1 0 0 0 1 1 0 [];
        f \<leftarrow> r;
        f \<leftarrow> sif_set_meta_data_binary f [0x6B, 0] [1, 2] 2;
        f \<leftarrow> sif_set_meta_data_binary f [0x6B, 0] [3, 4] 2;
        (f, v, n) \<leftarrow> sif_get_meta_data_binary f [0x6B, 0] 0;
        Some (v, n, error f) }
   = Some (Some [1, 2], 2, SIF_ERROR_NONE)"
  by (simp add: create_1x1 md_defs mem_defs const_defs macro_defs Let_def cong: weak_congs)

text \<open>
  Claim C4 (the block maps after a defragmentation). The specification says that after
  \<^verbatim>\<open>sif_defragment\<close> the blocks in use are the first blocks, in the order of their tiles,
  and the header file documents the function in the same words: the blocks are sorted in
  the order of their tiles and ``no unused storage blocks remain in the file''. The code
  does not do that on a handle whose error field an earlier call has left set.
  \<^verbatim>\<open>sif_defragment\<close> tests \<^verbatim>\<open>file->error != 0\<close> after every tile it moves and returns
  there, and it does not clear the field when it starts, though the header file says of the
  field that it is not zero ``if an error occurred during the last sif-io call''. On the
  fragmented file above, where the tiles 1 and 2 have the blocks 1 and 2, a look-up of a
  key that is not there sets the error code \<^verbatim>\<open>SIF_ERROR_META_DATA_KEY\<close>;
  \<^verbatim>\<open>sif_defragment\<close> then moves tile 1 to block 0 and returns, leaving block 1 free and
  tile 2 in block 2. With the error field zero the same call leaves the tiles 1 and 2 in
  the blocks 0 and 1.
\<close>

theorem C4_defragment_stops_on_an_error_code:
  "read_only (fst (the (sif_get_meta_data_binary fragmented_file [0x6B, 0] 0))) = 0
   \<and> map_option defragment (header (fst (the (sif_get_meta_data_binary fragmented_file
         [0x6B, 0] 0)))) = Some 1
   \<and> error (fst (the (sif_get_meta_data_binary fragmented_file [0x6B, 0] 0))) =
       SIF_ERROR_META_DATA_KEY
   \<and> map block_num (tiles (fst (the (sif_get_meta_data_binary fragmented_file [0x6B, 0] 0)))) =
       [- 1, 1, 2]
   \<and> blocks_to_tiles (fst (the (sif_get_meta_data_binary fragmented_file [0x6B, 0] 0))) =
       [- 1, 1, 2]
   \<and> map block_num (tiles (the (sif_defragment
         (fst (the (sif_get_meta_data_binary fragmented_file [0x6B, 0] 0)))))) = [- 1, 0, 2]
   \<and> blocks_to_tiles (the (sif_defragment
         (fst (the (sif_get_meta_data_binary fragmented_file [0x6B, 0] 0))))) = [1, - 1, 2]
   \<and> error fragmented_file = SIF_ERROR_NONE
   \<and> map block_num (tiles (the (sif_defragment fragmented_file))) = [- 1, 0, 1]
   \<and> blocks_to_tiles (the (sif_defragment fragmented_file)) = [1, 2, - 1]"
  by (simp add: fragmented_file_eq md_defs close_defs slice_defs ev_defs table_concat_all
      cong: weak_congs)

text \<open>
  Claim C5 (the endian adapter). On the little-endian host a buffer holding one element of two
  bytes, translated to the big-endian code, comes back as it was: the bytes of the
  element are not reversed, where the claim asks for the reversed element.
\<close>

theorem C5_swap_leaves_element_unreversed:
  "sif_buffer_host_to_code [1, 2] 2 2 SIF_SIMPLE_BIG_ENDIAN = Some [1, 2]
   \<and> SIF_SIMPLE_BIG_ENDIAN \<noteq> SIF_SIMPLE_NATIVE_ENDIAN
   \<and> reverse_elements [1, 2] 2 = [2, 1]"
  by (simp add: sif_buffer_host_to_code_def sif_buffer_host_to_big_def sif_swap_bytes_def
      reverse_elements_def mem_defs const_defs)

text \<open>
  Claim C6 (the error field and later operations). The specification says that an operation
  on a handle whose error field is not zero returns at once. The code has no such check:
  the macros \<^verbatim>\<open>SIF_ERROR_RETURN\<close> that would make it are defined and never used. On a fresh
  1 x 1 file, looking up a key that is not there sets the error code
  \<^verbatim>\<open>SIF_ERROR_META_DATA_KEY\<close>; a following \<^verbatim>\<open>sif_fill_tile_slice\<close> with the value 7 still
  changes the uniform pixel value of the tile from 0 to 7 and writes the tile header to the
  file.
\<close>

theorem C6_fill_runs_with_error_set:
  "error (fst (the (sif_get_meta_data_binary (the (the (sif_create 1 1 1 1 0 0 0 1 1 0 [])))
                      [0x6B, 0] 0))) = SIF_ERROR_META_DATA_KEY
   \<and> SIF_ERROR_META_DATA_KEY \<noteq> 0
   \<and> map uniform_pixel_values
         (tiles (fst (the (sif_get_meta_data_binary (the (the (sif_create 1 1 1 1 0 0 0 1 1 0 [])))
                             [0x6B, 0] 0)))) = [[0]]
   \<and> map uniform_pixel_values
         (tiles (the (sif_fill_tile_slice
            (fst (the (sif_get_meta_data_binary (the (the (sif_create 1 1 1 1 0 0 0 1 1 0 [])))
                         [0x6B, 0] 0))) 0 0 0 (Some [7])))) = [[7]]
   \<and> drop 128 (contents (fp (fst (the (sif_get_meta_data_binary
            (the (the (sif_create 1 1 1 1 0 0 0 1 1 0 []))) [0x6B, 0] 0))))) =
       [0, 255, 255, 255, 255, 255]
   \<and> drop 128 (contents (fp (the (sif_fill_tile_slice
            (fst (the (sif_get_meta_data_binary (the (the (sif_create 1 1 1 1 0 0 0 1 1 0 [])))
                         [0x6B, 0] 0))) 0 0 0 (Some [7]))))) =
       [7, 255, 255, 255, 255, 255]"
  by (simp add: create_1x1 md_defs slice_defs ev_defs cong: weak_congs)

text \<open>
  Claim C6 as amended. What an operation checks before anything else is the handle, with
  \<^verbatim>\<open>SIF_CHECK_FILE\<close>: when the header is null or its version is greater than
  \<^verbatim>\<open>SIF_VERSION\<close>, each of the eleven operations below sets the error code and returns,
  the stream, the tile headers, the block maps and the meta-data being as they were.
  \<^verbatim>\<open>sif_simple_set_raster\<close> checks the error field as well: it returns the handle as it is
  when the header passes the check and the field is not zero. The four operations on tile
  slices, \<^verbatim>\<open>sif_get_tile_slice\<close>, \<^verbatim>\<open>sif_set_tile_slice\<close>, \<^verbatim>\<open>sif_fill_tile_slice\<close> and
  \<^verbatim>\<open>sif_fill_tiles\<close>, do not read the error field: whatever value \<open>stale\<close> it holds when
  they are called, they leave the same stream and the same memory and return the same
  buffer, and only the error field they leave can differ.
\<close>

theorem C6_short_circuit_on_the_header_check:
  "((header file = None \<or> (\<exists>hdr. header file = Some hdr \<and> version hdr > SIF_VERSION))
     \<and> e = (case header file of None \<Rightarrow> SIF_ERROR_NULL_HDR
                                  | Some hdr \<Rightarrow> SIF_ERROR_INCOMPATIBLE_VERSION) \<longrightarrow>
      sif_get_tile_slice file buffer tx ty band = Some (file\<lparr>error := e\<rparr>, buffer)
      \<and> sif_set_tile_slice file buffer tx ty band = Some (file\<lparr>error := e\<rparr>)
      \<and> sif_fill_tile_slice file tx ty band buffer = Some (file\<lparr>error := e\<rparr>)
      \<and> sif_fill_tiles file band buffer = Some (file\<lparr>error := e\<rparr>)
      \<and> sif_set_raster file data x y w h band = Some (file\<lparr>error := e\<rparr>)
      \<and> sif_get_raster file data x y w h band = Some (file\<lparr>error := e\<rparr>, data)
      \<and> sif_set_meta_data file key data = Some (file\<lparr>error := e\<rparr>)
      \<and> sif_set_meta_data_binary file key data n = Some (file\<lparr>error := e\<rparr>)
      \<and> sif_get_meta_data file key = Some (file\<lparr>error := e\<rparr>, None)
      \<and> sif_get_meta_data_binary file key n = Some (file\<lparr>error := e\<rparr>, None, n)
      \<and> sif_defragment file = Some (file\<lparr>error := e\<rparr>))
   \<and> (header file = Some hdr \<and> version hdr \<le> SIF_VERSION \<and> error file \<noteq> 0 \<longrightarrow>
        sif_simple_set_raster file data x y w h band junk = Some file)
   \<and> map_option (\<lambda>(g, b). (g\<lparr>error := 0\<rparr>, b))
         (sif_get_tile_slice (file\<lparr>error := stale\<rparr>) buffer tx ty band) =
       map_option (\<lambda>(g, b). (g\<lparr>error := 0\<rparr>, b)) (sif_get_tile_slice file buffer tx ty band)
   \<and> map_option (\<lambda>g. g\<lparr>error := 0\<rparr>)
         (sif_set_tile_slice (file\<lparr>error := stale\<rparr>) buffer tx ty band) =
       map_option (\<lambda>g. g\<lparr>error := 0\<rparr>) (sif_set_tile_slice file buffer tx ty band)
   \<and> map_option (\<lambda>g. g\<lparr>error := 0\<rparr>)
         (sif_fill_tile_slice (file\<lparr>error := stale\<rparr>) tx ty band buffer) =
       map_option (\<lambda>g. g\<lparr>error := 0\<rparr>) (sif_fill_tile_slice file tx ty band buffer)
   \<and> map_option (\<lambda>g. g\<lparr>error := 0\<rparr>)
         (sif_fill_tiles (file\<lparr>error := stale\<rparr>) band buffer) =
       map_option (\<lambda>g. g\<lparr>error := 0\<rparr>) (sif_fill_tiles file band buffer)"
proof -
  have 1: "(header file = None \<or> (\<exists>hdr. header file = Some hdr \<and> version hdr > SIF_VERSION))
     \<and> e = (case header file of None \<Rightarrow> SIF_ERROR_NULL_HDR
                                  | Some hdr \<Rightarrow> SIF_ERROR_INCOMPATIBLE_VERSION) \<longrightarrow>
      sif_get_tile_slice file buffer tx ty band = Some (file\<lparr>error := e\<rparr>, buffer)
      \<and> sif_set_tile_slice file buffer tx ty band = Some (file\<lparr>error := e\<rparr>)
      \<and> sif_fill_tile_slice file tx ty band buffer = Some (file\<lparr>error := e\<rparr>)
      \<and> sif_fill_tiles file band buffer = Some (file\<lparr>error := e\<rparr>)
      \<and> sif_set_raster file data x y w h band = Some (file\<lparr>error := e\<rparr>)
      \<and> sif_get_raster file data x y w h band = Some (file\<lparr>error := e\<rparr>, data)
      \<and> sif_set_meta_data file key data = Some (file\<lparr>error := e\<rparr>)
      \<and> sif_set_meta_data_binary file key data n = Some (file\<lparr>error := e\<rparr>)
      \<and> sif_get_meta_data file key = Some (file\<lparr>error := e\<rparr>, None)
      \<and> sif_get_meta_data_binary file key n = Some (file\<lparr>error := e\<rparr>, None, n)
      \<and> sif_defragment file = Some (file\<lparr>error := e\<rparr>)"
    by (auto simp add: SIF_CHECK_FILE_def RETURN_V_def RETURN_def sif_get_tile_slice_def
        sif_set_tile_slice_def sif_fill_tile_slice_def sif_fill_tiles_def sif_set_raster_def
        sif_get_raster_def sif_set_meta_data_def sif_set_meta_data_binary_def
        sif_get_meta_data_def sif_get_meta_data_binary_def sif_defragment_def)
  have 2: "header file = Some hdr \<and> version hdr \<le> SIF_VERSION \<and> error file \<noteq> 0 \<longrightarrow>
        sif_simple_set_raster file data x y w h band junk = Some file"
    by (auto simp add: SIF_CHECK_FILE_def sif_simple_set_raster_def)
  show ?thesis
    by (intro conjI 1 2 sif_get_tile_slice_error sif_set_tile_slice_error
        sif_fill_tile_slice_error sif_fill_tiles_error)
qed

theorem C6_short_circuit_on_the_header_check_witness:
  "header sif_alloc_fp = None
   \<and> sif_fill_tile_slice sif_alloc_fp 0 0 0 (Some [7]) =
       Some (sif_alloc_fp\<lparr>error := SIF_ERROR_NULL_HDR\<rparr>)
   \<and> SIF_VERSION < 3
   \<and> sif_get_tile_slice
         ((the (the (sif_create 1 1 1 1 0 0 0 1 1 0 [])))
            \<lparr>header := Some ((the (header (the (the (sif_create 1 1 1 1 0 0 0 1 1 0 [])))))
                               \<lparr>version := 3\<rparr>)\<rparr>)
         (Some [9]) 0 0 0 =
       Some ((the (the (sif_create 1 1 1 1 0 0 0 1 1 0 [])))
               \<lparr>header := Some ((the (header (the (the (sif_create 1 1 1 1 0 0 0 1 1 0 [])))))
                                  \<lparr>version := 3\<rparr>),
                 error := SIF_ERROR_INCOMPATIBLE_VERSION\<rparr>, Some [9])
   \<and> version (the (header (the (the (sif_create 1 1 1 1 0 0 0 1 1 0 []))))) \<le> SIF_VERSION
   \<and> sif_simple_set_raster
         ((the (the (sif_create 1 1 1 1 0 0 0 1 1 0 [])))\<lparr>error := SIF_ERROR_READ\<rparr>)
         [7] 0 0 1 1 0 [] =
       Some ((the (the (sif_create 1 1 1 1 0 0 0 1 1 0 [])))\<lparr>error := SIF_ERROR_READ\<rparr>)
   \<and> map_option (\<lambda>g. g\<lparr>error := 0\<rparr>)
         (sif_fill_tile_slice
            ((the (the (sif_create 1 1 1 1 0 0 0 1 1 0 [])))\<lparr>error := SIF_ERROR_META_DATA_KEY\<rparr>)
            0 0 0 (Some [7])) =
       map_option (\<lambda>g. g\<lparr>error := 0\<rparr>)
         (sif_fill_tile_slice (the (the (sif_create 1 1 1 1 0 0 0 1 1 0 []))) 0 0 0 (Some [7]))"
  using C6_short_circuit_on_the_header_check
      [of sif_alloc_fp SIF_ERROR_NULL_HDR "Some [7]" 0 0 0]
    C6_short_circuit_on_the_header_check
      [of "(the (the (sif_create 1 1 1 1 0 0 0 1 1 0 [])))
            \<lparr>header := Some ((the (header (the (the (sif_create 1 1 1 1 0 0 0 1 1 0 [])))))
                               \<lparr>version := 3\<rparr>)\<rparr>"
          SIF_ERROR_INCOMPATIBLE_VERSION "Some [9]" 0 0 0]
    C6_short_circuit_on_the_header_check
      [of "(the (the (sif_create 1 1 1 1 0 0 0 1 1 0 [])))\<lparr>error := SIF_ERROR_READ\<rparr>"
        _ _ _ _ 0 "[7]" 0 0 1 1 _ _
        "the (header (the (the (sif_create 1 1 1 1 0 0 0 1 1 0 []))))" "[]"]
    C6_short_circuit_on_the_header_check
      [of "the (the (sif_create 1 1 1 1 0 0 0 1 1 0 []))" _ "Some [7]" 0 0 0 _ _ _ _ _ _ _ _ _
        SIF_ERROR_META_DATA_KEY]
  by (auto simp: create_1x1 sif_alloc_fp_def const_defs)

text \<open>
  Claim C7 (reading a string value). The string \<^verbatim>\<open>"a"\<close>, stored with its terminator under the
  key \<^verbatim>\<open>"k"\<close>, is read back with the error \<^verbatim>\<open>SIF_ERROR_META_DATA_VALUE\<close> set, though the
  value ends in a NUL byte; and the two bytes 0 and 97, which do not end in a NUL byte,
  are read back with no error.
\<close>

theorem C7_terminated_string_raises_the_error:
  "do { r \<leftarrow> sif_create 1 1 1 1 0 0 0 1 1 0 [];
        f \<leftarrow> r;
        f \<leftarrow> sif_set_meta_data f [0x6B, 0] [0x61, 0];
        (f, v) \<leftarrow> sif_get_meta_data f [0x6B, 0];
        Some (v, error f) }
   = Some (Some [0x61, 0], SIF_ERROR_META_DATA_VALUE)
   \<and>
   do { r \<leftarrow> sif_create 1 1 1 1 0 0 0 1 1 0 [];
        f \<leftarrow> r;
        f \<leftarrow> sif_set_meta_data_binary f [0x6B, 0] [0, 0x61] 2;
        (f, v) \<leftarrow> sif_get_meta_data f [0x6B, 0];
        Some (v, error f) }
   = Some (Some [0, 0x61], SIF_ERROR_NONE)"
  by (simp add: create_1x1 md_defs mem_defs const_defs macro_defs Let_def cong: weak_congs)

text \<open>
  Claim C8 (where the file is truncated). The specification says that after the meta-data
  is written the file ends with the last record: its length is the offset where the
  meta-data starts plus the total size of the records, and after a defragmentation it is
  the offset of the first block, plus the size of the blocks in use, plus the size of the
  meta-data. \<^verbatim>\<open>_sif_write_meta_data\<close> keeps in \<^verbatim>\<open>eofpos\<close> the offset that follows what it
  has written, adding the size of every record, and then executes
  \<^verbatim>\<open>eofpos = eofpos + 1\<close> before it truncates there: the file is one byte longer than that,
  and no write of the function has produced the byte. On a fresh 1 x 1 file with the one
  pair "k" and {1, 2}, the meta-data starts at the offset 134 and its record has 12 bytes;
  the file written has 147 bytes, the last a zero after the record, and so has the file that
  \<^verbatim>\<open>sif_close\<close> leaves. On the fragmented file above, which has no meta-data, the blocks
  start at the offset 146 and have 2 bytes each; after \<^verbatim>\<open>sif_defragment\<close> two tiles have a
  block and the file has 151 bytes where the claim gives 146 + 2 * 2 + 0 = 150. Its last
  byte, 5, is the first byte of the block that the defragmentation has freed.
\<close>

theorem C8_file_ends_one_byte_past_the_records:
  "map_option snd (sif_write_meta_data
      (the (sif_set_meta_data_binary (the (the (sif_create 1 1 1 1 0 0 0 1 1 0 [])))
              [0x6B, 0] [1, 2] 2))) = Some 1
   \<and> sif_get_block_location
         (the (sif_set_meta_data_binary (the (the (sif_create 1 1 1 1 0 0 0 1 1 0 [])))
                 [0x6B, 0] [1, 2] 2)) 0 = Some 134
   \<and> meta_data_bytes (concat (take SIF_HASH_TABLE_SIZE (meta_data
         (the (sif_set_meta_data_binary (the (the (sif_create 1 1 1 1 0 0 0 1 1 0 [])))
                 [0x6B, 0] [1, 2] 2))))) = 12
   \<and> drop 134 (contents (fp (fst (the (sif_write_meta_data
         (the (sif_set_meta_data_binary (the (the (sif_create 1 1 1 1 0 0 0 1 1 0 [])))
                 [0x6B, 0] [1, 2] 2))))))) =
       [0, 0, 0, 2, 0x6B, 0, 0, 0, 0, 2, 1, 2, 0]
   \<and> length (contents (fp (fst (the (sif_write_meta_data
         (the (sif_set_meta_data_binary (the (the (sif_create 1 1 1 1 0 0 0 1 1 0 [])))
                 [0x6B, 0] [1, 2] 2))))))) = 134 + 12 + 1
   \<and> map_option (\<lambda>(f, status). (length (contents f), status))
         (sif_close (the (sif_set_meta_data_binary (the (the (sif_create 1 1 1 1 0 0 0 1 1 0 [])))
                 [0x6B, 0] [1, 2] 2))) = Some (134 + 12 + 1, 0)
   \<and> base_location fragmented_file = 146
   \<and> map_option tile_bytes (header fragmented_file) = Some 2
   \<and> meta_data_bytes (concat (take SIF_HASH_TABLE_SIZE (meta_data fragmented_file))) = 0
   \<and> map block_num (tiles (the (sif_defragment fragmented_file))) = [- 1, 0, 1]
   \<and> error (the (sif_defragment fragmented_file)) = SIF_ERROR_NONE
   \<and> drop 146 (contents (fp (the (sif_defragment fragmented_file)))) = [3, 4, 5, 6, 5]
   \<and> length (contents (fp (the (sif_defragment fragmented_file)))) = 146 + 2 * 2 + 0 + 1"
proof -
  have 1: "map_option snd (sif_write_meta_data
      (the (sif_set_meta_data_binary (the (the (sif_create 1 1 1 1 0 0 0 1 1 0 [])))
              [0x6B, 0] [1, 2] 2))) = Some 1
   \<and> sif_get_block_location
         (the (sif_set_meta_data_binary (the (the (sif_create 1 1 1 1 0 0 0 1 1 0 [])))
                 [0x6B, 0] [1, 2] 2)) 0 = Some 134
   \<and> meta_data_bytes (concat (take SIF_HASH_TABLE_SIZE (meta_data
         (the (sif_set_meta_data_binary (the (the (sif_create 1 1 1 1 0 0 0 1 1 0 [])))
                 [0x6B, 0] [1, 2] 2))))) = 12
   \<and> drop 134 (contents (fp (fst (the (sif_write_meta_data
         (the (sif_set_meta_data_binary (the (the (sif_create 1 1 1 1 0 0 0 1 1 0 [])))
                 [0x6B, 0] [1, 2] 2))))))) =
       [0, 0, 0, 2, 0x6B, 0, 0, 0, 0, 2, 1, 2, 0]
   \<and> length (contents (fp (fst (the (sif_write_meta_data
         (the (sif_set_meta_data_binary (the (the (sif_create 1 1 1 1 0 0 0 1 1 0 [])))
                 [0x6B, 0] [1, 2] 2))))))) = 134 + 12 + 1"
    by (simp add: create_1x1 md_defs close_defs slice_defs ev_defs table_defs cong: weak_congs)
  have 2: "map_option (\<lambda>(f, status). (length (contents f), status))
         (sif_close (the (sif_set_meta_data_binary (the (the (sif_create 1 1 1 1 0 0 0 1 1 0 [])))
                 [0x6B, 0] [1, 2] 2))) = Some (134 + 12 + 1, 0)"
    by (simp add: create_1x1 md_defs close_defs slice_defs ev_defs table_defs cong: weak_congs)
  have 3: "base_location fragmented_file = 146"
    "map_option tile_bytes (header fragmented_file) = Some 2"
    "meta_data_bytes (concat (take SIF_HASH_TABLE_SIZE (meta_data fragmented_file))) = 0"
    by (simp_all add: fragmented_file_eq sif_alloc_meta_data_table_def SIF_HASH_TABLE_SIZE_def
        concat_replicate_Nil)
  have 4: "map block_num (tiles (the (sif_defragment fragmented_file))) = [- 1, 0, 1]"
    "error (the (sif_defragment fragmented_file)) = SIF_ERROR_NONE"
    "drop 146 (contents (fp (the (sif_defragment fragmented_file)))) = [3, 4, 5, 6, 5]"
    "length (contents (fp (the (sif_defragment fragmented_file)))) = 146 + 2 * 2 + 0 + 1"
    by (simp_all add: fragmented_file_eq close_defs slice_defs ev_defs table_defs md_defs
        table_concat_all cong: weak_congs)
  from 1 2 3 4 show ?thesis by (intro conjI) simp_all
qed

text \<open>
  Claim C9 (filling a band twice). When \<^verbatim>\<open>sif_fill_tile_slice\<close> has returned, a second call
  with the same tile, band and value returns too, and leaves every tile header (uniform
  flags, uniform pixel values and block number) and the map from blocks to tiles as the first
  call left them. No fill gives a block to a tile: a tile whose block number was -1 before the
  first call has the block number -1 after it and after the second.
\<close>

theorem C9_fill_tile_slice_twice:
  assumes "sif_fill_tile_slice file tx ty band value = Some file1"
  shows "\<exists>file2. sif_fill_tile_slice file1 tx ty band value = Some file2
           \<and> tiles file2 = tiles file1 \<and> blocks_to_tiles file2 = blocks_to_tiles file1
           \<and> length (tiles file1) = length (tiles file)
           \<and> (\<forall>k < length (tiles file). block_num (tiles file ! k) = - 1 \<longrightarrow>
                  block_num (tiles file1 ! k) = - 1 \<and> block_num (tiles file2 ! k) = - 1)"
proof -
  from sif_fill_tile_slice_twice[OF assms] obtain file2
    where 2: "sif_fill_tile_slice file1 tx ty band value = Some file2"
      "tiles file2 = tiles file1" "blocks_to_tiles file2 = blocks_to_tiles file1"
    by blast
  have "length (tiles file1) = length (tiles file)"
    and "block_num (tiles file ! k) = - 1 \<Longrightarrow> block_num (tiles file1 ! k) = - 1" for k
    using sif_fill_tile_slice_blocks[OF assms, of k] by auto
  with 2 show ?thesis by auto
qed

theorem C9_fill_tile_slice_twice_witness:
  "sif_fill_tile_slice (the (the (sif_create 2 1 7 1 0 0 0 2 1 0 []))) 0 0 1 (Some [5]) =
     Some (the (sif_fill_tile_slice (the (the (sif_create 2 1 7 1 0 0 0 2 1 0 []))) 0 0 1 (Some [5])))
   \<and> sif_fill_tile_slice
         (the (sif_fill_tile_slice (the (the (sif_create 2 1 7 1 0 0 0 2 1 0 []))) 0 0 1 (Some [5])))
         0 0 1 (Some [5]) \<noteq> None
   \<and> tiles (the (sif_fill_tile_slice
         (the (sif_fill_tile_slice (the (the (sif_create 2 1 7 1 0 0 0 2 1 0 []))) 0 0 1 (Some [5])))
         0 0 1 (Some [5]))) =
       tiles (the (sif_fill_tile_slice (the (the (sif_create 2 1 7 1 0 0 0 2 1 0 []))) 0 0 1
                (Some [5])))
   \<and> map block_num (tiles (the (the (sif_create 2 1 7 1 0 0 0 2 1 0 [])))) = [- 1]
   \<and> map block_num (tiles (the (sif_fill_tile_slice
         (the (the (sif_create 2 1 7 1 0 0 0 2 1 0 []))) 0 0 1 (Some [5])))) = [- 1]"
proof -
  have h: "sif_fill_tile_slice (the (the (sif_create 2 1 7 1 0 0 0 2 1 0 []))) 0 0 1 (Some [5]) =
     Some (the (sif_fill_tile_slice (the (the (sif_create 2 1 7 1 0 0 0 2 1 0 []))) 0 0 1 (Some [5])))"
    by (simp add: create_7_bands slice_defs ev_defs cong: weak_congs)
  have e: "map block_num (tiles (the (sif_fill_tile_slice
         (the (the (sif_create 2 1 7 1 0 0 0 2 1 0 []))) 0 0 1 (Some [5])))) = [- 1]"
    by (simp add: create_7_bands slice_defs ev_defs cong: weak_congs)
  from C9_fill_tile_slice_twice [OF h] h e show ?thesis
    by (auto simp: create_7_bands)
qed



end
